theory Spec2Isabelle
  imports Main
begin

section \<open>Status conditions (api/v1alpha1/common_types.go)\<close>

text \<open>
  \<open>metav1.Time\<close> is a point in time; only equality and copying are used by the code, so
  a time is an integer number of clock units. \<open>ConditionType\<close> and
  \<open>metav1.ConditionStatus\<close> are Go string types.
\<close>

type_synonym Time = int
type_synonym ConditionType = string
type_synonym ConditionStatus = string

definition ConditionReady :: ConditionType where "ConditionReady = ''Ready''"
definition ConditionProgressing :: ConditionType where "ConditionProgressing = ''Progressing''"
definition ConditionDegraded :: ConditionType where "ConditionDegraded = ''Degraded''"
definition ConditionError :: ConditionType where "ConditionError = ''Error''"

definition ConditionTrue :: ConditionStatus where "ConditionTrue = ''True''"
definition ConditionFalse :: ConditionStatus where "ConditionFalse = ''False''"
definition ConditionUnknown :: ConditionStatus where "ConditionUnknown = ''Unknown''"

record Condition =
  cond_Type :: ConditionType
  cond_Status :: ConditionStatus
  cond_LastTransitionTime :: Time
  cond_Reason :: string
  cond_Message :: string

text \<open>
  \<open>SetCondition\<close>: the loop walks the slice from the front; the first element whose type
  matches is rewritten in place and the function returns; when the loop ends without a
  match a new condition is appended. \<open>now\<close> is the value \<open>metav1.Now()\<close> returned at
  the top of the call.
\<close>

fun SetCondition ::
  "Time \<Rightarrow> Condition list \<Rightarrow> ConditionType \<Rightarrow> ConditionStatus \<Rightarrow> string \<Rightarrow> string
     \<Rightarrow> Condition list" where
  "SetCondition now [] conditionType status reason message =
     [\<lparr>cond_Type = conditionType, cond_Status = status, cond_LastTransitionTime = now,
       cond_Reason = reason, cond_Message = message\<rparr>]"
| "SetCondition now (condition # rest) conditionType status reason message =
     (if cond_Type condition = conditionType then
        (if cond_Status condition \<noteq> status then
           condition\<lparr>cond_Status := status, cond_LastTransitionTime := now,
                     cond_Reason := reason, cond_Message := message\<rparr>
         else
           condition\<lparr>cond_Reason := reason, cond_Message := message\<rparr>) # rest
      else condition # SetCondition now rest conditionType status reason message)"

text \<open>\<open>GetCondition\<close>: the first condition of the given type, \<open>nil\<close> when there is none.\<close>

fun GetCondition :: "Condition list \<Rightarrow> ConditionType \<Rightarrow> Condition option" where
  "GetCondition [] conditionType = None"
| "GetCondition (condition # rest) conditionType =
     (if cond_Type condition = conditionType then Some condition
      else GetCondition rest conditionType)"

section \<open>Connection resolution (internal/minio, \<open>buildClientConfig\<close> and \<open>NewClient\<close>)\<close>

text \<open>
  The connection block of a resource, as the resolver with alias support reads it:
  \<open>AliasRef\<close>, \<open>EndpointRef\<close>, \<open>URL\<close>, \<open>SecretRef\<close> and \<open>TLS\<close> are all
  pointers (\<open>nil\<close> is \<open>None\<close>). A reference carries a name and an optional
  namespace. Byte slices are strings.
\<close>

type_synonym bytes = string

record EndpointReference =
  ref_Name :: string
  ref_Namespace :: "string option"

type_synonym AliasReference = EndpointReference

record SecretReference =
  sec_Name :: string
  sec_Namespace :: "string option"
  AccessKeyIDKey :: string
  SecretAccessKeyKey :: string

record TLSConfig =
  Insecure :: bool
  CABundle :: bytes

record MinIOConnection =
  conn_AliasRef :: "AliasReference option"
  conn_EndpointRef :: "EndpointReference option"
  conn_URL :: "string option"
  conn_SecretRef :: "SecretReference option"
  conn_TLS :: "TLSConfig option"

text \<open>
  Of an \<open>Alias\<close> and of an \<open>Endpoint\<close> the resolver reads \<open>Spec.URL\<close>,
  \<open>Spec.SecretRef\<close>, \<open>Spec.TLS\<close>, \<open>Spec.Region\<close>, \<open>Spec.PathStyle\<close> and
  \<open>Status.Ready\<close>.
\<close>

record Alias =
  alias_URL :: string
  alias_SecretRef :: SecretReference
  alias_TLS :: "TLSConfig option"
  alias_Region :: "string option"
  alias_PathStyle :: bool
  alias_Ready :: bool

record Endpoint =
  endpoint_URL :: string
  endpoint_SecretRef :: SecretReference
  endpoint_TLS :: "TLSConfig option"
  endpoint_Region :: "string option"
  endpoint_PathStyle :: bool
  endpoint_Ready :: bool

text \<open>A secret is its \<open>Data\<close> map.\<close>

type_synonym Secret = "string \<rightharpoonup> bytes"

text \<open>
  The cluster as \<open>k8sClient.Get\<close> shows it: a fetch by namespace and name returns the
  object (\<open>Inr\<close>) or fails with an error whose text is the \<open>Inl\<close> value (not found,
  or any other failure of the call).
\<close>

record K8sClient =
  getAlias :: "string \<Rightarrow> string \<Rightarrow> string + Alias"
  getEndpoint :: "string \<Rightarrow> string \<Rightarrow> string + Endpoint"
  getSecret :: "string \<Rightarrow> string \<Rightarrow> string + Secret"

record ClientConfig =
  cfg_Endpoint :: string
  cfg_AccessKeyID :: string
  cfg_SecretAccessKey :: string
  cfg_UseSSL :: bool
  cfg_Insecure :: bool
  cfg_PathStyle :: bool
  cfg_Region :: string

text \<open>
  One constructor for each \<open>fmt.Errorf\<close> of \<open>buildClientConfig\<close>, with the values the
  message is formatted from (namespace, name, then the wrapped error or the key).
\<close>

datatype BuildError =
    GetAliasFailed string string string
  | AliasNotReady string string
  | GetAliasSecretFailed string string string
  | AliasAccessKeyNotFound string string string
  | AliasSecretKeyNotFound string string string
  | GetEndpointFailed string string string
  | EndpointNotReady string string
  | GetEndpointSecretFailed string string string
  | EndpointAccessKeyNotFound string string string
  | EndpointSecretKeyNotFound string string string
  | NoSourceSpecified
  | NoURLOrEndpointRef
  | GetSecretFailed string string string
  | AccessKeyNotFound string string string
  | SecretKeyNotFound string string string

fun BuildError_text :: "BuildError \<Rightarrow> string" where
  "BuildError_text (GetAliasFailed ns n e) = ''failed to get alias '' @ ns @ ''/'' @ n @ '': '' @ e"
| "BuildError_text (AliasNotReady ns n) = ''alias '' @ ns @ ''/'' @ n @ '' is not ready''"
| "BuildError_text (GetAliasSecretFailed ns n e) =
     ''failed to get alias secret '' @ ns @ ''/'' @ n @ '': '' @ e"
| "BuildError_text (AliasAccessKeyNotFound ns n k) =
     ''access key ID not found in alias secret '' @ ns @ ''/'' @ n @ '' with key '' @ k"
| "BuildError_text (AliasSecretKeyNotFound ns n k) =
     ''secret access key not found in alias secret '' @ ns @ ''/'' @ n @ '' with key '' @ k"
| "BuildError_text (GetEndpointFailed ns n e) =
     ''failed to get endpoint '' @ ns @ ''/'' @ n @ '': '' @ e"
| "BuildError_text (EndpointNotReady ns n) = ''endpoint '' @ ns @ ''/'' @ n @ '' is not ready''"
| "BuildError_text (GetEndpointSecretFailed ns n e) =
     ''failed to get endpoint secret '' @ ns @ ''/'' @ n @ '': '' @ e"
| "BuildError_text (EndpointAccessKeyNotFound ns n k) =
     ''access key ID not found in endpoint secret '' @ ns @ ''/'' @ n @ '' with key '' @ k"
| "BuildError_text (EndpointSecretKeyNotFound ns n k) =
     ''secret access key not found in endpoint secret '' @ ns @ ''/'' @ n @ '' with key '' @ k"
| "BuildError_text NoSourceSpecified = ''either AliasRef, URL, or EndpointRef must be specified''"
| "BuildError_text NoURLOrEndpointRef = ''either URL or EndpointRef must be specified''"
| "BuildError_text (GetSecretFailed ns n e) = ''failed to get secret '' @ ns @ ''/'' @ n @ '': '' @ e"
| "BuildError_text (AccessKeyNotFound ns n k) =
     ''access key ID not found in secret '' @ ns @ ''/'' @ n @ '' with key '' @ k"
| "BuildError_text (SecretKeyNotFound ns n k) =
     ''secret access key not found in secret '' @ ns @ ''/'' @ n @ '' with key '' @ k"

text \<open>
  The Go errors are untyped. \<open>BuildError_kind\<close> names, for each failing return of
  \<open>buildClientConfig\<close>, the class of the error taxonomy that describes it: no source
  given is a configuration error, a referenced resource that is not ready is a not-ready
  error, a secret that cannot be fetched or lacks a key is a secret error. A referenced
  Alias or Endpoint that cannot be fetched has no class of its own in the taxonomy and is
  kept apart.
\<close>

datatype ErrorKind = ConfigurationError | NotReadyError | SecretError | ReferenceLookupError

fun BuildError_kind :: "BuildError \<Rightarrow> ErrorKind" where
  "BuildError_kind (GetAliasFailed ns n e) = ReferenceLookupError"
| "BuildError_kind (AliasNotReady ns n) = NotReadyError"
| "BuildError_kind (GetAliasSecretFailed ns n e) = SecretError"
| "BuildError_kind (AliasAccessKeyNotFound ns n k) = SecretError"
| "BuildError_kind (AliasSecretKeyNotFound ns n k) = SecretError"
| "BuildError_kind (GetEndpointFailed ns n e) = ReferenceLookupError"
| "BuildError_kind (EndpointNotReady ns n) = NotReadyError"
| "BuildError_kind (GetEndpointSecretFailed ns n e) = SecretError"
| "BuildError_kind (EndpointAccessKeyNotFound ns n k) = SecretError"
| "BuildError_kind (EndpointSecretKeyNotFound ns n k) = SecretError"
| "BuildError_kind NoSourceSpecified = ConfigurationError"
| "BuildError_kind NoURLOrEndpointRef = ConfigurationError"
| "BuildError_kind (GetSecretFailed ns n e) = SecretError"
| "BuildError_kind (AccessKeyNotFound ns n k) = SecretError"
| "BuildError_kind (SecretKeyNotFound ns n k) = SecretError"

text \<open>
  The key lookup that \<open>buildClientConfig\<close> repeats for the alias secret, the endpoint
  secret and the connection's own secret: an empty key name falls back to
  \<open>accessKeyID\<close> / \<open>secretAccessKey\<close>; a key absent from \<open>secret.Data\<close> is an
  error (the access key is looked up first). The two error constructors are those of the
  copy at hand.
\<close>

definition secretCredentials ::
  "Secret \<Rightarrow> SecretReference \<Rightarrow> (string \<Rightarrow> BuildError) \<Rightarrow> (string \<Rightarrow> BuildError)
     \<Rightarrow> BuildError + (string \<times> string)" where
  "secretCredentials secret secretRef accessErr secretErr =
     (let accessKeyIDKey =
            (if AccessKeyIDKey secretRef = [] then ''accessKeyID''
             else AccessKeyIDKey secretRef)
      in case secret accessKeyIDKey of
           None \<Rightarrow> Inl (accessErr accessKeyIDKey)
         | Some accessKeyIDBytes \<Rightarrow>
             (let secretAccessKeyKey =
                    (if SecretAccessKeyKey secretRef = [] then ''secretAccessKey''
                     else SecretAccessKeyKey secretRef)
              in case secret secretAccessKeyKey of
                   None \<Rightarrow> Inl (secretErr secretAccessKeyKey)
                 | Some secretAccessKeyBytes \<Rightarrow>
                     Inr (accessKeyIDBytes, secretAccessKeyBytes)))"

definition namespaceOr :: "string option \<Rightarrow> string \<Rightarrow> string" where
  "namespaceOr ns dflt = (case ns of None \<Rightarrow> dflt | Some n \<Rightarrow> n)"

text \<open>The \<open>conn.AliasRef != nil\<close> branch of \<open>buildClientConfig\<close>.\<close>

definition configFromAlias ::
  "K8sClient \<Rightarrow> AliasReference \<Rightarrow> string \<Rightarrow> ClientConfig \<Rightarrow> BuildError + ClientConfig" where
  "configFromAlias k8sClient aliasRef defaultNamespace config =
     (let aliasNamespace = namespaceOr (ref_Namespace aliasRef) defaultNamespace in
      case getAlias k8sClient aliasNamespace (ref_Name aliasRef) of
        Inl err \<Rightarrow> Inl (GetAliasFailed aliasNamespace (ref_Name aliasRef) err)
      | Inr alias \<Rightarrow>
          if \<not> alias_Ready alias then Inl (AliasNotReady aliasNamespace (ref_Name aliasRef))
          else
            (let config1 = config\<lparr>cfg_Endpoint := alias_URL alias\<rparr>;
                 config2 = (if alias_PathStyle alias then config1\<lparr>cfg_PathStyle := True\<rparr>
                            else config1);
                 config3 = (case alias_Region alias of None \<Rightarrow> config2
                            | Some region \<Rightarrow> config2\<lparr>cfg_Region := region\<rparr>);
                 config4 = (case alias_TLS alias of None \<Rightarrow> config3
                            | Some tls \<Rightarrow> config3\<lparr>cfg_Insecure := Insecure tls\<rparr>);
                 secretRef = alias_SecretRef alias;
                 secretNamespace = namespaceOr (sec_Namespace secretRef) aliasNamespace
             in case getSecret k8sClient secretNamespace (sec_Name secretRef) of
                  Inl err \<Rightarrow> Inl (GetAliasSecretFailed secretNamespace (sec_Name secretRef) err)
                | Inr secret \<Rightarrow>
                    (case secretCredentials secret secretRef
                            (AliasAccessKeyNotFound secretNamespace (sec_Name secretRef))
                            (AliasSecretKeyNotFound secretNamespace (sec_Name secretRef)) of
                       Inl e \<Rightarrow> Inl e
                     | Inr (accessKeyID, secretAccessKey) \<Rightarrow>
                         Inr (config4\<lparr>cfg_AccessKeyID := accessKeyID,
                                      cfg_SecretAccessKey := secretAccessKey\<rparr>))))"

text \<open>The \<open>conn.EndpointRef != nil\<close> branch of \<open>buildClientConfig\<close>.\<close>

definition configFromEndpoint ::
  "K8sClient \<Rightarrow> EndpointReference \<Rightarrow> string \<Rightarrow> ClientConfig \<Rightarrow> BuildError + ClientConfig" where
  "configFromEndpoint k8sClient endpointRef defaultNamespace config =
     (let endpointNamespace = namespaceOr (ref_Namespace endpointRef) defaultNamespace in
      case getEndpoint k8sClient endpointNamespace (ref_Name endpointRef) of
        Inl err \<Rightarrow> Inl (GetEndpointFailed endpointNamespace (ref_Name endpointRef) err)
      | Inr endpoint \<Rightarrow>
          if \<not> endpoint_Ready endpoint
          then Inl (EndpointNotReady endpointNamespace (ref_Name endpointRef))
          else
            (let config1 = config\<lparr>cfg_Endpoint := endpoint_URL endpoint\<rparr>;
                 config2 = (if endpoint_PathStyle endpoint then config1\<lparr>cfg_PathStyle := True\<rparr>
                            else config1);
                 config3 = (case endpoint_Region endpoint of None \<Rightarrow> config2
                            | Some region \<Rightarrow> config2\<lparr>cfg_Region := region\<rparr>);
                 config4 = (case endpoint_TLS endpoint of None \<Rightarrow> config3
                            | Some tls \<Rightarrow> config3\<lparr>cfg_Insecure := Insecure tls\<rparr>);
                 secretRef = endpoint_SecretRef endpoint;
                 secretNamespace = namespaceOr (sec_Namespace secretRef) endpointNamespace
             in case getSecret k8sClient secretNamespace (sec_Name secretRef) of
                  Inl err \<Rightarrow>
                    Inl (GetEndpointSecretFailed secretNamespace (sec_Name secretRef) err)
                | Inr secret \<Rightarrow>
                    (case secretCredentials secret secretRef
                            (EndpointAccessKeyNotFound secretNamespace (sec_Name secretRef))
                            (EndpointSecretKeyNotFound secretNamespace (sec_Name secretRef)) of
                       Inl e \<Rightarrow> Inl e
                     | Inr (accessKeyID, secretAccessKey) \<Rightarrow>
                         Inr (config4\<lparr>cfg_AccessKeyID := accessKeyID,
                                      cfg_SecretAccessKey := secretAccessKey\<rparr>))))"

text \<open>
  The block after the source selection: when \<open>conn.URL\<close> and \<open>conn.SecretRef\<close> are
  both set, the credentials come from the connection's own secret and the connection's
  \<open>TLS\<close> block, when present, sets the insecure flag. The guard does not look at
  \<open>conn.AliasRef\<close>.
\<close>

definition directCredentials ::
  "K8sClient \<Rightarrow> MinIOConnection \<Rightarrow> string \<Rightarrow> ClientConfig \<Rightarrow> BuildError + ClientConfig" where
  "directCredentials k8sClient conn defaultNamespace config =
     (case (conn_URL conn, conn_SecretRef conn) of
        (Some url, Some secretRef) \<Rightarrow>
          (let secretNamespace = namespaceOr (sec_Namespace secretRef) defaultNamespace in
           case getSecret k8sClient secretNamespace (sec_Name secretRef) of
             Inl err \<Rightarrow> Inl (GetSecretFailed secretNamespace (sec_Name secretRef) err)
           | Inr secret \<Rightarrow>
               (case secretCredentials secret secretRef
                       (AccessKeyNotFound secretNamespace (sec_Name secretRef))
                       (SecretKeyNotFound secretNamespace (sec_Name secretRef)) of
                  Inl e \<Rightarrow> Inl e
                | Inr (accessKeyID, secretAccessKey) \<Rightarrow>
                    (let config1 = config\<lparr>cfg_AccessKeyID := accessKeyID,
                                           cfg_SecretAccessKey := secretAccessKey\<rparr>
                     in Inr (case conn_TLS conn of None \<Rightarrow> config1
                             | Some tls \<Rightarrow> config1\<lparr>cfg_Insecure := Insecure tls\<rparr>))))
      | _ \<Rightarrow> Inr config)"

definition initialConfig :: ClientConfig where
  "initialConfig = \<lparr>cfg_Endpoint = [], cfg_AccessKeyID = [], cfg_SecretAccessKey = [],
                     cfg_UseSSL = True, cfg_Insecure = False, cfg_PathStyle = False,
                     cfg_Region = []\<rparr>"

text \<open>
  \<open>buildClientConfig\<close> (the resolver with alias support): the source is chosen by the
  chain \<open>AliasRef\<close>, else \<open>URL\<close>, else \<open>EndpointRef\<close>, else an error; then the block
  for direct credentials runs.
\<close>

definition buildClientConfig ::
  "K8sClient \<Rightarrow> MinIOConnection \<Rightarrow> string \<Rightarrow> BuildError + ClientConfig" where
  "buildClientConfig k8sClient conn defaultNamespace =
     (case (case conn_AliasRef conn of
              Some aliasRef \<Rightarrow> configFromAlias k8sClient aliasRef defaultNamespace initialConfig
            | None \<Rightarrow>
                (case conn_URL conn of
                   Some url \<Rightarrow> Inr (initialConfig\<lparr>cfg_Endpoint := url\<rparr>)
                 | None \<Rightarrow>
                     (case conn_EndpointRef conn of
                        Some endpointRef \<Rightarrow>
                          configFromEndpoint k8sClient endpointRef defaultNamespace initialConfig
                      | None \<Rightarrow> Inl NoSourceSpecified))) of
        Inl e \<Rightarrow> Inl e
      | Inr config \<Rightarrow> directCredentials k8sClient conn defaultNamespace config)"

text \<open>
  \<open>NewClient\<close>: the configuration is built, then the S3 client and the admin client are
  constructed by the SDK (\<open>minio.New\<close>, \<open>madmin.New\<close>). Both constructors validate
  their arguments without contacting the server; whether they fail is a function of the
  configuration, given by the \<open>SDK\<close> record (\<open>Some\<close> is the error text).
\<close>

record SDK =
  minio_New :: "ClientConfig \<Rightarrow> string option"
  madmin_New :: "ClientConfig \<Rightarrow> string option"

datatype ClientError =
    BuildConfigFailed BuildError
  | S3ClientFailed string
  | AdminClientFailed string

fun ClientError_text :: "ClientError \<Rightarrow> string" where
  "ClientError_text (BuildConfigFailed e) = ''failed to build client config: '' @ BuildError_text e"
| "ClientError_text (S3ClientFailed e) = ''failed to create S3 client: '' @ e"
| "ClientError_text (AdminClientFailed e) = ''failed to create admin client: '' @ e"

record Client =
  client_config :: ClientConfig
  client_AppInfoSet :: bool
  client_AdminSkipVerify :: bool

definition NewClient ::
  "K8sClient \<Rightarrow> SDK \<Rightarrow> MinIOConnection \<Rightarrow> string \<Rightarrow> ClientError + Client" where
  "NewClient k8sClient sdk conn namespace =
     (case buildClientConfig k8sClient conn namespace of
        Inl err \<Rightarrow> Inl (BuildConfigFailed err)
      | Inr config \<Rightarrow>
          (case minio_New sdk config of
             Some err \<Rightarrow> Inl (S3ClientFailed err)
           | None \<Rightarrow>
               (case madmin_New sdk config of
                  Some err \<Rightarrow> Inl (AdminClientFailed err)
                | None \<Rightarrow>
                    Inr \<lparr>client_config = config,
                         client_AppInfoSet = cfg_PathStyle config,
                         client_AdminSkipVerify = cfg_Insecure config\<rparr>)))"

subsection \<open>The resolver of internal/minio/client.go\<close>

text \<open>
  The file internal/minio/client.go holds a \<open>buildClientConfig\<close> that knows \<open>URL\<close> and
  \<open>EndpointRef\<close> only, over the connection block declared in
  api/v1alpha1/common_types.go, where \<open>SecretRef\<close> is a value and not a pointer. The
  credentials always come from the connection's own secret, and the connection's
  \<open>TLS\<close> block, when present, is applied last. It is kept here under the name
  \<open>buildClientConfig_ep\<close>, its connection block as \<open>MinIOConnection_ep\<close>;
  \<open>sourceConfig_ep\<close> is the part up to the choice of the endpoint URL (lines 107 to
  143), \<open>connectionCredentials_ep\<close> the rest of the body.
\<close>

record MinIOConnection_ep =
  epconn_EndpointRef :: "EndpointReference option"
  epconn_URL :: "string option"
  epconn_SecretRef :: SecretReference
  epconn_TLS :: "TLSConfig option"

definition sourceConfig_ep ::
  "K8sClient \<Rightarrow> MinIOConnection_ep \<Rightarrow> string \<Rightarrow> BuildError + ClientConfig" where
  "sourceConfig_ep k8sClient conn defaultNamespace =
     (case epconn_URL conn of
        Some url \<Rightarrow> Inr (initialConfig\<lparr>cfg_Endpoint := url\<rparr>)
      | None \<Rightarrow>
          (case epconn_EndpointRef conn of
             Some endpointRef \<Rightarrow>
               (let endpointNamespace =
                      namespaceOr (ref_Namespace endpointRef) defaultNamespace in
                case getEndpoint k8sClient endpointNamespace (ref_Name endpointRef) of
                  Inl err \<Rightarrow>
                    Inl (GetEndpointFailed endpointNamespace (ref_Name endpointRef) err)
                | Inr endpoint \<Rightarrow>
                    if \<not> endpoint_Ready endpoint
                    then Inl (EndpointNotReady endpointNamespace (ref_Name endpointRef))
                    else
                      (let config1 = initialConfig\<lparr>cfg_Endpoint := endpoint_URL endpoint\<rparr>;
                           config2 = (if endpoint_PathStyle endpoint
                                      then config1\<lparr>cfg_PathStyle := True\<rparr> else config1);
                           config3 = (case endpoint_Region endpoint of None \<Rightarrow> config2
                                      | Some region \<Rightarrow> config2\<lparr>cfg_Region := region\<rparr>)
                       in Inr (case endpoint_TLS endpoint of None \<Rightarrow> config3
                               | Some tls \<Rightarrow> config3\<lparr>cfg_Insecure := Insecure tls\<rparr>)))
           | None \<Rightarrow> Inl NoURLOrEndpointRef))"

definition connectionCredentials_ep ::
  "K8sClient \<Rightarrow> MinIOConnection_ep \<Rightarrow> string \<Rightarrow> ClientConfig \<Rightarrow> BuildError + ClientConfig" where
  "connectionCredentials_ep k8sClient conn defaultNamespace config =
     (let secretRef = epconn_SecretRef conn;
          secretNamespace = namespaceOr (sec_Namespace secretRef) defaultNamespace in
      case getSecret k8sClient secretNamespace (sec_Name secretRef) of
        Inl err \<Rightarrow> Inl (GetSecretFailed secretNamespace (sec_Name secretRef) err)
      | Inr secret \<Rightarrow>
          (case secretCredentials secret secretRef
                  (AccessKeyNotFound secretNamespace (sec_Name secretRef))
                  (SecretKeyNotFound secretNamespace (sec_Name secretRef)) of
             Inl e \<Rightarrow> Inl e
           | Inr (accessKeyID, secretAccessKey) \<Rightarrow>
               (let config1 = config\<lparr>cfg_AccessKeyID := accessKeyID,
                                      cfg_SecretAccessKey := secretAccessKey\<rparr>
                in Inr (case epconn_TLS conn of None \<Rightarrow> config1
                        | Some tls \<Rightarrow> config1\<lparr>cfg_Insecure := Insecure tls\<rparr>))))"

definition buildClientConfig_ep ::
  "K8sClient \<Rightarrow> MinIOConnection_ep \<Rightarrow> string \<Rightarrow> BuildError + ClientConfig" where
  "buildClientConfig_ep k8sClient conn defaultNamespace =
     (case sourceConfig_ep k8sClient conn defaultNamespace of
        Inl e \<Rightarrow> Inl e
      | Inr config \<Rightarrow> connectionCredentials_ep k8sClient conn defaultNamespace config)"

section \<open>Reconcile passes (internal/controller)\<close>

text \<open>
  A \<open>time.Duration\<close> is a number of nanoseconds. \<open>ctrl.Result\<close> is represented by its
  \<open>RequeueAfter\<close> field, the only one the reconcilers set (zero when unset).
\<close>

type_synonym Duration = int

definition Second :: Duration where "Second = 1000000000"
definition Minute :: Duration where "Minute = 60 * Second"
definition Hour :: Duration where "Hour = 60 * Minute"

text \<open>
  The metadata the reconcilers read, a resource as metadata, spec and status, and the
  finalizer helpers of controller-runtime's \<open>controllerutil\<close> (a library outside this
  repository): \<open>AddFinalizer\<close> appends the marker unless it is already there,
  \<open>RemoveFinalizer\<close> drops every occurrence of it.
\<close>

record ObjectMeta =
  meta_Namespace :: string
  meta_Generation :: int
  meta_DeletionTimestamp :: "Time option"
  meta_Finalizers :: "string list"

definition ContainsFinalizer :: "ObjectMeta \<Rightarrow> string \<Rightarrow> bool" where
  "ContainsFinalizer m finalizer = (finalizer \<in> set (meta_Finalizers m))"

definition AddFinalizer :: "ObjectMeta \<Rightarrow> string \<Rightarrow> ObjectMeta" where
  "AddFinalizer m finalizer =
     (if finalizer \<in> set (meta_Finalizers m) then m
      else m\<lparr>meta_Finalizers := meta_Finalizers m @ [finalizer]\<rparr>)"

definition RemoveFinalizer :: "ObjectMeta \<Rightarrow> string \<Rightarrow> ObjectMeta" where
  "RemoveFinalizer m finalizer =
     m\<lparr>meta_Finalizers := filter (\<lambda>f. f \<noteq> finalizer) (meta_Finalizers m)\<rparr>"

record ('sp, 'st) Object =
  obj_Meta :: ObjectMeta
  obj_Spec :: 'sp
  obj_Status :: 'st

text \<open>
  A write to the API server fails with a conflict (\<open>apierrors.IsConflict\<close>) or with
  some other error; each carries its text. A pass returns either such an error or one
  built by \<open>fmt.Errorf\<close>.
\<close>

datatype ApiError = Conflict string | OtherApiError string

fun IsConflict :: "ApiError \<Rightarrow> bool" where
  "IsConflict (Conflict e) = True"
| "IsConflict (OtherApiError e) = False"

fun ApiError_text :: "ApiError \<Rightarrow> string" where
  "ApiError_text (Conflict e) = e"
| "ApiError_text (OtherApiError e) = e"

datatype ReconcileError = ApiFailure ApiError | Failure string

fun ReconcileError_text :: "ReconcileError \<Rightarrow> string" where
  "ReconcileError_text (ApiFailure e) = ApiError_text e"
| "ReconcileError_text (Failure e) = e"

text \<open>
  The calls a pass makes on the remote server through the SDK clients, with their
  arguments.
\<close>

datatype RemoteOp =
    GetUserInfo string
  | AddUser string string
  | SetUser string string string
  | SetUserStatus string string
  | SetPolicy string string bool
  | RemoveUser string
  | InfoCannedPolicy string
  | AddCannedPolicy string bytes
  | RemoveCannedPolicy string
  | BucketExists string
  | ListObjects string
  | RemoveObject string string
  | RemoveBucket string

text \<open>
  What the remote server answers: for a call that returns only an error, \<open>None\<close> is
  success and \<open>Some\<close> the error text; \<open>InfoCannedPolicy\<close> and \<open>BucketExists\<close> return
  a value or an error; \<open>ListObjects\<close> yields the channel's items in order, each an
  object key or a listing error.
\<close>

record MinIOServer =
  srv_GetUserInfo :: "string \<Rightarrow> string option"
  srv_AddUser :: "string \<Rightarrow> string \<Rightarrow> string option"
  srv_SetUser :: "string \<Rightarrow> string \<Rightarrow> string \<Rightarrow> string option"
  srv_SetUserStatus :: "string \<Rightarrow> string \<Rightarrow> string option"
  srv_SetPolicy :: "string \<Rightarrow> string \<Rightarrow> bool \<Rightarrow> string option"
  srv_RemoveUser :: "string \<Rightarrow> string option"
  srv_InfoCannedPolicy :: "string \<Rightarrow> string + bytes"
  srv_AddCannedPolicy :: "string \<Rightarrow> bytes \<Rightarrow> string option"
  srv_RemoveCannedPolicy :: "string \<Rightarrow> string option"
  srv_BucketExists :: "string \<Rightarrow> string + bool"
  srv_ListObjects :: "string \<Rightarrow> (string + string) list"
  srv_RemoveObject :: "string \<Rightarrow> string \<Rightarrow> string option"
  srv_RemoveBucket :: "string \<Rightarrow> string option"

text \<open>
  The places of a pass that read the clock (\<open>metav1.Now()\<close> inside \<open>SetCondition\<close>,
  \<open>time.Now()\<close> elsewhere); the environment gives the time read at each.
\<close>

datatype ClockSite =
    AtProgressing | AtClientError | AtReconcileError | AtErrorSync
  | AtCreationDate | AtReady | AtProgressingDone | AtLastSync

text \<open>
  Everything outside the reconciler that a pass depends on: the cluster and the SDK
  constructors (for \<open>NewClient\<close>), the remote server, the outcome of the pass's
  \<open>r.Update\<close> (a pass makes at most one), of its first and of its second
  \<open>r.Status().Update\<close> (at most two), the clock, and SHA-256 in hex.
\<close>

record Env =
  env_k8s :: K8sClient
  env_sdk :: SDK
  env_server :: MinIOServer
  env_Update :: "ApiError option"
  env_StatusUpdate1 :: "ApiError option"
  env_StatusUpdate2 :: "ApiError option"
  env_now :: "ClockSite \<Rightarrow> Time"
  env_sha256hex :: "bytes \<Rightarrow> string"

text \<open>
  What a pass does is recorded as a list of events, oldest first: each write of the
  resource (\<open>r.Update\<close>), each write of its status (\<open>r.Status().Update\<close>), both with
  the object handed to the call and the call's outcome, each call of
  \<open>minioclient.NewClient\<close> (which resolves the connection) with its error, if any, and
  each remote call.
\<close>

datatype ('sp, 'st) Event =
    UpdateCall "('sp, 'st) Object" "ApiError option"
  | StatusUpdateCall "('sp, 'st) Object" "ApiError option"
  | NewClientCall "ClientError option"
  | RemoteCall RemoteOp

text \<open>
  The state of a pass: the in-memory object the reconciler mutates, the object as the
  API server stores it, and the events so far. The resources carry
  \<open>+kubebuilder:subresource:status\<close>: \<open>Update\<close> writes metadata and spec and leaves
  the stored status alone, \<open>Status().Update\<close> writes the status only. An accepted write
  replaces the in-memory object by the stored one; a rejected write changes neither.
\<close>

record ('sp, 'st) Pass =
  pass_obj :: "('sp, 'st) Object"
  pass_stored :: "('sp, 'st) Object"
  pass_events :: "('sp, 'st) Event list"

definition Update :: "ApiError option \<Rightarrow> ('sp, 'st) Pass \<Rightarrow> ('sp, 'st) Pass" where
  "Update outcome p =
     (case outcome of
        None \<Rightarrow>
          (let written = (pass_stored p)\<lparr>obj_Meta := obj_Meta (pass_obj p),
                                          obj_Spec := obj_Spec (pass_obj p)\<rparr>
           in \<lparr>pass_obj = written, pass_stored = written,
               pass_events = pass_events p @ [UpdateCall (pass_obj p) None]\<rparr>)
      | Some err \<Rightarrow>
          p\<lparr>pass_events := pass_events p @ [UpdateCall (pass_obj p) (Some err)]\<rparr>)"

definition StatusUpdate :: "ApiError option \<Rightarrow> ('sp, 'st) Pass \<Rightarrow> ('sp, 'st) Pass" where
  "StatusUpdate outcome p =
     (case outcome of
        None \<Rightarrow>
          (let written = (pass_stored p)\<lparr>obj_Status := obj_Status (pass_obj p)\<rparr>
           in \<lparr>pass_obj = written, pass_stored = written,
               pass_events = pass_events p @ [StatusUpdateCall (pass_obj p) None]\<rparr>)
      | Some err \<Rightarrow>
          p\<lparr>pass_events := pass_events p @ [StatusUpdateCall (pass_obj p) (Some err)]\<rparr>)"

definition remote :: "RemoteOp \<Rightarrow> ('sp, 'st) Pass \<Rightarrow> ('sp, 'st) Pass" where
  "remote op p = p\<lparr>pass_events := pass_events p @ [RemoteCall op]\<rparr>"

text \<open>The error of a call that returns a value or an error.\<close>

definition errOf :: "'e + 'a \<Rightarrow> 'e option" where
  "errOf result = (case result of Inl err \<Rightarrow> Some err | Inr v \<Rightarrow> None)"

definition clientCalled :: "ClientError + Client \<Rightarrow> ('sp, 'st) Pass \<Rightarrow> ('sp, 'st) Pass" where
  "clientCalled result p = p\<lparr>pass_events := pass_events p @ [NewClientCall (errOf result)]\<rparr>"

definition setStatus :: "('st \<Rightarrow> 'st) \<Rightarrow> ('sp, 'st) Pass \<Rightarrow> ('sp, 'st) Pass" where
  "setStatus f p = p\<lparr>pass_obj := (pass_obj p)\<lparr>obj_Status := f (obj_Status (pass_obj p))\<rparr>\<rparr>"

definition setMeta :: "(ObjectMeta \<Rightarrow> ObjectMeta) \<Rightarrow> ('sp, 'st) Pass \<Rightarrow> ('sp, 'st) Pass" where
  "setMeta f p = p\<lparr>pass_obj := (pass_obj p)\<lparr>obj_Meta := f (obj_Meta (pass_obj p))\<rparr>\<rparr>"

definition startPass :: "('sp, 'st) Object \<Rightarrow> ('sp, 'st) Pass" where
  "startPass obj = \<lparr>pass_obj = obj, pass_stored = obj, pass_events = []\<rparr>"

text \<open>What a pass returns, with the state it leaves.\<close>

record ('sp, 'st) Outcome =
  RequeueAfter :: Duration
  returned_err :: "ReconcileError option"
  pass :: "('sp, 'st) Pass"

text \<open>
  The end of every \<open>handleDeletion\<close> that cleaned up: the marker is removed from the
  in-memory object, the object is written, and the write's error, if any, is returned.
\<close>

definition removeFinalizerAndUpdate ::
  "Env \<Rightarrow> string \<Rightarrow> ('sp, 'st) Pass \<Rightarrow> ('sp, 'st) Outcome" where
  "removeFinalizerAndUpdate env finalizer p =
     \<lparr>RequeueAfter = 0, returned_err = map_option ApiFailure (env_Update env),
      pass = Update (env_Update env) (setMeta (\<lambda>m. RemoveFinalizer m finalizer) p)\<rparr>"

subsection \<open>The User reconciler\<close>

definition UserFinalizer :: string where
  "UserFinalizer = ''user.minio.mxcd.dev/finalizer''"

definition UserStatusEnabled :: string where "UserStatusEnabled = ''enabled''"
definition UserStatusDisabled :: string where "UserStatusDisabled = ''disabled''"

text \<open>\<open>madmin.AccountEnabled\<close> and \<open>madmin.AccountDisabled\<close> are the account states of the SDK.\<close>

definition AccountEnabled :: string where "AccountEnabled = ''enabled''"
definition AccountDisabled :: string where "AccountDisabled = ''disabled''"

record UserSpec =
  us_Connection :: MinIOConnection
  us_Username :: string
  us_SecretRef :: "SecretReference option"
  us_Password :: "string option"
  us_Status :: string
  us_Groups :: "string list"
  us_Policies :: "string list"

record UserStatus =
  ust_Conditions :: "Condition list"
  ust_Ready :: bool
  ust_Username :: string
  ust_Status :: string
  ust_Groups :: "string list"
  ust_Policies :: "string list"
  ust_CreationDate :: "Time option"
  ust_LastSyncTime :: "Time option"
  ust_ObservedGeneration :: int

type_synonym User = "(UserSpec, UserStatus) Object"

definition getPassword :: "K8sClient \<Rightarrow> User \<Rightarrow> string + string" where
  "getPassword k8sClient user =
     (case us_Password (obj_Spec user) of
        Some password \<Rightarrow> Inr password
      | None \<Rightarrow>
          (case us_SecretRef (obj_Spec user) of
             None \<Rightarrow> Inl ''either password or secretRef must be specified''
           | Some secretRef \<Rightarrow>
               (let secretNamespace =
                      namespaceOr (sec_Namespace secretRef) (meta_Namespace (obj_Meta user))
                in case getSecret k8sClient secretNamespace (sec_Name secretRef) of
                     Inl err \<Rightarrow> Inl (''failed to get password secret: '' @ err)
                   | Inr secret \<Rightarrow>
                       (let passwordKey =
                              (if SecretAccessKeyKey secretRef \<noteq> []
                               then SecretAccessKeyKey secretRef else ''password'')
                        in case secret passwordKey of
                             None \<Rightarrow>
                               Inl (''password not found in secret with key '' @ passwordKey)
                           | Some passwordBytes \<Rightarrow> Inr passwordBytes))))"

text \<open>\<open>reconcileUser\<close> from the comment "Set user status" to its end.\<close>

definition reconcileUser_status ::
  "Env \<Rightarrow> (UserSpec, UserStatus) Pass \<Rightarrow> (UserSpec, UserStatus) Outcome" where
  "reconcileUser_status env p =
     (let spec = obj_Spec (pass_obj p);
          status = (if us_Status spec = UserStatusDisabled then AccountDisabled
                    else AccountEnabled);
          p1 = remote (SetUserStatus (us_Username spec) status) p
      in case srv_SetUserStatus (env_server env) (us_Username spec) status of
           Some err \<Rightarrow>
             \<lparr>RequeueAfter = Minute,
              returned_err = Some (Failure (''failed to set user status: '' @ err)),
              pass = p1\<rparr>
         | None \<Rightarrow>
             (let p2 = setStatus (\<lambda>s. s\<lparr>ust_Status := us_Status spec,
                                          ust_Groups := us_Groups spec,
                                          ust_Policies := us_Policies spec\<rparr>) p1;
                  p3 = (case us_Policies spec of
                          [] \<Rightarrow> p2
                        | policy # others \<Rightarrow>
                            remote (SetPolicy policy (us_Username spec) False) p2)
              in \<lparr>RequeueAfter = Hour, returned_err = None, pass = p3\<rparr>))"

definition reconcileUser ::
  "Env \<Rightarrow> (UserSpec, UserStatus) Pass \<Rightarrow> (UserSpec, UserStatus) Outcome" where
  "reconcileUser env p =
     (let user = pass_obj p; username = us_Username (obj_Spec user) in
      case getPassword (env_k8s env) user of
        Inl err \<Rightarrow>
          \<lparr>RequeueAfter = Minute,
           returned_err = Some (Failure (''failed to get password: '' @ err)), pass = p\<rparr>
      | Inr password \<Rightarrow>
          (let p1 = remote (GetUserInfo username) p;
               userExists = (srv_GetUserInfo (env_server env) username = None)
           in if \<not> userExists then
                (let p2 = remote (AddUser username password) p1 in
                 case srv_AddUser (env_server env) username password of
                   Some err \<Rightarrow>
                     \<lparr>RequeueAfter = Minute,
                      returned_err = Some (Failure (''failed to create user: '' @ err)),
                      pass = p2\<rparr>
                 | None \<Rightarrow>
                     reconcileUser_status env
                       (setStatus (\<lambda>s. s\<lparr>ust_CreationDate :=
                                             Some (env_now env AtCreationDate)\<rparr>) p2))
              else
                (let p2 = remote (SetUser username password AccountEnabled) p1 in
                 case srv_SetUser (env_server env) username password AccountEnabled of
                   Some err \<Rightarrow>
                     \<lparr>RequeueAfter = Minute,
                      returned_err = Some (Failure (''failed to update user: '' @ err)),
                      pass = p2\<rparr>
                 | None \<Rightarrow> reconcileUser_status env p2)))"

definition UserReconciler_handleDeletion ::
  "Env \<Rightarrow> (UserSpec, UserStatus) Pass \<Rightarrow> (UserSpec, UserStatus) Outcome" where
  "UserReconciler_handleDeletion env p =
     (let user = pass_obj p; username = us_Username (obj_Spec user) in
      if ContainsFinalizer (obj_Meta user) UserFinalizer then
        (let created = NewClient (env_k8s env) (env_sdk env) (us_Connection (obj_Spec user))
                         (meta_Namespace (obj_Meta user));
             pc = clientCalled created p
         in case created of
           Inl err \<Rightarrow> \<lparr>RequeueAfter = Minute, returned_err = None, pass = pc\<rparr>
         | Inr minioClient \<Rightarrow>
             (let p1 = remote (GetUserInfo username) pc in
              if srv_GetUserInfo (env_server env) username = None then
                (let p2 = remote (RemoveUser username) p1 in
                 case srv_RemoveUser (env_server env) username of
                   Some err \<Rightarrow> \<lparr>RequeueAfter = Minute, returned_err = None, pass = p2\<rparr>
                 | None \<Rightarrow> removeFinalizerAndUpdate env UserFinalizer p2)
              else removeFinalizerAndUpdate env UserFinalizer p1))
      else \<lparr>RequeueAfter = 0, returned_err = None, pass = p\<rparr>)"

text \<open>
  \<open>UserReconciler.Reconcile\<close> from the point where \<open>r.Get\<close> has returned the resource
  (a failed or empty fetch returns at once and does nothing). The part after the first
  status write is \<open>UserReconciler_converge\<close>.
\<close>

definition UserReconciler_converge ::
  "Env \<Rightarrow> (UserSpec, UserStatus) Pass \<Rightarrow> (UserSpec, UserStatus) Outcome" where
  "UserReconciler_converge env p =
     (let user = pass_obj p;
          created = NewClient (env_k8s env) (env_sdk env) (us_Connection (obj_Spec user))
                      (meta_Namespace (obj_Meta user));
          pc = clientCalled created p
      in case created of
        Inl err \<Rightarrow>
          (let p1 = setStatus (\<lambda>s. s\<lparr>ust_Conditions :=
                          SetCondition (env_now env AtClientError) (ust_Conditions s)
                            ConditionError ConditionTrue ''ClientError''
                            (''Failed to create MinIO client: '' @ ClientError_text err),
                        ust_Ready := False\<rparr>) pc
           in \<lparr>RequeueAfter = Minute, returned_err = None,
               pass = StatusUpdate (env_StatusUpdate2 env) p1\<rparr>)
      | Inr minioClient \<Rightarrow>
          (let out = reconcileUser env pc in
           case returned_err out of
             Some err \<Rightarrow>
               (let p1 = setStatus (\<lambda>s. s\<lparr>ust_Conditions :=
                               SetCondition (env_now env AtReconcileError) (ust_Conditions s)
                                 ConditionError ConditionTrue ''ReconcileError''
                                 (''Failed to reconcile user: '' @ ReconcileError_text err),
                             ust_Ready := False,
                             ust_LastSyncTime := Some (env_now env AtErrorSync)\<rparr>) (pass out)
                in \<lparr>RequeueAfter = RequeueAfter out, returned_err = Some err,
                    pass = StatusUpdate (env_StatusUpdate2 env) p1\<rparr>)
           | None \<Rightarrow>
               (let p1 = setStatus (\<lambda>s. s\<lparr>ust_Conditions :=
                               SetCondition (env_now env AtProgressingDone)
                                 (SetCondition (env_now env AtReady) (ust_Conditions s)
                                    ConditionReady ConditionTrue ''Ready'' ''User is ready'')
                                 ConditionProgressing ConditionFalse ''Ready''
                                 ''User reconciliation completed'',
                             ust_Ready := True,
                             ust_Username := us_Username (obj_Spec (pass_obj (pass out))),
                             ust_LastSyncTime := Some (env_now env AtLastSync)\<rparr>) (pass out);
                    p2 = StatusUpdate (env_StatusUpdate2 env) p1
                in case env_StatusUpdate2 env of
                     Some err \<Rightarrow>
                       \<lparr>RequeueAfter = 0, returned_err = Some (ApiFailure err), pass = p2\<rparr>
                   | None \<Rightarrow>
                       \<lparr>RequeueAfter = RequeueAfter out, returned_err = None, pass = p2\<rparr>)))"

definition UserReconciler_Reconcile :: "Env \<Rightarrow> User \<Rightarrow> (UserSpec, UserStatus) Outcome" where
  "UserReconciler_Reconcile env user =
     (let p0 = startPass user in
      if meta_DeletionTimestamp (obj_Meta user) \<noteq> None
      then UserReconciler_handleDeletion env p0
      else if \<not> ContainsFinalizer (obj_Meta user) UserFinalizer then
        \<lparr>RequeueAfter = 0, returned_err = map_option ApiFailure (env_Update env),
         pass = Update (env_Update env) (setMeta (\<lambda>m. AddFinalizer m UserFinalizer) p0)\<rparr>
      else
        (let p1 = setStatus (\<lambda>s. s\<lparr>ust_Conditions :=
                        SetCondition (env_now env AtProgressing) (ust_Conditions s)
                          ConditionProgressing ConditionTrue ''Reconciling''
                          ''Reconciling user'',
                      ust_ObservedGeneration := meta_Generation (obj_Meta user)\<rparr>) p0;
             p2 = StatusUpdate (env_StatusUpdate1 env) p1
         in case env_StatusUpdate1 env of
              Some err \<Rightarrow>
                \<lparr>RequeueAfter = 0, returned_err = Some (ApiFailure err), pass = p2\<rparr>
            | None \<Rightarrow> UserReconciler_converge env p2))"

subsection \<open>The Policy reconciler\<close>

definition PolicyFinalizer :: string where
  "PolicyFinalizer = ''policy.mc-controller.mxcd.de/finalizer''"

record PolicySpec =
  ps_Connection :: MinIOConnection
  ps_PolicyName :: string
  ps_Policy :: bytes

record PolicyStatus =
  pst_Conditions :: "Condition list"
  pst_Ready :: bool
  pst_PolicyName :: string
  pst_PolicyHash :: string
  pst_CreationDate :: "Time option"
  pst_LastSyncTime :: "Time option"
  pst_ObservedGeneration :: int

type_synonym Policy = "(PolicySpec, PolicyStatus) Object"

definition reconcilePolicy ::
  "Env \<Rightarrow> (PolicySpec, PolicyStatus) Pass \<Rightarrow> (PolicySpec, PolicyStatus) Outcome" where
  "reconcilePolicy env p =
     (let policy = pass_obj p; desiredBytes = ps_Policy (obj_Spec policy);
          policyName = ps_PolicyName (obj_Spec policy) in
      if desiredBytes = [] then
        \<lparr>RequeueAfter = 0, returned_err = Some (Failure ''policy document is empty''),
         pass = p\<rparr>
      else
        (let hash = env_sha256hex env desiredBytes;
             p1 = remote (InfoCannedPolicy policyName) p;
             exists = (case srv_InfoCannedPolicy (env_server env) policyName of
                         Inl err \<Rightarrow> False
                       | Inr existing \<Rightarrow> existing \<noteq> [])
         in if \<not> exists \<or> pst_PolicyHash (obj_Status policy) \<noteq> hash then
              (let p2 = remote (AddCannedPolicy policyName desiredBytes) p1 in
               case srv_AddCannedPolicy (env_server env) policyName desiredBytes of
                 Some err \<Rightarrow>
                   \<lparr>RequeueAfter = Minute,
                    returned_err =
                      Some (Failure (''failed to add/update canned policy: '' @ err)),
                    pass = p2\<rparr>
               | None \<Rightarrow>
                   (let p3 = (if \<not> exists
                              then setStatus (\<lambda>s. s\<lparr>pst_CreationDate :=
                                     Some (env_now env AtCreationDate)\<rparr>) p2
                              else p2)
                    in \<lparr>RequeueAfter = Hour, returned_err = None,
                        pass = setStatus (\<lambda>s. s\<lparr>pst_PolicyHash := hash\<rparr>) p3\<rparr>))
            else
              \<lparr>RequeueAfter = Hour, returned_err = None,
               pass = setStatus (\<lambda>s. s\<lparr>pst_PolicyHash := hash\<rparr>) p1\<rparr>))"

definition PolicyReconciler_handleDeletion ::
  "Env \<Rightarrow> (PolicySpec, PolicyStatus) Pass \<Rightarrow> (PolicySpec, PolicyStatus) Outcome" where
  "PolicyReconciler_handleDeletion env p =
     (let policy = pass_obj p; policyName = ps_PolicyName (obj_Spec policy) in
      if ContainsFinalizer (obj_Meta policy) PolicyFinalizer then
        (let created = NewClient (env_k8s env) (env_sdk env) (ps_Connection (obj_Spec policy))
                         (meta_Namespace (obj_Meta policy));
             pc = clientCalled created p
         in case created of
           Inr minioClient \<Rightarrow>
             (let p1 = remote (RemoveCannedPolicy policyName) pc in
              case srv_RemoveCannedPolicy (env_server env) policyName of
                Some err \<Rightarrow> \<lparr>RequeueAfter = Minute, returned_err = None, pass = p1\<rparr>
              | None \<Rightarrow> removeFinalizerAndUpdate env PolicyFinalizer p1)
         | Inl err \<Rightarrow> \<lparr>RequeueAfter = Minute, returned_err = None, pass = pc\<rparr>)
      else \<lparr>RequeueAfter = 0, returned_err = None, pass = p\<rparr>)"

text \<open>
  \<open>PolicyReconciler.Reconcile\<close> after the fetch, in three parts: up to the write of the
  finalizer (\<open>PolicyReconciler_Reconcile\<close>), the progressing mark and the first status
  write (\<open>PolicyReconciler_progress\<close>), and the rest (\<open>PolicyReconciler_converge\<close>).
  Unlike the User reconciler it goes on after a successful write of the finalizer, and it
  answers a conflict on the first and on the last status write by a requeue after
  \<open>time.Second\<close> without an error.
\<close>

definition PolicyReconciler_converge ::
  "Env \<Rightarrow> (PolicySpec, PolicyStatus) Pass \<Rightarrow> (PolicySpec, PolicyStatus) Outcome" where
  "PolicyReconciler_converge env p =
     (let policy = pass_obj p;
          created = NewClient (env_k8s env) (env_sdk env) (ps_Connection (obj_Spec policy))
                      (meta_Namespace (obj_Meta policy));
          pc = clientCalled created p
      in case created of
        Inl err \<Rightarrow>
          (let p1 = setStatus (\<lambda>s. s\<lparr>pst_Conditions :=
                          SetCondition (env_now env AtClientError) (pst_Conditions s)
                            ConditionError ConditionTrue ''ClientError''
                            (''Failed to create MinIO client: '' @ ClientError_text err),
                        pst_Ready := False\<rparr>) pc
           in \<lparr>RequeueAfter = Minute, returned_err = None,
               pass = StatusUpdate (env_StatusUpdate2 env) p1\<rparr>)
      | Inr minioClient \<Rightarrow>
          (let out = reconcilePolicy env pc in
           case returned_err out of
             Some err \<Rightarrow>
               (let p1 = setStatus (\<lambda>s. s\<lparr>pst_Conditions :=
                               SetCondition (env_now env AtReconcileError) (pst_Conditions s)
                                 ConditionError ConditionTrue ''ReconcileError''
                                 (''Failed to reconcile policy: '' @ ReconcileError_text err),
                             pst_Ready := False,
                             pst_LastSyncTime := Some (env_now env AtErrorSync)\<rparr>) (pass out)
                in \<lparr>RequeueAfter = RequeueAfter out, returned_err = Some err,
                    pass = StatusUpdate (env_StatusUpdate2 env) p1\<rparr>)
           | None \<Rightarrow>
               (let p1 = setStatus (\<lambda>s. s\<lparr>pst_Conditions :=
                               SetCondition (env_now env AtProgressingDone)
                                 (SetCondition (env_now env AtReady) (pst_Conditions s)
                                    ConditionReady ConditionTrue ''Ready'' ''Policy is ready'')
                                 ConditionProgressing ConditionFalse ''Ready''
                                 ''Policy reconciliation completed'',
                             pst_Ready := True,
                             pst_PolicyName := ps_PolicyName (obj_Spec (pass_obj (pass out))),
                             pst_LastSyncTime := Some (env_now env AtLastSync)\<rparr>) (pass out);
                    p2 = StatusUpdate (env_StatusUpdate2 env) p1
                in case env_StatusUpdate2 env of
                     Some err \<Rightarrow>
                       if IsConflict err
                       then \<lparr>RequeueAfter = Second, returned_err = None, pass = p2\<rparr>
                       else \<lparr>RequeueAfter = 0, returned_err = Some (ApiFailure err),
                             pass = p2\<rparr>
                   | None \<Rightarrow>
                       \<lparr>RequeueAfter = RequeueAfter out, returned_err = None, pass = p2\<rparr>)))"

definition PolicyReconciler_progress ::
  "Env \<Rightarrow> (PolicySpec, PolicyStatus) Pass \<Rightarrow> (PolicySpec, PolicyStatus) Outcome" where
  "PolicyReconciler_progress env p =
     (let p1 = setStatus (\<lambda>s. s\<lparr>pst_Conditions :=
                     SetCondition (env_now env AtProgressing) (pst_Conditions s)
                       ConditionProgressing ConditionTrue ''Reconciling''
                       ''Reconciling policy'',
                   pst_ObservedGeneration := meta_Generation (obj_Meta (pass_obj p))\<rparr>) p;
          p2 = StatusUpdate (env_StatusUpdate1 env) p1
      in case env_StatusUpdate1 env of
           Some err \<Rightarrow>
             if IsConflict err
             then \<lparr>RequeueAfter = Second, returned_err = None, pass = p2\<rparr>
             else \<lparr>RequeueAfter = 0, returned_err = Some (ApiFailure err), pass = p2\<rparr>
         | None \<Rightarrow> PolicyReconciler_converge env p2)"

definition PolicyReconciler_Reconcile ::
  "Env \<Rightarrow> Policy \<Rightarrow> (PolicySpec, PolicyStatus) Outcome" where
  "PolicyReconciler_Reconcile env policy =
     (let p0 = startPass policy in
      if meta_DeletionTimestamp (obj_Meta policy) \<noteq> None
      then PolicyReconciler_handleDeletion env p0
      else if \<not> ContainsFinalizer (obj_Meta policy) PolicyFinalizer then
        (let p1 = Update (env_Update env) (setMeta (\<lambda>m. AddFinalizer m PolicyFinalizer) p0)
         in case env_Update env of
              Some err \<Rightarrow>
                \<lparr>RequeueAfter = 0, returned_err = Some (ApiFailure err), pass = p1\<rparr>
            | None \<Rightarrow> PolicyReconciler_progress env p1)
      else PolicyReconciler_progress env p0)"

subsection \<open>Deletion of a Bucket\<close>

definition BucketFinalizer :: string where
  "BucketFinalizer = ''bucket.mc-controller.mxcd.de/finalizer''"

text \<open>Of a Bucket, \<open>handleDeletion\<close> reads the connection and the bucket name.\<close>

record BucketSpec =
  bs_Connection :: MinIOConnection
  bs_BucketName :: string

record BucketStatus =
  bst_Conditions :: "Condition list"
  bst_Ready :: bool
  bst_BucketName :: string
  bst_Region :: string
  bst_CreationDate :: "Time option"
  bst_LastSyncTime :: "Time option"
  bst_ObservedGeneration :: int

text \<open>
  \<open>emptyBucket\<close>: the loop over the listing channel stops at the first listing error
  and at the first object that cannot be removed.
\<close>

fun emptyBucket_loop ::
  "MinIOServer \<Rightarrow> string \<Rightarrow> (string + string) list \<Rightarrow> ('sp, 'st) Pass
     \<Rightarrow> string option \<times> ('sp, 'st) Pass" where
  "emptyBucket_loop server bucketName [] p = (None, p)"
| "emptyBucket_loop server bucketName (Inl err # rest) p =
     (Some (''error listing objects: '' @ err), p)"
| "emptyBucket_loop server bucketName (Inr key # rest) p =
     (let p1 = remote (RemoveObject bucketName key) p in
      case srv_RemoveObject server bucketName key of
        Some err \<Rightarrow> (Some (''error removing object '' @ key @ '': '' @ err), p1)
      | None \<Rightarrow> emptyBucket_loop server bucketName rest p1)"

definition emptyBucket ::
  "MinIOServer \<Rightarrow> string \<Rightarrow> ('sp, 'st) Pass \<Rightarrow> string option \<times> ('sp, 'st) Pass" where
  "emptyBucket server bucketName p =
     emptyBucket_loop server bucketName (srv_ListObjects server bucketName)
       (remote (ListObjects bucketName) p)"

definition BucketReconciler_handleDeletion ::
  "Env \<Rightarrow> (BucketSpec, BucketStatus) Pass \<Rightarrow> (BucketSpec, BucketStatus) Outcome" where
  "BucketReconciler_handleDeletion env p =
     (let bucket = pass_obj p; bucketName = bs_BucketName (obj_Spec bucket) in
      if ContainsFinalizer (obj_Meta bucket) BucketFinalizer then
        (let created = NewClient (env_k8s env) (env_sdk env) (bs_Connection (obj_Spec bucket))
                         (meta_Namespace (obj_Meta bucket));
             pc = clientCalled created p
         in case created of
           Inl err \<Rightarrow> \<lparr>RequeueAfter = Minute, returned_err = None, pass = pc\<rparr>
         | Inr minioClient \<Rightarrow>
             (let p1 = remote (BucketExists bucketName) pc in
              case srv_BucketExists (env_server env) bucketName of
                Inl err \<Rightarrow> \<lparr>RequeueAfter = Minute, returned_err = None, pass = p1\<rparr>
              | Inr exists \<Rightarrow>
                  if exists then
                    (case emptyBucket (env_server env) bucketName p1 of
                       (Some err, p2) \<Rightarrow>
                         \<lparr>RequeueAfter = Minute, returned_err = None, pass = p2\<rparr>
                     | (None, p2) \<Rightarrow>
                         (let p3 = remote (RemoveBucket bucketName) p2 in
                          case srv_RemoveBucket (env_server env) bucketName of
                            Some err \<Rightarrow>
                              \<lparr>RequeueAfter = Minute, returned_err = None, pass = p3\<rparr>
                          | None \<Rightarrow> removeFinalizerAndUpdate env BucketFinalizer p3))
                  else removeFinalizerAndUpdate env BucketFinalizer p1))
      else \<lparr>RequeueAfter = 0, returned_err = None, pass = p\<rparr>)"

subsection \<open>What the lifecycle properties talk about\<close>

text \<open>
  \<open>finalizerBeforeRemote f persisted es\<close> reads a list of events from the left, keeping
  track of whether the stored resource carries the marker \<open>f\<close> (an accepted \<open>Update\<close>
  stores the finalizers of the object written, nothing else changes them), and holds when
  every remote call in the list happens while the stored resource carries the marker.
\<close>

fun finalizerBeforeRemote :: "string \<Rightarrow> bool \<Rightarrow> ('sp, 'st) Event list \<Rightarrow> bool" where
  "finalizerBeforeRemote f persisted [] = True"
| "finalizerBeforeRemote f persisted (UpdateCall obj outcome # es) =
     finalizerBeforeRemote f
       (if outcome = None then ContainsFinalizer (obj_Meta obj) f else persisted) es"
| "finalizerBeforeRemote f persisted (StatusUpdateCall obj outcome # es) =
     finalizerBeforeRemote f persisted es"
| "finalizerBeforeRemote f persisted (NewClientCall outcome # es) =
     finalizerBeforeRemote f persisted es"
| "finalizerBeforeRemote f persisted (RemoteCall op # es) =
     (persisted \<and> finalizerBeforeRemote f persisted es)"

fun isUpdateCall :: "('sp, 'st) Event \<Rightarrow> bool" where
  "isUpdateCall (UpdateCall obj outcome) = True"
| "isUpdateCall e = False"

fun isRemoteCall :: "('sp, 'st) Event \<Rightarrow> bool" where
  "isRemoteCall (RemoteCall op) = True"
| "isRemoteCall e = False"

text \<open>
  \<open>remoteOnly p q\<close>: from the pass state \<open>p\<close> to \<open>q\<close> only remote calls were made;
  the stored resource and the in-memory metadata and spec are the same.
\<close>

definition remoteOnly :: "('sp, 'st) Pass \<Rightarrow> ('sp, 'st) Pass \<Rightarrow> bool" where
  "remoteOnly p q =
     (pass_stored q = pass_stored p
      \<and> obj_Meta (pass_obj q) = obj_Meta (pass_obj p)
      \<and> obj_Spec (pass_obj q) = obj_Spec (pass_obj p)
      \<and> take (length (pass_events p)) (pass_events q) = pass_events p
      \<and> list_all isRemoteCall (drop (length (pass_events p)) (pass_events q)))"

text \<open>The status handed to the last status write of a list of events, if there is one.\<close>

fun lastStatusWritten :: "('sp, 'st) Event list \<Rightarrow> 'st option" where
  "lastStatusWritten [] = None"
| "lastStatusWritten (StatusUpdateCall obj outcome # es) =
     (case lastStatusWritten es of None \<Rightarrow> Some (obj_Status obj) | Some s \<Rightarrow> Some s)"
| "lastStatusWritten (e # es) = lastStatusWritten es"

fun isFailure :: "ReconcileError option \<Rightarrow> bool" where
  "isFailure (Some (Failure e)) = True"
| "isFailure r = False"

subsection \<open>What the resolution properties talk about\<close>


definition tlsInsecure :: "TLSConfig option \<Rightarrow> bool" where
  "tlsInsecure tls = (case tls of None \<Rightarrow> False | Some t \<Rightarrow> Insecure t)"

definition regionOrEmpty :: "string option \<Rightarrow> string" where
  "regionOrEmpty region = (case region of None \<Rightarrow> [] | Some r \<Rightarrow> r)"

subsection \<open>A small cluster for concrete runs\<close>

text \<open>
  Namespace \<open>default\<close> holds the secret \<open>minio-credentials\<close> with both default keys,
  the aliases \<open>minio-local\<close> (ready), \<open>minio-pending\<close> (not ready) and
  \<open>minio-nosecret\<close> (ready, its secret is absent), and the endpoints \<open>minio-ep\<close>
  (ready), \<open>minio-ep-pending\<close> (not ready) and \<open>minio-ep-nosecret\<close>.
\<close>

definition ex_secretRef :: SecretReference where
  "ex_secretRef = \<lparr>sec_Name = ''minio-credentials'', sec_Namespace = None,
                    AccessKeyIDKey = [], SecretAccessKeyKey = []\<rparr>"

definition ex_alias :: Alias where
  "ex_alias = \<lparr>alias_URL = ''minio:9000'', alias_SecretRef = ex_secretRef,
                alias_TLS = None, alias_Region = None, alias_PathStyle = False,
                alias_Ready = True\<rparr>"

definition ex_endpoint :: Endpoint where
  "ex_endpoint = \<lparr>endpoint_URL = ''minio:9000'', endpoint_SecretRef = ex_secretRef,
                   endpoint_TLS = None, endpoint_Region = None, endpoint_PathStyle = False,
                   endpoint_Ready = True\<rparr>"

definition ex_getAlias :: "string \<Rightarrow> string \<Rightarrow> string + Alias" where
  "ex_getAlias ns n =
     (if ns = ''default'' \<and> n = ''minio-local'' then Inr ex_alias
      else if ns = ''default'' \<and> n = ''minio-pending''
        then Inr (ex_alias\<lparr>alias_Ready := False\<rparr>)
      else if ns = ''default'' \<and> n = ''minio-nosecret''
        then Inr (ex_alias\<lparr>alias_SecretRef := ex_secretRef\<lparr>sec_Name := ''absent''\<rparr>\<rparr>)
      else Inl ''not found'')"

definition ex_getEndpoint :: "string \<Rightarrow> string \<Rightarrow> string + Endpoint" where
  "ex_getEndpoint ns n =
     (if ns = ''default'' \<and> n = ''minio-ep'' then Inr ex_endpoint
      else if ns = ''default'' \<and> n = ''minio-ep-pending''
        then Inr (ex_endpoint\<lparr>endpoint_Ready := False\<rparr>)
      else if ns = ''default'' \<and> n = ''minio-ep-nosecret''
        then Inr (ex_endpoint\<lparr>endpoint_SecretRef := ex_secretRef\<lparr>sec_Name := ''absent''\<rparr>\<rparr>)
      else Inl ''not found'')"

definition ex_getSecret :: "string \<Rightarrow> string \<Rightarrow> string + Secret" where
  "ex_getSecret ns n =
     (if ns = ''default'' \<and> n = ''minio-credentials''
      then Inr [''accessKeyID'' \<mapsto> ''k'', ''secretAccessKey'' \<mapsto> ''s'']
      else Inl ''not found'')"

text \<open>
  The SDK constructors take the endpoint as \<open>host:port\<close>: the example SDK rejects an
  endpoint that carries a scheme and accepts any other.
\<close>

definition ex_sdk_New :: "ClientConfig \<Rightarrow> string option" where
  "ex_sdk_New config =
     (if take 7 (cfg_Endpoint config) = ''http://''
         \<or> take 8 (cfg_Endpoint config) = ''https://''
      then Some ''endpoint does not follow ip address or domain name standards''
      else None)"

definition ex_sdk :: SDK where
  "ex_sdk = \<lparr>minio_New = ex_sdk_New, madmin_New = ex_sdk_New\<rparr>"

definition ex_cluster :: K8sClient where
  "ex_cluster = \<lparr>getAlias = ex_getAlias, getEndpoint = ex_getEndpoint,
                  getSecret = ex_getSecret\<rparr>"

subsection \<open>Concrete resources and environments for runs\<close>

text \<open>
  A server on which every call succeeds and every user exists; an environment over the
  small cluster in which every write is accepted and every clock read gives 100.
\<close>

definition ex_server :: MinIOServer where
  "ex_server =
     \<lparr>srv_GetUserInfo = (\<lambda>u. None), srv_AddUser = (\<lambda>u p. None),
      srv_SetUser = (\<lambda>u p s. None), srv_SetUserStatus = (\<lambda>u s. None),
      srv_SetPolicy = (\<lambda>p u g. None), srv_RemoveUser = (\<lambda>u. None),
      srv_InfoCannedPolicy = (\<lambda>n. Inl ''not found''), srv_AddCannedPolicy = (\<lambda>n d. None),
      srv_RemoveCannedPolicy = (\<lambda>n. None), srv_BucketExists = (\<lambda>b. Inr True),
      srv_ListObjects = (\<lambda>b. [Inr ''a.txt'']), srv_RemoveObject = (\<lambda>b k. None),
      srv_RemoveBucket = (\<lambda>b. None)\<rparr>"

definition ex_env :: Env where
  "ex_env =
     \<lparr>env_k8s = ex_cluster, env_sdk = ex_sdk, env_server = ex_server, env_Update = None,
      env_StatusUpdate1 = None, env_StatusUpdate2 = None, env_now = (\<lambda>site. 100),
      env_sha256hex = (\<lambda>b. b)\<rparr>"

definition ex_conn_alias :: MinIOConnection where
  "ex_conn_alias =
     \<lparr>conn_AliasRef = Some \<lparr>ref_Name = ''minio-local'', ref_Namespace = None\<rparr>,
      conn_EndpointRef = None, conn_URL = None, conn_SecretRef = None, conn_TLS = None\<rparr>"

definition ex_conn_none :: MinIOConnection where
  "ex_conn_none =
     \<lparr>conn_AliasRef = None, conn_EndpointRef = None, conn_URL = None,
      conn_SecretRef = None, conn_TLS = None\<rparr>"

text \<open>
  A User, a Policy and a Bucket in namespace \<open>default\<close>, at generation 2 with observed
  generation 1 and no last sync time, for a given connection block, finalizer list and
  deletion timestamp.
\<close>

definition ex_user :: "MinIOConnection \<Rightarrow> string list \<Rightarrow> Time option \<Rightarrow> User" where
  "ex_user conn finalizers deleted =
     \<lparr>obj_Meta = \<lparr>meta_Namespace = ''default'', meta_Generation = 2,
                   meta_DeletionTimestamp = deleted, meta_Finalizers = finalizers\<rparr>,
      obj_Spec = \<lparr>us_Connection = conn, us_Username = ''alice'', us_SecretRef = None,
                   us_Password = Some ''pw'', us_Status = ''enabled'', us_Groups = [],
                   us_Policies = []\<rparr>,
      obj_Status = \<lparr>ust_Conditions = [], ust_Ready = False, ust_Username = [],
                     ust_Status = [], ust_Groups = [], ust_Policies = [],
                     ust_CreationDate = None, ust_LastSyncTime = None,
                     ust_ObservedGeneration = 1\<rparr>\<rparr>"

definition ex_policy :: "MinIOConnection \<Rightarrow> string list \<Rightarrow> Time option \<Rightarrow> Policy" where
  "ex_policy conn finalizers deleted =
     \<lparr>obj_Meta = \<lparr>meta_Namespace = ''default'', meta_Generation = 2,
                   meta_DeletionTimestamp = deleted, meta_Finalizers = finalizers\<rparr>,
      obj_Spec = \<lparr>ps_Connection = conn, ps_PolicyName = ''readonly'', ps_Policy = ''{}''\<rparr>,
      obj_Status = \<lparr>pst_Conditions = [], pst_Ready = False, pst_PolicyName = [],
                     pst_PolicyHash = [], pst_CreationDate = None, pst_LastSyncTime = None,
                     pst_ObservedGeneration = 1\<rparr>\<rparr>"

definition ex_bucket ::
  "MinIOConnection \<Rightarrow> string list \<Rightarrow> Time option \<Rightarrow> (BucketSpec, BucketStatus) Object" where
  "ex_bucket conn finalizers deleted =
     \<lparr>obj_Meta = \<lparr>meta_Namespace = ''default'', meta_Generation = 2,
                   meta_DeletionTimestamp = deleted, meta_Finalizers = finalizers\<rparr>,
      obj_Spec = \<lparr>bs_Connection = conn, bs_BucketName = ''data''\<rparr>,
      obj_Status = \<lparr>bst_Conditions = [], bst_Ready = False, bst_BucketName = [],
                     bst_Region = [], bst_CreationDate = None, bst_LastSyncTime = None,
                     bst_ObservedGeneration = 1\<rparr>\<rparr>"

text \<open>
  A User pass whose connection block names no source, in the environment above; and an
  environment whose first status write is rejected with a conflict.
\<close>

definition ex_client_error_pass :: "(UserSpec, UserStatus) Outcome" where
  "ex_client_error_pass =
     UserReconciler_Reconcile ex_env (ex_user ex_conn_none [UserFinalizer] None)"

definition ex_conflict_env :: Env where
  "ex_conflict_env = ex_env\<lparr>env_StatusUpdate1 := Some (Conflict ''object was modified'')\<rparr>"

text \<open>An environment whose server refuses \<open>SetUserStatus\<close>, so that convergence fails.\<close>

definition ex_status_failure_env :: Env where
  "ex_status_failure_env =
     ex_env\<lparr>env_server :=
       ex_server\<lparr>srv_SetUserStatus := (\<lambda>u s. Some ''connection refused'')\<rparr>\<rparr>"

text \<open>
  A server that cannot be reached, so that every call fails, with an environment over it;
  and an environment whose second status write is rejected with a conflict.
\<close>

definition ex_down_server :: MinIOServer where
  "ex_down_server =
     \<lparr>srv_GetUserInfo = (\<lambda>u. Some ''connection refused''),
      srv_AddUser = (\<lambda>u p. Some ''connection refused''),
      srv_SetUser = (\<lambda>u p s. Some ''connection refused''),
      srv_SetUserStatus = (\<lambda>u s. Some ''connection refused''),
      srv_SetPolicy = (\<lambda>p u g. Some ''connection refused''),
      srv_RemoveUser = (\<lambda>u. Some ''connection refused''),
      srv_InfoCannedPolicy = (\<lambda>n. Inl ''connection refused''),
      srv_AddCannedPolicy = (\<lambda>n d. Some ''connection refused''),
      srv_RemoveCannedPolicy = (\<lambda>n. Some ''connection refused''),
      srv_BucketExists = (\<lambda>b. Inl ''connection refused''),
      srv_ListObjects = (\<lambda>b. [Inl ''connection refused'']),
      srv_RemoveObject = (\<lambda>b k. Some ''connection refused''),
      srv_RemoveBucket = (\<lambda>b. Some ''connection refused'')\<rparr>"

definition ex_unreachable_env :: Env where
  "ex_unreachable_env = ex_env\<lparr>env_server := ex_down_server\<rparr>"

definition ex_final_conflict_env :: Env where
  "ex_final_conflict_env = ex_env\<lparr>env_StatusUpdate2 := Some (Conflict ''object was modified'')\<rparr>"

section \<open>Properties of the condition list\<close>

lemma SetCondition_types:
  "set (map cond_Type (SetCondition now cs ty st r m)) = insert ty (set (map cond_Type cs))"
  by (induction cs) auto

lemma SetCondition_distinct:
  "distinct (map cond_Type cs) \<Longrightarrow> distinct (map cond_Type (SetCondition now cs ty st r m))"
proof (induction cs)
  case Nil
  then show ?case by simp
next
  case (Cons c cs)
  show ?case
  proof (cases "cond_Type c = ty")
    case True
    with Cons.prems show ?thesis by simp
  next
    case False
    have "cond_Type c \<notin> set (map cond_Type (SetCondition now cs ty st r m))"
      using Cons.prems False unfolding SetCondition_types by auto
    with Cons False show ?thesis by simp
  qed
qed

lemma GetCondition_SetCondition_same:
  "GetCondition cs ty = Some c \<Longrightarrow> cond_Status c = st \<Longrightarrow>
   GetCondition (SetCondition now cs ty st r m) ty
     = Some (c\<lparr>cond_Reason := r, cond_Message := m\<rparr>)"
  by (induction cs) (auto split: if_splits)

lemma GetCondition_SetCondition_flip:
  "GetCondition cs ty = Some c \<Longrightarrow> cond_Status c \<noteq> st \<Longrightarrow>
   GetCondition (SetCondition now cs ty st r m) ty
     = Some (c\<lparr>cond_Status := st, cond_LastTransitionTime := now,
                cond_Reason := r, cond_Message := m\<rparr>)"
  by (induction cs) (auto split: if_splits)

lemma GetCondition_SetCondition_new:
  "GetCondition cs ty = None \<Longrightarrow>
   GetCondition (SetCondition now cs ty st r m) ty
     = Some \<lparr>cond_Type = ty, cond_Status = st, cond_LastTransitionTime = now,
             cond_Reason = r, cond_Message = m\<rparr>"
  by (induction cs) (auto split: if_splits)

lemma GetCondition_SetCondition_other:
  "ty' \<noteq> ty \<Longrightarrow> GetCondition (SetCondition now cs ty st r m) ty' = GetCondition cs ty'"
  by (induction cs) auto

text \<open>
  C5. \<open>SetCondition\<close> keeps the list free of duplicate condition types; the condition of
  the type being set keeps its \<open>LastTransitionTime\<close> when its status already has the
  requested value (only reason and message change), and takes the current time exactly
  when the status changes value or the condition is new; conditions of every other type
  are left as they were.
\<close>

theorem SetCondition_one_per_type_and_transition_time:
  "(distinct (map cond_Type cs) \<longrightarrow>
      distinct (map cond_Type (SetCondition now cs ty st r m)))
   \<and> (\<forall>c. GetCondition cs ty = Some c \<and> cond_Status c = st \<longrightarrow>
          GetCondition (SetCondition now cs ty st r m) ty
            = Some (c\<lparr>cond_Reason := r, cond_Message := m\<rparr>))
   \<and> (\<forall>c. GetCondition cs ty = Some c \<and> cond_Status c \<noteq> st \<longrightarrow>
          GetCondition (SetCondition now cs ty st r m) ty
            = Some (c\<lparr>cond_Status := st, cond_LastTransitionTime := now,
                       cond_Reason := r, cond_Message := m\<rparr>))
   \<and> (GetCondition cs ty = None \<longrightarrow>
          GetCondition (SetCondition now cs ty st r m) ty
            = Some \<lparr>cond_Type = ty, cond_Status = st, cond_LastTransitionTime = now,
                    cond_Reason = r, cond_Message = m\<rparr>)
   \<and> (\<forall>ty'. ty' \<noteq> ty \<longrightarrow>
          GetCondition (SetCondition now cs ty st r m) ty' = GetCondition cs ty')"
  by (simp add: SetCondition_distinct GetCondition_SetCondition_same
      GetCondition_SetCondition_flip GetCondition_SetCondition_new
      GetCondition_SetCondition_other)

theorem SetCondition_one_per_type_and_transition_time_witness:
  "distinct (map cond_Type
       [\<lparr>cond_Type = ''Ready'', cond_Status = ''True'', cond_LastTransitionTime = 3,
         cond_Reason = ''Ready'', cond_Message = ''ok''\<rparr>])
   \<and> GetCondition
       [\<lparr>cond_Type = ''Ready'', cond_Status = ''True'', cond_LastTransitionTime = 3,
         cond_Reason = ''Ready'', cond_Message = ''ok''\<rparr>] ''Ready''
       = Some \<lparr>cond_Type = ''Ready'', cond_Status = ''True'', cond_LastTransitionTime = 3,
               cond_Reason = ''Ready'', cond_Message = ''ok''\<rparr>
   \<and> GetCondition
       [\<lparr>cond_Type = ''Ready'', cond_Status = ''True'', cond_LastTransitionTime = 3,
         cond_Reason = ''Ready'', cond_Message = ''ok''\<rparr>] ''Error'' = None
   \<and> ''Error'' \<noteq> ''Ready''
   \<and> distinct (map cond_Type (SetCondition 9
       [\<lparr>cond_Type = ''Ready'', cond_Status = ''True'', cond_LastTransitionTime = 3,
         cond_Reason = ''Ready'', cond_Message = ''ok''\<rparr>] ''Ready'' ''True'' ''Again'' ''msg''))
   \<and> GetCondition (SetCondition 9
       [\<lparr>cond_Type = ''Ready'', cond_Status = ''True'', cond_LastTransitionTime = 3,
         cond_Reason = ''Ready'', cond_Message = ''ok''\<rparr>] ''Ready'' ''True'' ''Again'' ''msg'')
       ''Ready''
       = Some \<lparr>cond_Type = ''Ready'', cond_Status = ''True'', cond_LastTransitionTime = 3,
               cond_Reason = ''Again'', cond_Message = ''msg''\<rparr>
   \<and> GetCondition (SetCondition 9
       [\<lparr>cond_Type = ''Ready'', cond_Status = ''True'', cond_LastTransitionTime = 3,
         cond_Reason = ''Ready'', cond_Message = ''ok''\<rparr>] ''Ready'' ''True'' ''Again'' ''msg'')
       ''Error'' = None"
  using SetCondition_one_per_type_and_transition_time
    [of "[\<lparr>cond_Type = ''Ready'', cond_Status = ''True'', cond_LastTransitionTime = 3,
           cond_Reason = ''Ready'', cond_Message = ''ok''\<rparr>]"
        9 "''Ready''" "''True''" "''Again''" "''msg''"]
  by simp

section \<open>Properties of connection resolution\<close>

lemma secretCredentials_kind:
  "secretCredentials secret sr (f ns n) (g ns n) = Inl e \<Longrightarrow>
   (\<And>k. BuildError_kind (f ns n k) = SecretError) \<Longrightarrow>
   (\<And>k. BuildError_kind (g ns n k) = SecretError) \<Longrightarrow> BuildError_kind e = SecretError"
  by (auto simp: secretCredentials_def Let_def split: option.splits)

lemma configFromAlias_not_ready:
  "getAlias k (namespaceOr (ref_Namespace r) ns) (ref_Name r) = Inr a \<Longrightarrow> \<not> alias_Ready a \<Longrightarrow>
   configFromAlias k r ns c = Inl (AliasNotReady (namespaceOr (ref_Namespace r) ns) (ref_Name r))"
  by (simp add: configFromAlias_def Let_def)

lemma configFromEndpoint_not_ready:
  "getEndpoint k (namespaceOr (ref_Namespace r) ns) (ref_Name r) = Inr a \<Longrightarrow> \<not> endpoint_Ready a \<Longrightarrow>
   configFromEndpoint k r ns c = Inl (EndpointNotReady (namespaceOr (ref_Namespace r) ns) (ref_Name r))"
  by (simp add: configFromEndpoint_def Let_def)

lemma secretCredentials_Inr:
  "secretCredentials secret sr f g = Inr p \<Longrightarrow>
     secret (if AccessKeyIDKey sr = [] then ''accessKeyID'' else AccessKeyIDKey sr) = Some (fst p)
   \<and> secret (if SecretAccessKeyKey sr = [] then ''secretAccessKey'' else SecretAccessKeyKey sr) = Some (snd p)"
  by (auto simp: secretCredentials_def Let_def split: option.splits)




lemma directCredentials_skip:
  "conn_URL conn = None \<or> conn_SecretRef conn = None \<Longrightarrow> directCredentials k conn ns c = Inr c"
  by (auto simp: directCredentials_def split: option.splits)

lemma configFromAlias_fields:
  "configFromAlias k r ns initialConfig = Inr cfg \<Longrightarrow>
   \<exists>a. getAlias k (namespaceOr (ref_Namespace r) ns) (ref_Name r) = Inr a \<and> alias_Ready a
      \<and> cfg_Endpoint cfg = alias_URL a
      \<and> cfg_Insecure cfg = tlsInsecure (alias_TLS a)
      \<and> cfg_PathStyle cfg = alias_PathStyle a
      \<and> cfg_Region cfg = regionOrEmpty (alias_Region a)"
  by (auto simp: configFromAlias_def Let_def initialConfig_def tlsInsecure_def regionOrEmpty_def
      split: sum.splits option.splits if_splits prod.splits)

lemma configFromEndpoint_fields:
  "configFromEndpoint k r ns initialConfig = Inr cfg \<Longrightarrow>
   \<exists>a. getEndpoint k (namespaceOr (ref_Namespace r) ns) (ref_Name r) = Inr a \<and> endpoint_Ready a
      \<and> cfg_Endpoint cfg = endpoint_URL a
      \<and> cfg_Insecure cfg = tlsInsecure (endpoint_TLS a)
      \<and> cfg_PathStyle cfg = endpoint_PathStyle a
      \<and> cfg_Region cfg = regionOrEmpty (endpoint_Region a)"
  by (auto simp: configFromEndpoint_def Let_def initialConfig_def tlsInsecure_def regionOrEmpty_def
      split: sum.splits option.splits if_splits prod.splits)

lemma directCredentials_keeps:
  "directCredentials k conn ns c = Inr cfg \<Longrightarrow>
   cfg_Endpoint cfg = cfg_Endpoint c \<and> cfg_PathStyle cfg = cfg_PathStyle c \<and> cfg_Region cfg = cfg_Region c"
  by (auto simp: directCredentials_def Let_def split: sum.splits option.splits prod.splits)

lemma directCredentials_TLS_irrelevant:
  "conn_URL conn = None \<or> conn_SecretRef conn = None \<Longrightarrow>
   directCredentials k (conn\<lparr>conn_TLS := t\<rparr>) ns c = directCredentials k conn ns c"
  by (auto simp: directCredentials_def split: option.splits)

lemma sourceConfig_ep_kind:
  "sourceConfig_ep k conn ns = Inl e \<Longrightarrow>
   (BuildError_kind e = ConfigurationError)
     = (epconn_URL conn = None \<and> epconn_EndpointRef conn = None)"
  by (auto simp: sourceConfig_ep_def Let_def split: option.splits sum.splits if_splits)

lemma sourceConfig_ep_no_source:
  "epconn_URL conn = None \<Longrightarrow> epconn_EndpointRef conn = None \<Longrightarrow>
   sourceConfig_ep k conn ns = Inl NoURLOrEndpointRef"
  by (simp add: sourceConfig_ep_def)

lemma sourceConfig_ep_Inr:
  "sourceConfig_ep k conn ns = Inr c \<Longrightarrow>
   epconn_URL conn \<noteq> None \<or> epconn_EndpointRef conn \<noteq> None"
  by (auto simp: sourceConfig_ep_def split: option.splits)

lemma connectionCredentials_ep_kind:
  "connectionCredentials_ep k conn ns c = Inl e \<Longrightarrow> BuildError_kind e = SecretError"
  by (auto simp: connectionCredentials_ep_def Let_def dest: secretCredentials_kind
      split: sum.splits prod.splits)

lemma buildClientConfig_ep_ConfigurationError_iff:
  "(\<exists>e. buildClientConfig_ep k conn ns = Inl e \<and> BuildError_kind e = ConfigurationError)
   \<longleftrightarrow> (epconn_URL conn = None \<and> epconn_EndpointRef conn = None)"
proof (cases "sourceConfig_ep k conn ns")
  case (Inl e)
  then show ?thesis
    using sourceConfig_ep_kind [OF Inl] by (simp add: buildClientConfig_ep_def)
next
  case (Inr c)
  then show ?thesis
    using sourceConfig_ep_Inr [OF Inr] connectionCredentials_ep_kind [of k conn ns c]
    by (auto simp: buildClientConfig_ep_def)
qed

lemma sourceConfig_ep_not_ready:
  "epconn_URL conn = None \<Longrightarrow> epconn_EndpointRef conn = Some r \<Longrightarrow>
   getEndpoint k (namespaceOr (ref_Namespace r) ns) (ref_Name r) = Inr e \<Longrightarrow>
   \<not> endpoint_Ready e \<Longrightarrow>
   sourceConfig_ep k conn ns
     = Inl (EndpointNotReady (namespaceOr (ref_Namespace r) ns) (ref_Name r))"
  by (simp add: sourceConfig_ep_def Let_def)

lemma sourceConfig_ep_fields:
  "epconn_URL conn = None \<Longrightarrow> epconn_EndpointRef conn = Some r \<Longrightarrow>
   sourceConfig_ep k conn ns = Inr c \<Longrightarrow>
   \<exists>e. getEndpoint k (namespaceOr (ref_Namespace r) ns) (ref_Name r) = Inr e
      \<and> cfg_PathStyle c = endpoint_PathStyle e
      \<and> cfg_Region c = regionOrEmpty (endpoint_Region e)
      \<and> cfg_Insecure c = tlsInsecure (endpoint_TLS e)"
  by (auto simp: sourceConfig_ep_def Let_def initialConfig_def tlsInsecure_def
      regionOrEmpty_def split: sum.splits option.splits if_splits)

lemma connectionCredentials_ep_fields:
  "connectionCredentials_ep k conn ns c = Inr cfg \<Longrightarrow>
   cfg_PathStyle cfg = cfg_PathStyle c \<and> cfg_Region cfg = cfg_Region c
   \<and> cfg_Insecure cfg = (case epconn_TLS conn of None \<Rightarrow> cfg_Insecure c
                          | Some tls \<Rightarrow> Insecure tls)"
  by (auto simp: connectionCredentials_ep_def Let_def
      split: sum.splits option.splits prod.splits)

lemma buildClientConfig_ep_fields:
  "epconn_URL econn = None \<Longrightarrow> epconn_EndpointRef econn = Some r \<Longrightarrow>
   buildClientConfig_ep k econn ns = Inr cfg \<Longrightarrow>
   \<exists>e. getEndpoint k (namespaceOr (ref_Namespace r) ns) (ref_Name r) = Inr e
      \<and> cfg_PathStyle cfg = endpoint_PathStyle e
      \<and> cfg_Region cfg = regionOrEmpty (endpoint_Region e)
      \<and> cfg_Insecure cfg = (case epconn_TLS econn of None \<Rightarrow> tlsInsecure (endpoint_TLS e)
                              | Some tls \<Rightarrow> Insecure tls)"
proof -
  assume u: "epconn_URL econn = None" and r: "epconn_EndpointRef econn = Some r"
    and b: "buildClientConfig_ep k econn ns = Inr cfg"
  from b obtain c where c: "sourceConfig_ep k econn ns = Inr c"
    and d: "connectionCredentials_ep k econn ns c = Inr cfg"
    by (auto simp: buildClientConfig_ep_def split: sum.splits)
  from sourceConfig_ep_fields [OF u r c] connectionCredentials_ep_fields [OF d]
  show ?thesis by (auto split: option.splits)
qed




lemma configFromAlias_kind:
  "configFromAlias k r ns c = Inl e \<Longrightarrow> BuildError_kind e \<noteq> ConfigurationError"
  by (auto simp: configFromAlias_def Let_def dest: secretCredentials_kind
      split: sum.splits if_splits prod.splits)

lemma configFromEndpoint_kind:
  "configFromEndpoint k r ns c = Inl e \<Longrightarrow> BuildError_kind e \<noteq> ConfigurationError"
  by (auto simp: configFromEndpoint_def Let_def dest: secretCredentials_kind
      split: sum.splits if_splits prod.splits)

lemma directCredentials_kind:
  "directCredentials k conn ns c = Inl e \<Longrightarrow> BuildError_kind e = SecretError"
  by (auto simp: directCredentials_def Let_def dest: secretCredentials_kind
      split: sum.splits if_splits prod.splits option.splits)

lemma buildClientConfig_no_source:
  "conn_AliasRef conn = None \<Longrightarrow> conn_URL conn = None \<Longrightarrow> conn_EndpointRef conn = None \<Longrightarrow>
   buildClientConfig k conn ns = Inl NoSourceSpecified"
  by (simp add: buildClientConfig_def)

lemma buildClientConfig_ConfigurationError_iff:
  "(\<exists>e. buildClientConfig k conn ns = Inl e \<and> BuildError_kind e = ConfigurationError)
   \<longleftrightarrow> (conn_AliasRef conn = None \<and> conn_URL conn = None \<and> conn_EndpointRef conn = None)"
proof
  assume "\<exists>e. buildClientConfig k conn ns = Inl e \<and> BuildError_kind e = ConfigurationError"
  then obtain e where e: "buildClientConfig k conn ns = Inl e"
    "BuildError_kind e = ConfigurationError"
    by blast
  show "conn_AliasRef conn = None \<and> conn_URL conn = None \<and> conn_EndpointRef conn = None"
  proof (rule ccontr)
    assume "\<not> ?thesis"
    with e show False
      by (auto simp: buildClientConfig_def split: option.splits sum.splits
          dest: configFromAlias_kind configFromEndpoint_kind directCredentials_kind)
  qed
next
  assume "conn_AliasRef conn = None \<and> conn_URL conn = None \<and> conn_EndpointRef conn = None"
  then show "\<exists>e. buildClientConfig k conn ns = Inl e \<and> BuildError_kind e = ConfigurationError"
    by (simp add: buildClientConfig_no_source)
qed

lemma buildClientConfig_NoSourceSpecified_iff:
  "buildClientConfig k conn ns = Inl NoSourceSpecified
   \<longleftrightarrow> (conn_AliasRef conn = None \<and> conn_URL conn = None \<and> conn_EndpointRef conn = None)"
  using buildClientConfig_ConfigurationError_iff [of k conn ns]
  by (auto simp: buildClientConfig_no_source)

lemma buildClientConfig_ep_NoURLOrEndpointRef_iff:
  "buildClientConfig_ep k econn ns = Inl NoURLOrEndpointRef
   \<longleftrightarrow> (epconn_URL econn = None \<and> epconn_EndpointRef econn = None)"
  using buildClientConfig_ep_ConfigurationError_iff [of k econn ns]
  by (auto simp: buildClientConfig_ep_def sourceConfig_ep_no_source)

lemma buildClientConfig_alias_endpoint:
  "conn_AliasRef conn = Some r \<Longrightarrow> buildClientConfig k conn ns = Inr cfg \<Longrightarrow>
   \<exists>a. getAlias k (namespaceOr (ref_Namespace r) ns) (ref_Name r) = Inr a
      \<and> cfg_Endpoint cfg = alias_URL a"
proof -
  assume r: "conn_AliasRef conn = Some r" and b: "buildClientConfig k conn ns = Inr cfg"
  from r b obtain c where c: "configFromAlias k r ns initialConfig = Inr c"
    and d: "directCredentials k conn ns c = Inr cfg"
    by (auto simp: buildClientConfig_def split: sum.splits)
  from configFromAlias_fields [OF c] directCredentials_keeps [OF d] show ?thesis by auto
qed

lemma buildClientConfig_url_endpoint:
  "conn_AliasRef conn = None \<Longrightarrow> conn_URL conn = Some u \<Longrightarrow>
   buildClientConfig k conn ns = Inr cfg \<Longrightarrow> cfg_Endpoint cfg = u"
  using directCredentials_keeps [of k conn ns "initialConfig\<lparr>cfg_Endpoint := u\<rparr>" cfg]
  by (simp add: buildClientConfig_def)

lemma buildClientConfig_endpointRef_endpoint:
  "conn_AliasRef conn = None \<Longrightarrow> conn_URL conn = None \<Longrightarrow> conn_EndpointRef conn = Some r \<Longrightarrow>
   buildClientConfig k conn ns = Inr cfg \<Longrightarrow>
   \<exists>e. getEndpoint k (namespaceOr (ref_Namespace r) ns) (ref_Name r) = Inr e
      \<and> cfg_Endpoint cfg = endpoint_URL e"
proof -
  assume r: "conn_AliasRef conn = None" "conn_URL conn = None" "conn_EndpointRef conn = Some r"
    and b: "buildClientConfig k conn ns = Inr cfg"
  have "directCredentials k conn ns c = Inr c" for c
    using r directCredentials_skip [of conn k ns c] by simp
  with r b have "configFromEndpoint k r ns initialConfig = Inr cfg"
    by (auto simp: buildClientConfig_def split: sum.splits)
  from configFromEndpoint_fields [OF this] show ?thesis by blast
qed

lemma directCredentials_EndpointRef_irrelevant:
  "directCredentials k (conn\<lparr>conn_EndpointRef := x\<rparr>) ns c = directCredentials k conn ns c"
  by (auto simp: directCredentials_def Let_def split: option.splits sum.splits prod.splits)

lemma buildClientConfig_EndpointRef_ignored:
  "conn_AliasRef conn \<noteq> None \<or> conn_URL conn \<noteq> None \<Longrightarrow>
   buildClientConfig k (conn\<lparr>conn_EndpointRef := x\<rparr>) ns = buildClientConfig k conn ns"
  by (auto simp: buildClientConfig_def directCredentials_EndpointRef_irrelevant
      split: sum.splits option.splits)

lemma connectionCredentials_ep_keeps:
  "connectionCredentials_ep k conn ns c = Inr cfg \<Longrightarrow> cfg_Endpoint cfg = cfg_Endpoint c"
  by (auto simp: connectionCredentials_ep_def Let_def
      split: sum.splits option.splits prod.splits)

lemma sourceConfig_ep_endpoint:
  "sourceConfig_ep k conn ns = Inr c \<Longrightarrow>
   (\<forall>u. epconn_URL conn = Some u \<longrightarrow> cfg_Endpoint c = u)
   \<and> (\<forall>r. epconn_URL conn = None \<and> epconn_EndpointRef conn = Some r \<longrightarrow>
        (\<exists>e. getEndpoint k (namespaceOr (ref_Namespace r) ns) (ref_Name r) = Inr e
           \<and> cfg_Endpoint c = endpoint_URL e))"
  by (auto simp: sourceConfig_ep_def Let_def initialConfig_def
      split: sum.splits option.splits if_splits)

lemma buildClientConfig_ep_endpoint:
  "buildClientConfig_ep k econn ns = Inr cfg \<Longrightarrow>
   (\<forall>u. epconn_URL econn = Some u \<longrightarrow> cfg_Endpoint cfg = u)
   \<and> (\<forall>r. epconn_URL econn = None \<and> epconn_EndpointRef econn = Some r \<longrightarrow>
        (\<exists>e. getEndpoint k (namespaceOr (ref_Namespace r) ns) (ref_Name r) = Inr e
           \<and> cfg_Endpoint cfg = endpoint_URL e))"
proof -
  assume b: "buildClientConfig_ep k econn ns = Inr cfg"
  from b obtain c where c: "sourceConfig_ep k econn ns = Inr c"
    and d: "connectionCredentials_ep k econn ns c = Inr cfg"
    by (auto simp: buildClientConfig_ep_def split: sum.splits)
  from sourceConfig_ep_endpoint [OF c] connectionCredentials_ep_keeps [OF d]
  show ?thesis by simp
qed

lemma connectionCredentials_ep_EndpointRef_irrelevant:
  "connectionCredentials_ep k (econn\<lparr>epconn_EndpointRef := x\<rparr>) ns c
     = connectionCredentials_ep k econn ns c"
  by (auto simp: connectionCredentials_ep_def Let_def
      split: option.splits sum.splits prod.splits)

lemma sourceConfig_ep_EndpointRef_irrelevant:
  "epconn_URL econn \<noteq> None \<Longrightarrow>
   sourceConfig_ep k (econn\<lparr>epconn_EndpointRef := x\<rparr>) ns = sourceConfig_ep k econn ns"
  by (auto simp: sourceConfig_ep_def)

lemma buildClientConfig_ep_EndpointRef_ignored:
  "epconn_URL econn \<noteq> None \<Longrightarrow>
   buildClientConfig_ep k (econn\<lparr>epconn_EndpointRef := x\<rparr>) ns = buildClientConfig_ep k econn ns"
  by (simp add: buildClientConfig_ep_def sourceConfig_ep_EndpointRef_irrelevant
      connectionCredentials_ep_EndpointRef_irrelevant cong: sum.case_cong)

text \<open>
  C3 (as the code has it). Resolution fails with the error that no source is specified,
  a configuration error, exactly when none of \<open>AliasRef\<close>, \<open>URL\<close>, \<open>EndpointRef\<close> is
  set, whatever the cluster holds; \<open>NewClient\<close> then fails with it and constructs no
  client. A block with more than one source set is not rejected for that. The endpoint
  of a resolved configuration is chosen by precedence: the URL of the Alias when
  \<open>AliasRef\<close> is set; else the block's \<open>URL\<close> when it is set; else the URL of the
  Endpoint named by \<open>EndpointRef\<close>. An \<open>EndpointRef\<close> beside an \<open>AliasRef\<close> or a
  \<open>URL\<close> is not consulted: replacing or removing it changes nothing in the result. The
  resolver of client.go does the same over \<open>URL\<close> and \<open>EndpointRef\<close>.
\<close>

theorem buildClientConfig_configuration_error_iff_no_source:
  "(buildClientConfig k conn ns = Inl NoSourceSpecified
      \<longleftrightarrow> (conn_AliasRef conn = None \<and> conn_URL conn = None \<and> conn_EndpointRef conn = None))
   \<and> BuildError_kind NoSourceSpecified = ConfigurationError
   \<and> BuildError_text NoSourceSpecified
        = ''either AliasRef, URL, or EndpointRef must be specified''
   \<and> (conn_AliasRef conn = None \<and> conn_URL conn = None \<and> conn_EndpointRef conn = None \<longrightarrow>
        NewClient k sdk conn ns = Inl (BuildConfigFailed NoSourceSpecified))
   \<and> (conn_AliasRef conn = Some r \<and> buildClientConfig k conn ns = Inr cfg \<longrightarrow>
        (\<exists>a. getAlias k (namespaceOr (ref_Namespace r) ns) (ref_Name r) = Inr a
           \<and> cfg_Endpoint cfg = alias_URL a))
   \<and> (conn_AliasRef conn = None \<and> conn_URL conn = Some u
        \<and> buildClientConfig k conn ns = Inr cfg \<longrightarrow> cfg_Endpoint cfg = u)
   \<and> (conn_AliasRef conn = None \<and> conn_URL conn = None \<and> conn_EndpointRef conn = Some r
        \<and> buildClientConfig k conn ns = Inr cfg \<longrightarrow>
        (\<exists>e. getEndpoint k (namespaceOr (ref_Namespace r) ns) (ref_Name r) = Inr e
           \<and> cfg_Endpoint cfg = endpoint_URL e))
   \<and> (conn_AliasRef conn \<noteq> None \<or> conn_URL conn \<noteq> None \<longrightarrow>
        buildClientConfig k (conn\<lparr>conn_EndpointRef := x\<rparr>) ns = buildClientConfig k conn ns)
   \<and> (buildClientConfig_ep k econn ns = Inl NoURLOrEndpointRef
      \<longleftrightarrow> (epconn_URL econn = None \<and> epconn_EndpointRef econn = None))
   \<and> BuildError_kind NoURLOrEndpointRef = ConfigurationError
   \<and> BuildError_text NoURLOrEndpointRef = ''either URL or EndpointRef must be specified''
   \<and> (epconn_URL econn = Some u \<and> buildClientConfig_ep k econn ns = Inr cfg \<longrightarrow>
        cfg_Endpoint cfg = u)
   \<and> (epconn_URL econn = None \<and> epconn_EndpointRef econn = Some r
        \<and> buildClientConfig_ep k econn ns = Inr cfg \<longrightarrow>
        (\<exists>e. getEndpoint k (namespaceOr (ref_Namespace r) ns) (ref_Name r) = Inr e
           \<and> cfg_Endpoint cfg = endpoint_URL e))
   \<and> (epconn_URL econn \<noteq> None \<longrightarrow>
        buildClientConfig_ep k (econn\<lparr>epconn_EndpointRef := x\<rparr>) ns
          = buildClientConfig_ep k econn ns)"
proof (intro conjI impI)
  show "buildClientConfig k conn ns = Inl NoSourceSpecified
      \<longleftrightarrow> (conn_AliasRef conn = None \<and> conn_URL conn = None \<and> conn_EndpointRef conn = None)"
    by (rule buildClientConfig_NoSourceSpecified_iff)
  show "BuildError_kind NoSourceSpecified = ConfigurationError" by simp
  show "BuildError_text NoSourceSpecified
        = ''either AliasRef, URL, or EndpointRef must be specified''" by simp
  show "NewClient k sdk conn ns = Inl (BuildConfigFailed NoSourceSpecified)"
    if "conn_AliasRef conn = None \<and> conn_URL conn = None \<and> conn_EndpointRef conn = None"
    using that by (simp add: NewClient_def buildClientConfig_no_source)
  show "\<exists>a. getAlias k (namespaceOr (ref_Namespace r) ns) (ref_Name r) = Inr a
           \<and> cfg_Endpoint cfg = alias_URL a"
    if "conn_AliasRef conn = Some r \<and> buildClientConfig k conn ns = Inr cfg"
    using that buildClientConfig_alias_endpoint [of conn r k ns cfg] by simp
  show "cfg_Endpoint cfg = u"
    if "conn_AliasRef conn = None \<and> conn_URL conn = Some u
        \<and> buildClientConfig k conn ns = Inr cfg"
    using that buildClientConfig_url_endpoint [of conn u k ns cfg] by simp
  show "\<exists>e. getEndpoint k (namespaceOr (ref_Namespace r) ns) (ref_Name r) = Inr e
           \<and> cfg_Endpoint cfg = endpoint_URL e"
    if "conn_AliasRef conn = None \<and> conn_URL conn = None \<and> conn_EndpointRef conn = Some r
        \<and> buildClientConfig k conn ns = Inr cfg"
    using that buildClientConfig_endpointRef_endpoint [of conn r k ns cfg] by simp
  show "buildClientConfig k (conn\<lparr>conn_EndpointRef := x\<rparr>) ns = buildClientConfig k conn ns"
    if "conn_AliasRef conn \<noteq> None \<or> conn_URL conn \<noteq> None"
    using that by (rule buildClientConfig_EndpointRef_ignored)
  show "buildClientConfig_ep k econn ns = Inl NoURLOrEndpointRef
      \<longleftrightarrow> (epconn_URL econn = None \<and> epconn_EndpointRef econn = None)"
    by (rule buildClientConfig_ep_NoURLOrEndpointRef_iff)
  show "BuildError_kind NoURLOrEndpointRef = ConfigurationError" by simp
  show "BuildError_text NoURLOrEndpointRef = ''either URL or EndpointRef must be specified''"
    by simp
  show "cfg_Endpoint cfg = u"
    if "epconn_URL econn = Some u \<and> buildClientConfig_ep k econn ns = Inr cfg"
    using that buildClientConfig_ep_endpoint [of k econn ns cfg] by simp
  show "\<exists>e. getEndpoint k (namespaceOr (ref_Namespace r) ns) (ref_Name r) = Inr e
           \<and> cfg_Endpoint cfg = endpoint_URL e"
    if "epconn_URL econn = None \<and> epconn_EndpointRef econn = Some r
        \<and> buildClientConfig_ep k econn ns = Inr cfg"
    using that buildClientConfig_ep_endpoint [of k econn ns cfg] by simp
  show "buildClientConfig_ep k (econn\<lparr>epconn_EndpointRef := x\<rparr>) ns
          = buildClientConfig_ep k econn ns"
    if "epconn_URL econn \<noteq> None"
    using that by (rule buildClientConfig_ep_EndpointRef_ignored)
qed

lemma ex_two_sources_run:
  "buildClientConfig ex_cluster
      \<lparr>conn_AliasRef = Some \<lparr>ref_Name = ''minio-local'', ref_Namespace = None\<rparr>,
       conn_EndpointRef = None, conn_URL = Some ''other:9000'',
       conn_SecretRef = None, conn_TLS = None\<rparr> ''default''
     = Inr \<lparr>cfg_Endpoint = ''minio:9000'', cfg_AccessKeyID = ''k'',
            cfg_SecretAccessKey = ''s'', cfg_UseSSL = True, cfg_Insecure = False,
            cfg_PathStyle = False, cfg_Region = []\<rparr>"
  by (simp add: buildClientConfig_def configFromAlias_def directCredentials_def
      namespaceOr_def ex_cluster_def ex_getAlias_def ex_getSecret_def ex_alias_def
      ex_secretRef_def secretCredentials_def initialConfig_def Let_def)

theorem buildClientConfig_configuration_error_iff_no_source_witness:
  "buildClientConfig ex_cluster
      \<lparr>conn_AliasRef = None, conn_EndpointRef = None, conn_URL = None,
       conn_SecretRef = Some ex_secretRef, conn_TLS = None\<rparr> ''default''
     = Inl NoSourceSpecified
   \<and> NewClient ex_cluster ex_sdk
      \<lparr>conn_AliasRef = None, conn_EndpointRef = None, conn_URL = None,
       conn_SecretRef = Some ex_secretRef, conn_TLS = None\<rparr> ''default''
     = Inl (BuildConfigFailed NoSourceSpecified)
   \<and> buildClientConfig_ep ex_cluster
      \<lparr>epconn_EndpointRef = None, epconn_URL = None, epconn_SecretRef = ex_secretRef,
       epconn_TLS = None\<rparr> ''default'' = Inl NoURLOrEndpointRef
   \<and> (\<exists>a. getAlias ex_cluster ''default'' ''minio-local'' = Inr a
         \<and> alias_URL a = ''minio:9000'')
   \<and> buildClientConfig ex_cluster
      \<lparr>conn_AliasRef = Some \<lparr>ref_Name = ''minio-local'', ref_Namespace = None\<rparr>,
       conn_EndpointRef = Some \<lparr>ref_Name = ''minio-ep-pending'', ref_Namespace = None\<rparr>,
       conn_URL = Some ''other:9000'', conn_SecretRef = None, conn_TLS = None\<rparr> ''default''
     = buildClientConfig ex_cluster
      \<lparr>conn_AliasRef = Some \<lparr>ref_Name = ''minio-local'', ref_Namespace = None\<rparr>,
       conn_EndpointRef = None, conn_URL = Some ''other:9000'',
       conn_SecretRef = None, conn_TLS = None\<rparr> ''default''"
  using buildClientConfig_configuration_error_iff_no_source
    [where k = ex_cluster and ns = "''default''" and sdk = ex_sdk
      and conn = "\<lparr>conn_AliasRef = None, conn_EndpointRef = None, conn_URL = None,
       conn_SecretRef = Some ex_secretRef, conn_TLS = None\<rparr>"
      and econn = "\<lparr>epconn_EndpointRef = None, epconn_URL = None,
       epconn_SecretRef = ex_secretRef, epconn_TLS = None\<rparr>"]
    buildClientConfig_configuration_error_iff_no_source
    [where k = ex_cluster and ns = "''default''" and sdk = ex_sdk
      and conn = "\<lparr>conn_AliasRef = Some \<lparr>ref_Name = ''minio-local'', ref_Namespace = None\<rparr>,
       conn_EndpointRef = None, conn_URL = Some ''other:9000'',
       conn_SecretRef = None, conn_TLS = None\<rparr>"
      and r = "\<lparr>ref_Name = ''minio-local'', ref_Namespace = None\<rparr>"
      and x = "Some \<lparr>ref_Name = ''minio-ep-pending'', ref_Namespace = None\<rparr>"
      and cfg = "\<lparr>cfg_Endpoint = ''minio:9000'', cfg_AccessKeyID = ''k'',
            cfg_SecretAccessKey = ''s'', cfg_UseSSL = True, cfg_Insecure = False,
            cfg_PathStyle = False, cfg_Region = []\<rparr>"
      and econn = "\<lparr>epconn_EndpointRef = None, epconn_URL = None,
       epconn_SecretRef = ex_secretRef, epconn_TLS = None\<rparr>"]
    ex_two_sources_run
  by (auto simp: namespaceOr_def)

text \<open>
  The claim C3 as stated fails: a block with both \<open>AliasRef\<close> and \<open>URL\<close> set resolves,
  through the alias.
\<close>

theorem buildClientConfig_two_sources_counterexample:
  "buildClientConfig ex_cluster
      \<lparr>conn_AliasRef = Some \<lparr>ref_Name = ''minio-local'', ref_Namespace = None\<rparr>,
       conn_EndpointRef = None, conn_URL = Some ''other:9000'',
       conn_SecretRef = None, conn_TLS = None\<rparr> ''default''
     = Inr \<lparr>cfg_Endpoint = ''minio:9000'', cfg_AccessKeyID = ''k'',
            cfg_SecretAccessKey = ''s'', cfg_UseSSL = True, cfg_Insecure = False,
            cfg_PathStyle = False, cfg_Region = []\<rparr>"
  by (rule ex_two_sources_run)

text \<open>
  C4. A connection block whose \<open>AliasRef\<close> names an alias that can be fetched and is not
  ready fails with the alias-not-ready error, whatever the secrets hold: the same error
  results when the secret lookup is replaced by any other. So does a block resolved
  through \<open>EndpointRef\<close> (no \<open>AliasRef\<close>, no \<open>URL\<close>) whose endpoint is not ready, in
  both resolvers.
\<close>

theorem buildClientConfig_not_ready_before_secret:
  "(conn_AliasRef conn = Some r
      \<and> getAlias k (namespaceOr (ref_Namespace r) ns) (ref_Name r) = Inr a
      \<and> \<not> alias_Ready a \<longrightarrow>
      (\<forall>secrets. buildClientConfig (k\<lparr>getSecret := secrets\<rparr>) conn ns
          = Inl (AliasNotReady (namespaceOr (ref_Namespace r) ns) (ref_Name r)))
      \<and> BuildError_kind (AliasNotReady (namespaceOr (ref_Namespace r) ns) (ref_Name r))
          = NotReadyError)
   \<and> (conn_AliasRef conn = None \<and> conn_URL conn = None \<and> conn_EndpointRef conn = Some r
      \<and> getEndpoint k (namespaceOr (ref_Namespace r) ns) (ref_Name r) = Inr e
      \<and> \<not> endpoint_Ready e \<longrightarrow>
      (\<forall>secrets. buildClientConfig (k\<lparr>getSecret := secrets\<rparr>) conn ns
          = Inl (EndpointNotReady (namespaceOr (ref_Namespace r) ns) (ref_Name r)))
      \<and> BuildError_kind (EndpointNotReady (namespaceOr (ref_Namespace r) ns) (ref_Name r))
          = NotReadyError)
   \<and> (epconn_URL econn = None \<and> epconn_EndpointRef econn = Some r
      \<and> getEndpoint k (namespaceOr (ref_Namespace r) ns) (ref_Name r) = Inr e
      \<and> \<not> endpoint_Ready e \<longrightarrow>
      (\<forall>secrets. buildClientConfig_ep (k\<lparr>getSecret := secrets\<rparr>) econn ns
          = Inl (EndpointNotReady (namespaceOr (ref_Namespace r) ns) (ref_Name r))))"
  by (simp add: buildClientConfig_def buildClientConfig_ep_def configFromAlias_not_ready
      configFromEndpoint_not_ready sourceConfig_ep_not_ready)

theorem buildClientConfig_not_ready_before_secret_witness:
  "getAlias ex_cluster ''default'' ''minio-pending'' = Inr (ex_alias\<lparr>alias_Ready := False\<rparr>)
   \<and> getEndpoint ex_cluster ''default'' ''minio-ep-pending''
       = Inr (ex_endpoint\<lparr>endpoint_Ready := False\<rparr>)
   \<and> buildClientConfig ex_cluster
       \<lparr>conn_AliasRef = Some \<lparr>ref_Name = ''minio-pending'', ref_Namespace = None\<rparr>,
        conn_EndpointRef = None, conn_URL = None, conn_SecretRef = None, conn_TLS = None\<rparr>
       ''default'' = Inl (AliasNotReady ''default'' ''minio-pending'')
   \<and> buildClientConfig_ep ex_cluster
       \<lparr>epconn_EndpointRef = Some \<lparr>ref_Name = ''minio-ep-pending'', ref_Namespace = None\<rparr>,
        epconn_URL = None, epconn_SecretRef = ex_secretRef, epconn_TLS = None\<rparr>
       ''default'' = Inl (EndpointNotReady ''default'' ''minio-ep-pending'')"
proof -
  let ?conn = "\<lparr>conn_AliasRef = Some \<lparr>ref_Name = ''minio-pending'', ref_Namespace = None\<rparr>,
                 conn_EndpointRef = None, conn_URL = None, conn_SecretRef = None,
                 conn_TLS = None\<rparr>"
  let ?econn = "\<lparr>epconn_EndpointRef =
                    Some \<lparr>ref_Name = ''minio-ep-pending'', ref_Namespace = None\<rparr>,
                  epconn_URL = None, epconn_SecretRef = ex_secretRef, epconn_TLS = None\<rparr>"
  have k: "ex_cluster\<lparr>getSecret := ex_getSecret\<rparr> = ex_cluster"
    by (simp add: ex_cluster_def)
  have a: "getAlias ex_cluster ''default'' ''minio-pending''
             = Inr (ex_alias\<lparr>alias_Ready := False\<rparr>)"
    by (simp add: ex_cluster_def ex_getAlias_def)
  have e: "getEndpoint ex_cluster ''default'' ''minio-ep-pending''
             = Inr (ex_endpoint\<lparr>endpoint_Ready := False\<rparr>)"
    by (simp add: ex_cluster_def ex_getEndpoint_def)
  have "\<forall>secrets. buildClientConfig (ex_cluster\<lparr>getSecret := secrets\<rparr>) ?conn ''default''
          = Inl (AliasNotReady ''default'' ''minio-pending'')"
    using buildClientConfig_not_ready_before_secret
      [where conn = ?conn and r = "\<lparr>ref_Name = ''minio-pending'', ref_Namespace = None\<rparr>"
         and k = ex_cluster and ns = "''default''" and a = "ex_alias\<lparr>alias_Ready := False\<rparr>"]
      a
    by (simp add: namespaceOr_def)
  then have 1: "buildClientConfig (ex_cluster\<lparr>getSecret := ex_getSecret\<rparr>) ?conn ''default''
          = Inl (AliasNotReady ''default'' ''minio-pending'')"
    by (rule spec)
  have "\<forall>secrets. buildClientConfig_ep (ex_cluster\<lparr>getSecret := secrets\<rparr>) ?econn ''default''
          = Inl (EndpointNotReady ''default'' ''minio-ep-pending'')"
    using buildClientConfig_not_ready_before_secret
      [where econn = ?econn
         and r = "\<lparr>ref_Name = ''minio-ep-pending'', ref_Namespace = None\<rparr>"
         and k = ex_cluster and ns = "''default''"
         and e = "ex_endpoint\<lparr>endpoint_Ready := False\<rparr>"]
      e
    by (simp add: namespaceOr_def)
  then have 2: "buildClientConfig_ep (ex_cluster\<lparr>getSecret := ex_getSecret\<rparr>) ?econn ''default''
          = Inl (EndpointNotReady ''default'' ''minio-ep-pending'')"
    by (rule spec)
  show ?thesis
    using 1 2 a e unfolding k by simp
qed

lemma buildClientConfig_alias_fields:
  "conn_AliasRef conn = Some r \<Longrightarrow> buildClientConfig k conn ns = Inr cfg \<Longrightarrow>
   \<exists>a. getAlias k (namespaceOr (ref_Namespace r) ns) (ref_Name r) = Inr a
      \<and> cfg_PathStyle cfg = alias_PathStyle a
      \<and> cfg_Region cfg = regionOrEmpty (alias_Region a)
      \<and> (conn_URL conn = None \<or> conn_SecretRef conn = None \<longrightarrow>
            cfg_Insecure cfg = tlsInsecure (alias_TLS a))"
proof -
  assume r: "conn_AliasRef conn = Some r" and b: "buildClientConfig k conn ns = Inr cfg"
  from r b obtain c where c: "configFromAlias k r ns initialConfig = Inr c"
    and d: "directCredentials k conn ns c = Inr cfg"
    by (auto simp: buildClientConfig_def split: sum.splits)
  from configFromAlias_fields [OF c] obtain a where
    a: "getAlias k (namespaceOr (ref_Namespace r) ns) (ref_Name r) = Inr a"
      "cfg_Insecure c = tlsInsecure (alias_TLS a)"
      "cfg_PathStyle c = alias_PathStyle a"
      "cfg_Region c = regionOrEmpty (alias_Region a)"
    by blast
  have "conn_URL conn = None \<or> conn_SecretRef conn = None \<longrightarrow> cfg = c"
    using d directCredentials_skip [of conn k ns c] by auto
  with a directCredentials_keeps [OF d] show ?thesis by auto
qed

lemma buildClientConfig_endpoint_fields:
  "conn_AliasRef conn = None \<Longrightarrow> conn_URL conn = None \<Longrightarrow> conn_EndpointRef conn = Some r \<Longrightarrow>
   buildClientConfig k conn ns = Inr cfg \<Longrightarrow>
   \<exists>e. getEndpoint k (namespaceOr (ref_Namespace r) ns) (ref_Name r) = Inr e
      \<and> cfg_Insecure cfg = tlsInsecure (endpoint_TLS e)
      \<and> cfg_PathStyle cfg = endpoint_PathStyle e
      \<and> cfg_Region cfg = regionOrEmpty (endpoint_Region e)"
proof -
  assume r: "conn_AliasRef conn = None" "conn_URL conn = None" "conn_EndpointRef conn = Some r"
    and b: "buildClientConfig k conn ns = Inr cfg"
  have "directCredentials k conn ns c = Inr c" for c
    using r directCredentials_skip [of conn k ns c] by simp
  with r b have "configFromEndpoint k r ns initialConfig = Inr cfg"
    by (auto simp: buildClientConfig_def split: sum.splits)
  from configFromEndpoint_fields [OF this] show ?thesis by blast
qed

lemma buildClientConfig_TLS_ignored:
  "conn_URL conn = None \<or> conn_SecretRef conn = None \<Longrightarrow>
   buildClientConfig k (conn\<lparr>conn_TLS := t\<rparr>) ns = buildClientConfig k conn ns"
  by (auto simp: buildClientConfig_def directCredentials_TLS_irrelevant
      split: sum.splits option.splits)

text \<open>
  C8 (as the code has it). When a block resolves through \<open>AliasRef\<close> or \<open>EndpointRef\<close>,
  path-style and region of the result are those of the referenced Alias or Endpoint. In the
  resolver with alias support the insecure flag is the referenced one as well, and the
  block's own \<open>TLS\<close> entry changes nothing, whenever the block does not carry both a
  \<open>URL\<close> and a \<open>SecretRef\<close> (an \<open>EndpointRef\<close> is only reached without \<open>URL\<close>).
  In the resolver of client.go a \<open>TLS\<close> entry of the block, when present, replaces the
  Endpoint's insecure flag.
\<close>

theorem buildClientConfig_fields_from_reference:
  "(conn_AliasRef conn = Some r \<and> buildClientConfig k conn ns = Inr cfg \<longrightarrow>
      (\<exists>a. getAlias k (namespaceOr (ref_Namespace r) ns) (ref_Name r) = Inr a
         \<and> cfg_PathStyle cfg = alias_PathStyle a
         \<and> cfg_Region cfg = regionOrEmpty (alias_Region a)
         \<and> (conn_URL conn = None \<or> conn_SecretRef conn = None \<longrightarrow>
               cfg_Insecure cfg = tlsInsecure (alias_TLS a))))
   \<and> (conn_AliasRef conn = Some r \<and> (conn_URL conn = None \<or> conn_SecretRef conn = None) \<longrightarrow>
        buildClientConfig k (conn\<lparr>conn_TLS := t\<rparr>) ns = buildClientConfig k conn ns)
   \<and> (conn_AliasRef conn = None \<and> conn_URL conn = None \<and> conn_EndpointRef conn = Some r \<longrightarrow>
        buildClientConfig k (conn\<lparr>conn_TLS := t\<rparr>) ns = buildClientConfig k conn ns
        \<and> (buildClientConfig k conn ns = Inr cfg \<longrightarrow>
             (\<exists>e. getEndpoint k (namespaceOr (ref_Namespace r) ns) (ref_Name r) = Inr e
                \<and> cfg_Insecure cfg = tlsInsecure (endpoint_TLS e)
                \<and> cfg_PathStyle cfg = endpoint_PathStyle e
                \<and> cfg_Region cfg = regionOrEmpty (endpoint_Region e))))
   \<and> (epconn_URL econn = None \<and> epconn_EndpointRef econn = Some r
        \<and> buildClientConfig_ep k econn ns = Inr cfg \<longrightarrow>
        (\<exists>e. getEndpoint k (namespaceOr (ref_Namespace r) ns) (ref_Name r) = Inr e
           \<and> cfg_PathStyle cfg = endpoint_PathStyle e
           \<and> cfg_Region cfg = regionOrEmpty (endpoint_Region e)
           \<and> cfg_Insecure cfg = (case epconn_TLS econn of
                                    None \<Rightarrow> tlsInsecure (endpoint_TLS e)
                                  | Some tls \<Rightarrow> Insecure tls)))"
  using buildClientConfig_alias_fields [of conn r k ns cfg]
    buildClientConfig_endpoint_fields [of conn r k ns cfg]
    buildClientConfig_TLS_ignored [of conn k t ns]
    buildClientConfig_ep_fields [of econn r k ns cfg]
  by simp

lemma ex_alias_run:
  "buildClientConfig ex_cluster
      \<lparr>conn_AliasRef = Some \<lparr>ref_Name = ''minio-local'', ref_Namespace = None\<rparr>,
       conn_EndpointRef = None, conn_URL = None, conn_SecretRef = None,
       conn_TLS = Some \<lparr>Insecure = True, CABundle = []\<rparr>\<rparr> ''default''
     = Inr \<lparr>cfg_Endpoint = ''minio:9000'', cfg_AccessKeyID = ''k'',
            cfg_SecretAccessKey = ''s'', cfg_UseSSL = True, cfg_Insecure = False,
            cfg_PathStyle = False, cfg_Region = []\<rparr>"
  by (simp add: buildClientConfig_def configFromAlias_def directCredentials_def
      namespaceOr_def ex_cluster_def ex_getAlias_def ex_getSecret_def ex_alias_def
      ex_secretRef_def secretCredentials_def initialConfig_def Let_def)

theorem buildClientConfig_fields_from_reference_witness:
  "buildClientConfig ex_cluster
      \<lparr>conn_AliasRef = Some \<lparr>ref_Name = ''minio-local'', ref_Namespace = None\<rparr>,
       conn_EndpointRef = None, conn_URL = None, conn_SecretRef = None,
       conn_TLS = Some \<lparr>Insecure = True, CABundle = []\<rparr>\<rparr> ''default''
     = Inr \<lparr>cfg_Endpoint = ''minio:9000'', cfg_AccessKeyID = ''k'',
            cfg_SecretAccessKey = ''s'', cfg_UseSSL = True, cfg_Insecure = False,
            cfg_PathStyle = False, cfg_Region = []\<rparr>
   \<and> (\<exists>a. getAlias ex_cluster ''default'' ''minio-local'' = Inr a
         \<and> alias_PathStyle a = False \<and> regionOrEmpty (alias_Region a) = []
         \<and> tlsInsecure (alias_TLS a) = False)
   \<and> buildClientConfig ex_cluster
      \<lparr>conn_AliasRef = Some \<lparr>ref_Name = ''minio-local'', ref_Namespace = None\<rparr>,
       conn_EndpointRef = None, conn_URL = None, conn_SecretRef = None,
       conn_TLS = None\<rparr> ''default''
     = buildClientConfig ex_cluster
      \<lparr>conn_AliasRef = Some \<lparr>ref_Name = ''minio-local'', ref_Namespace = None\<rparr>,
       conn_EndpointRef = None, conn_URL = None, conn_SecretRef = None,
       conn_TLS = Some \<lparr>Insecure = True, CABundle = []\<rparr>\<rparr> ''default''"
  using buildClientConfig_fields_from_reference
    [where conn = "\<lparr>conn_AliasRef = Some \<lparr>ref_Name = ''minio-local'', ref_Namespace = None\<rparr>,
       conn_EndpointRef = None, conn_URL = None, conn_SecretRef = None,
       conn_TLS = Some \<lparr>Insecure = True, CABundle = []\<rparr>\<rparr>"
      and r = "\<lparr>ref_Name = ''minio-local'', ref_Namespace = None\<rparr>"
      and k = ex_cluster and ns = "''default''" and t = None
      and econn = "\<lparr>epconn_EndpointRef = None, epconn_URL = None,
            epconn_SecretRef = ex_secretRef, epconn_TLS = None\<rparr>"
      and cfg = "\<lparr>cfg_Endpoint = ''minio:9000'', cfg_AccessKeyID = ''k'',
            cfg_SecretAccessKey = ''s'', cfg_UseSSL = True, cfg_Insecure = False,
            cfg_PathStyle = False, cfg_Region = []\<rparr>"]
    ex_alias_run
  by (auto simp: namespaceOr_def)

text \<open>
  The claim C8 as stated fails. In the resolver of client.go a block resolved through
  \<open>EndpointRef\<close> takes the insecure flag of its own \<open>TLS\<close> entry, although the
  Endpoint sets none. In the resolver with alias support a block with \<open>AliasRef\<close>,
  \<open>URL\<close> and \<open>SecretRef\<close> resolves to the alias's URL with the insecure flag of the
  block's own \<open>TLS\<close> entry.
\<close>

theorem buildClientConfig_TLS_override_counterexample:
  "endpoint_TLS ex_endpoint = None
   \<and> buildClientConfig_ep ex_cluster
      \<lparr>epconn_EndpointRef = Some \<lparr>ref_Name = ''minio-ep'', ref_Namespace = None\<rparr>,
       epconn_URL = None, epconn_SecretRef = ex_secretRef,
       epconn_TLS = Some \<lparr>Insecure = True, CABundle = []\<rparr>\<rparr> ''default''
     = Inr \<lparr>cfg_Endpoint = ''minio:9000'', cfg_AccessKeyID = ''k'',
            cfg_SecretAccessKey = ''s'', cfg_UseSSL = True, cfg_Insecure = True,
            cfg_PathStyle = False, cfg_Region = []\<rparr>
   \<and> alias_TLS ex_alias = None
   \<and> buildClientConfig ex_cluster
      \<lparr>conn_AliasRef = Some \<lparr>ref_Name = ''minio-local'', ref_Namespace = None\<rparr>,
       conn_EndpointRef = None, conn_URL = Some ''other:9000'',
       conn_SecretRef = Some ex_secretRef,
       conn_TLS = Some \<lparr>Insecure = True, CABundle = []\<rparr>\<rparr> ''default''
     = Inr \<lparr>cfg_Endpoint = ''minio:9000'', cfg_AccessKeyID = ''k'',
            cfg_SecretAccessKey = ''s'', cfg_UseSSL = True, cfg_Insecure = True,
            cfg_PathStyle = False, cfg_Region = []\<rparr>"
  by (simp add: buildClientConfig_def buildClientConfig_ep_def sourceConfig_ep_def
      connectionCredentials_ep_def configFromAlias_def
      directCredentials_def namespaceOr_def ex_cluster_def ex_getAlias_def ex_getEndpoint_def
      ex_getSecret_def ex_alias_def ex_endpoint_def ex_secretRef_def secretCredentials_def
      initialConfig_def Let_def)




section \<open>Properties of the reconcile passes\<close>

lemma remoteOnly_refl: "remoteOnly p p"
  by (simp add: remoteOnly_def)

lemma remoteOnly_events:
  "remoteOnly p q \<Longrightarrow> \<exists>es. pass_events q = pass_events p @ es \<and> list_all isRemoteCall es"
  unfolding remoteOnly_def by (metis append_take_drop_id)

lemma remoteOnly_remoteI: "remoteOnly p q \<Longrightarrow> remoteOnly p (remote op q)"
proof -
  assume pq: "remoteOnly p q"
  from remoteOnly_events [OF pq] obtain es where
    es: "pass_events q = pass_events p @ es" "list_all isRemoteCall es" by blast
  show ?thesis
    using pq es by (simp add: remoteOnly_def remote_def)
qed

lemma remoteOnly_setStatusI: "remoteOnly p q \<Longrightarrow> remoteOnly p (setStatus f q)"
  by (simp add: remoteOnly_def setStatus_def)

lemmas remoteOnly_intros = remoteOnly_refl remoteOnly_remoteI remoteOnly_setStatusI

lemma reconcileUser_status_remoteOnly:
  "remoteOnly p q \<Longrightarrow> remoteOnly p (pass (reconcileUser_status env q))"
  unfolding reconcileUser_status_def Let_def
  by (auto split: option.splits list.splits intro!: remoteOnly_intros)

lemma reconcileUser_remoteOnly:
  "remoteOnly p q \<Longrightarrow> remoteOnly p (pass (reconcileUser env q))"
  unfolding reconcileUser_def Let_def
  by (auto split: option.splits sum.splits
      intro!: remoteOnly_intros reconcileUser_status_remoteOnly)

lemma reconcilePolicy_remoteOnly:
  "remoteOnly p q \<Longrightarrow> remoteOnly p (pass (reconcilePolicy env q))"
  unfolding reconcilePolicy_def Let_def
  by (auto split: option.splits sum.splits intro!: remoteOnly_intros)

lemma reconcileUser_status_fields:
  "ust_ObservedGeneration (obj_Status (pass_obj (pass (reconcileUser_status env q))))
     = ust_ObservedGeneration (obj_Status (pass_obj q))
   \<and> ust_LastSyncTime (obj_Status (pass_obj (pass (reconcileUser_status env q))))
     = ust_LastSyncTime (obj_Status (pass_obj q))"
  unfolding reconcileUser_status_def Let_def
  by (auto simp: setStatus_def remote_def split: option.splits list.splits)

lemma reconcileUser_fields:
  "ust_ObservedGeneration (obj_Status (pass_obj (pass (reconcileUser env q))))
     = ust_ObservedGeneration (obj_Status (pass_obj q))
   \<and> ust_LastSyncTime (obj_Status (pass_obj (pass (reconcileUser env q))))
     = ust_LastSyncTime (obj_Status (pass_obj q))"
  unfolding reconcileUser_def Let_def
  by (auto simp: reconcileUser_status_fields setStatus_def remote_def
      split: option.splits sum.splits)

lemma reconcileUser_status_err:
  "returned_err (reconcileUser_status env q) = Some e \<Longrightarrow> isFailure (Some e)"
  unfolding reconcileUser_status_def Let_def by (auto split: option.splits)

lemma reconcileUser_err:
  "returned_err (reconcileUser env q) = Some e \<Longrightarrow> isFailure (Some e)"
  unfolding reconcileUser_def Let_def
  by (auto split: option.splits sum.splits if_splits dest: reconcileUser_status_err)

lemma StatusUpdate_shape:
  "pass_events (StatusUpdate r p) = pass_events p @ [StatusUpdateCall (pass_obj p) r]
   \<and> pass_stored (StatusUpdate r p)
       = (if r = None then (pass_stored p)\<lparr>obj_Status := obj_Status (pass_obj p)\<rparr>
          else pass_stored p)"
  by (simp add: StatusUpdate_def Let_def split: option.splits)

lemma Update_shape:
  "pass_events (Update r p) = pass_events p @ [UpdateCall (pass_obj p) r]
   \<and> pass_stored (Update r p)
       = (if r = None then (pass_stored p)\<lparr>obj_Meta := obj_Meta (pass_obj p),
                                             obj_Spec := obj_Spec (pass_obj p)\<rparr>
          else pass_stored p)"
  by (simp add: Update_def Let_def split: option.splits)

lemma clientCalled_shape:
  "pass_events (clientCalled r p) = pass_events p @ [NewClientCall (errOf r)]
   \<and> pass_obj (clientCalled r p) = pass_obj p \<and> pass_stored (clientCalled r p) = pass_stored p"
  by (simp add: clientCalled_def)

lemma remoteOnly_clientCalled:
  "remoteOnly (clientCalled r q) q' \<Longrightarrow>
   \<exists>es. pass_events q' = pass_events q @ NewClientCall (errOf r) # es
      \<and> list_all isRemoteCall es
      \<and> pass_stored q' = pass_stored q
      \<and> obj_Meta (pass_obj q') = obj_Meta (pass_obj q)
      \<and> obj_Spec (pass_obj q') = obj_Spec (pass_obj q)"
proof -
  assume ro: "remoteOnly (clientCalled r q) q'"
  from remoteOnly_events [OF ro] obtain es where
    es: "pass_events q' = pass_events (clientCalled r q) @ es" "list_all isRemoteCall es"
    by blast
  from ro have fr: "pass_stored q' = pass_stored q"
    "obj_Meta (pass_obj q') = obj_Meta (pass_obj q)"
    "obj_Spec (pass_obj q') = obj_Spec (pass_obj q)"
    by (simp_all add: remoteOnly_def clientCalled_def)
  from es fr show ?thesis by (simp add: clientCalled_def)
qed

lemma UserReconciler_converge_shape:
  "\<exists>es w. pass_events (pass (UserReconciler_converge env q))
            = pass_events q
                @ NewClientCall (errOf (NewClient (env_k8s env) (env_sdk env)
                     (us_Connection (obj_Spec (pass_obj q)))
                     (meta_Namespace (obj_Meta (pass_obj q)))))
                # es @ [StatusUpdateCall w (env_StatusUpdate2 env)]
     \<and> list_all isRemoteCall es
     \<and> obj_Meta w = obj_Meta (pass_obj q) \<and> obj_Spec w = obj_Spec (pass_obj q)
     \<and> ust_ObservedGeneration (obj_Status w) = ust_ObservedGeneration (obj_Status (pass_obj q))
     \<and> ust_LastSyncTime (obj_Status w)
         = (case NewClient (env_k8s env) (env_sdk env) (us_Connection (obj_Spec (pass_obj q)))
                  (meta_Namespace (obj_Meta (pass_obj q))) of
              Inl err \<Rightarrow> ust_LastSyncTime (obj_Status (pass_obj q))
            | Inr c \<Rightarrow>
                if isFailure (returned_err (UserReconciler_converge env q))
                then Some (env_now env AtErrorSync) else Some (env_now env AtLastSync))
     \<and> pass_stored (pass (UserReconciler_converge env q))
         = (if env_StatusUpdate2 env = None
            then (pass_stored q)\<lparr>obj_Status := obj_Status w\<rparr> else pass_stored q)"
proof (cases "NewClient (env_k8s env) (env_sdk env) (us_Connection (obj_Spec (pass_obj q)))
                  (meta_Namespace (obj_Meta (pass_obj q)))")
  case (Inl err)
  then show ?thesis
    unfolding UserReconciler_converge_def Let_def
    by (intro exI [of _ "[]"]) (simp add: StatusUpdate_shape setStatus_def clientCalled_def)
next
  case (Inr c)
  let ?pc = "clientCalled (NewClient (env_k8s env) (env_sdk env)
                (us_Connection (obj_Spec (pass_obj q)))
                (meta_Namespace (obj_Meta (pass_obj q)))) q"
  let ?out = "reconcileUser env ?pc"
  have ro: "remoteOnly ?pc (pass ?out)"
    by (rule reconcileUser_remoteOnly [OF remoteOnly_refl])
  from remoteOnly_clientCalled [OF ro] obtain es where
    es: "pass_events (pass ?out)
           = pass_events q @ NewClientCall (errOf (NewClient (env_k8s env) (env_sdk env)
                (us_Connection (obj_Spec (pass_obj q)))
                (meta_Namespace (obj_Meta (pass_obj q))))) # es"
      "list_all isRemoteCall es"
    and fr: "pass_stored (pass ?out) = pass_stored q"
      "obj_Meta (pass_obj (pass ?out)) = obj_Meta (pass_obj q)"
      "obj_Spec (pass_obj (pass ?out)) = obj_Spec (pass_obj q)"
    by blast
  have fl: "ust_ObservedGeneration (obj_Status (pass_obj (pass ?out)))
               = ust_ObservedGeneration (obj_Status (pass_obj q))"
    "ust_LastSyncTime (obj_Status (pass_obj (pass ?out)))
               = ust_LastSyncTime (obj_Status (pass_obj q))"
    using reconcileUser_fields [of env ?pc] by (simp_all add: clientCalled_def)
  show ?thesis
  proof (cases "returned_err ?out")
    case None
    show ?thesis
      apply (rule exI [of _ es])
      using Inr None es fr fl
      unfolding UserReconciler_converge_def Let_def
      by (auto simp: StatusUpdate_shape setStatus_def split: option.splits)
  next
    case (Some e)
    from reconcileUser_err [OF Some] have "isFailure (Some e)" .
    then show ?thesis
      apply -
      apply (rule exI [of _ es])
      using Inr Some es fr fl
      unfolding UserReconciler_converge_def Let_def
      by (auto simp: StatusUpdate_shape setStatus_def split: option.splits)
  qed
qed

lemma reconcilePolicy_fields:
  "pst_ObservedGeneration (obj_Status (pass_obj (pass (reconcilePolicy env q))))
     = pst_ObservedGeneration (obj_Status (pass_obj q))
   \<and> pst_LastSyncTime (obj_Status (pass_obj (pass (reconcilePolicy env q))))
     = pst_LastSyncTime (obj_Status (pass_obj q))
   \<and> pst_Conditions (obj_Status (pass_obj (pass (reconcilePolicy env q))))
     = pst_Conditions (obj_Status (pass_obj q))"
  unfolding reconcilePolicy_def Let_def
  by (auto simp: setStatus_def remote_def split: option.splits sum.splits)

lemma reconcilePolicy_err:
  "returned_err (reconcilePolicy env q) = Some e \<Longrightarrow> isFailure (Some e)"
  unfolding reconcilePolicy_def Let_def
  by (auto split: option.splits sum.splits if_splits)

lemma reconcilePolicy_err_cong:
  "obj_Spec (pass_obj q) = obj_Spec (pass_obj q') \<Longrightarrow>
   pst_PolicyHash (obj_Status (pass_obj q)) = pst_PolicyHash (obj_Status (pass_obj q')) \<Longrightarrow>
   returned_err (reconcilePolicy env q) = returned_err (reconcilePolicy env q')"
  unfolding reconcilePolicy_def Let_def
  by (auto split: option.splits sum.splits)

lemma PolicyReconciler_converge_shape:
  "\<exists>es w. pass_events (pass (PolicyReconciler_converge env q))
            = pass_events q
                @ NewClientCall (errOf (NewClient (env_k8s env) (env_sdk env)
                     (ps_Connection (obj_Spec (pass_obj q)))
                     (meta_Namespace (obj_Meta (pass_obj q)))))
                # es @ [StatusUpdateCall w (env_StatusUpdate2 env)]
     \<and> list_all isRemoteCall es
     \<and> obj_Meta w = obj_Meta (pass_obj q) \<and> obj_Spec w = obj_Spec (pass_obj q)
     \<and> pst_ObservedGeneration (obj_Status w) = pst_ObservedGeneration (obj_Status (pass_obj q))
     \<and> pass_stored (pass (PolicyReconciler_converge env q))
         = (if env_StatusUpdate2 env = None
            then (pass_stored q)\<lparr>obj_Status := obj_Status w\<rparr> else pass_stored q)"
proof (cases "NewClient (env_k8s env) (env_sdk env) (ps_Connection (obj_Spec (pass_obj q)))
                  (meta_Namespace (obj_Meta (pass_obj q)))")
  case (Inl err)
  then show ?thesis
    unfolding PolicyReconciler_converge_def Let_def
    by (intro exI [of _ "[]"]) (simp add: StatusUpdate_shape setStatus_def clientCalled_def)
next
  case (Inr c)
  let ?pc = "clientCalled (NewClient (env_k8s env) (env_sdk env)
                (ps_Connection (obj_Spec (pass_obj q)))
                (meta_Namespace (obj_Meta (pass_obj q)))) q"
  let ?out = "reconcilePolicy env ?pc"
  have ro: "remoteOnly ?pc (pass ?out)"
    by (rule reconcilePolicy_remoteOnly [OF remoteOnly_refl])
  from remoteOnly_clientCalled [OF ro] obtain es where
    es: "pass_events (pass ?out)
           = pass_events q @ NewClientCall (errOf (NewClient (env_k8s env) (env_sdk env)
                (ps_Connection (obj_Spec (pass_obj q)))
                (meta_Namespace (obj_Meta (pass_obj q))))) # es"
      "list_all isRemoteCall es"
    and fr: "pass_stored (pass ?out) = pass_stored q"
      "obj_Meta (pass_obj (pass ?out)) = obj_Meta (pass_obj q)"
      "obj_Spec (pass_obj (pass ?out)) = obj_Spec (pass_obj q)"
    by blast
  have fl: "pst_ObservedGeneration (obj_Status (pass_obj (pass ?out)))
               = pst_ObservedGeneration (obj_Status (pass_obj q))"
    using reconcilePolicy_fields [of env ?pc] by (simp add: clientCalled_def)
  show ?thesis
    apply (rule exI [of _ es])
    using Inr es fr fl
    unfolding PolicyReconciler_converge_def Let_def
    by (auto simp: StatusUpdate_shape setStatus_def split: option.splits)
qed

lemma PolicyReconciler_converge_no_conflict_returned:
  "returned_err (PolicyReconciler_converge env q) = Some (ApiFailure e) \<Longrightarrow> \<not> IsConflict e"
  unfolding PolicyReconciler_converge_def Let_def
  by (auto split: sum.splits option.splits if_splits dest: reconcilePolicy_err)

lemma PolicyReconciler_converge_final_conflict:
  "NewClient (env_k8s env) (env_sdk env) (ps_Connection (obj_Spec (pass_obj q)))
      (meta_Namespace (obj_Meta (pass_obj q))) = Inr c \<Longrightarrow>
   returned_err (reconcilePolicy env q) = None \<Longrightarrow>
   env_StatusUpdate2 env = Some e \<Longrightarrow> IsConflict e \<Longrightarrow>
   RequeueAfter (PolicyReconciler_converge env q) = Second
   \<and> returned_err (PolicyReconciler_converge env q) = None"
proof -
  assume c: "NewClient (env_k8s env) (env_sdk env) (ps_Connection (obj_Spec (pass_obj q)))
      (meta_Namespace (obj_Meta (pass_obj q))) = Inr c"
    and r: "returned_err (reconcilePolicy env q) = None"
    and e: "env_StatusUpdate2 env = Some e" "IsConflict e"
  have "returned_err (reconcilePolicy env (clientCalled (Inr c) q)) = None"
    using reconcilePolicy_err_cong [of "clientCalled (Inr c) q" q env] r
    by (simp add: clientCalled_def)
  with c e show ?thesis
    unfolding PolicyReconciler_converge_def Let_def by simp
qed

lemma PolicyReconciler_progress_shape:
  "\<exists>w1. w1 = (pass_obj q)\<lparr>obj_Status := (obj_Status (pass_obj q))\<lparr>pst_Conditions :=
                   SetCondition (env_now env AtProgressing)
                     (pst_Conditions (obj_Status (pass_obj q)))
                     ConditionProgressing ConditionTrue ''Reconciling'' ''Reconciling policy'',
                 pst_ObservedGeneration := meta_Generation (obj_Meta (pass_obj q))\<rparr>\<rparr>
     \<and> (case env_StatusUpdate1 env of
           Some err \<Rightarrow>
             pass_events (pass (PolicyReconciler_progress env q))
               = pass_events q @ [StatusUpdateCall w1 (Some err)]
             \<and> pass_stored (pass (PolicyReconciler_progress env q)) = pass_stored q
         | None \<Rightarrow>
             (\<exists>es w2. pass_events (pass (PolicyReconciler_progress env q))
                 = pass_events q @ StatusUpdateCall w1 None
                     # NewClientCall (errOf (NewClient (env_k8s env) (env_sdk env)
                          (ps_Connection (obj_Spec (pass_stored q)))
                          (meta_Namespace (obj_Meta (pass_stored q)))))
                     # es @ [StatusUpdateCall w2 (env_StatusUpdate2 env)]
               \<and> list_all isRemoteCall es
               \<and> pst_ObservedGeneration (obj_Status w2)
                   = meta_Generation (obj_Meta (pass_obj q))
               \<and> pst_ObservedGeneration
                    (obj_Status (pass_stored (pass (PolicyReconciler_progress env q))))
                   = meta_Generation (obj_Meta (pass_obj q))))"
proof (cases "env_StatusUpdate1 env")
  case (Some err)
  then show ?thesis
    unfolding PolicyReconciler_progress_def Let_def
    by (auto simp: StatusUpdate_shape setStatus_def)
next
  case None
  define p1 where "p1 = setStatus (\<lambda>s. s\<lparr>pst_Conditions :=
                     SetCondition (env_now env AtProgressing) (pst_Conditions s)
                       ConditionProgressing ConditionTrue ''Reconciling''
                       ''Reconciling policy'',
                   pst_ObservedGeneration := meta_Generation (obj_Meta (pass_obj q))\<rparr>) q"
  define p2 where "p2 = StatusUpdate None p1"
  define out where "out = PolicyReconciler_progress env q"
  have out: "out = PolicyReconciler_converge env p2"
    using None unfolding out_def p2_def p1_def PolicyReconciler_progress_def Let_def by simp
  have p1: "pass_obj p1 = (pass_obj q)\<lparr>obj_Status := (obj_Status (pass_obj q))\<lparr>pst_Conditions :=
                   SetCondition (env_now env AtProgressing)
                     (pst_Conditions (obj_Status (pass_obj q)))
                     ConditionProgressing ConditionTrue ''Reconciling'' ''Reconciling policy'',
                 pst_ObservedGeneration := meta_Generation (obj_Meta (pass_obj q))\<rparr>\<rparr>"
    unfolding p1_def by (simp add: setStatus_def)
  have p2: "pass_events p2 = pass_events q @ [StatusUpdateCall (pass_obj p1) None]"
    "pst_ObservedGeneration (obj_Status (pass_obj p2)) = meta_Generation (obj_Meta (pass_obj q))"
    "pst_ObservedGeneration (obj_Status (pass_stored p2)) = meta_Generation (obj_Meta (pass_obj q))"
    "obj_Spec (pass_obj p2) = obj_Spec (pass_stored q)"
    "obj_Meta (pass_obj p2) = obj_Meta (pass_stored q)"
    unfolding p2_def p1_def
    by (simp_all add: StatusUpdate_def setStatus_def Let_def)
  from PolicyReconciler_converge_shape [of env p2] obtain es w where
    c: "pass_events (pass out)
            = pass_events p2
                @ NewClientCall (errOf (NewClient (env_k8s env) (env_sdk env)
                     (ps_Connection (obj_Spec (pass_obj p2)))
                     (meta_Namespace (obj_Meta (pass_obj p2)))))
                # es @ [StatusUpdateCall w (env_StatusUpdate2 env)]"
      "list_all isRemoteCall es"
      "pst_ObservedGeneration (obj_Status w) = pst_ObservedGeneration (obj_Status (pass_obj p2))"
      "pass_stored (pass out)
         = (if env_StatusUpdate2 env = None
            then (pass_stored p2)\<lparr>obj_Status := obj_Status w\<rparr> else pass_stored p2)"
    unfolding out by blast
  have ev: "pass_events (pass out)
      = pass_events q @ StatusUpdateCall (pass_obj p1) None
          # NewClientCall (errOf (NewClient (env_k8s env) (env_sdk env)
               (ps_Connection (obj_Spec (pass_stored q)))
               (meta_Namespace (obj_Meta (pass_stored q)))))
          # es @ [StatusUpdateCall w (env_StatusUpdate2 env)]"
    using c(1) p2 by simp
  have st: "pst_ObservedGeneration (obj_Status (pass_stored (pass out)))
              = meta_Generation (obj_Meta (pass_obj q))"
    using c(3,4) p2 by simp
  have w: "pst_ObservedGeneration (obj_Status w) = meta_Generation (obj_Meta (pass_obj q))"
    using c(3) p2 by simp
  have "\<exists>es w2. pass_events (pass out)
                 = pass_events q @ StatusUpdateCall (pass_obj p1) None
                     # NewClientCall (errOf (NewClient (env_k8s env) (env_sdk env)
                          (ps_Connection (obj_Spec (pass_stored q)))
                          (meta_Namespace (obj_Meta (pass_stored q)))))
                     # es @ [StatusUpdateCall w2 (env_StatusUpdate2 env)]
               \<and> list_all isRemoteCall es
               \<and> pst_ObservedGeneration (obj_Status w2)
                   = meta_Generation (obj_Meta (pass_obj q))
               \<and> pst_ObservedGeneration (obj_Status (pass_stored (pass out)))
                   = meta_Generation (obj_Meta (pass_obj q))"
    using ev c(2) w st by blast
  then show ?thesis
    using None unfolding p1 out_def by simp
qed

lemma UserReconciler_progress_shape:
  "meta_DeletionTimestamp (obj_Meta user) = None \<Longrightarrow>
   ContainsFinalizer (obj_Meta user) UserFinalizer \<Longrightarrow>
   \<exists>w1. w1 = user\<lparr>obj_Status := (obj_Status user)\<lparr>ust_Conditions :=
                   SetCondition (env_now env AtProgressing) (ust_Conditions (obj_Status user))
                     ConditionProgressing ConditionTrue ''Reconciling'' ''Reconciling user'',
                 ust_ObservedGeneration := meta_Generation (obj_Meta user)\<rparr>\<rparr>
     \<and> (case env_StatusUpdate1 env of
           Some err \<Rightarrow>
             pass_events (pass (UserReconciler_Reconcile env user))
               = [StatusUpdateCall w1 (Some err)]
             \<and> pass_stored (pass (UserReconciler_Reconcile env user)) = user
         | None \<Rightarrow>
             (\<exists>es w2. pass_events (pass (UserReconciler_Reconcile env user))
                 = StatusUpdateCall w1 None
                     # NewClientCall (errOf (NewClient (env_k8s env) (env_sdk env)
                          (us_Connection (obj_Spec user)) (meta_Namespace (obj_Meta user))))
                     # es @ [StatusUpdateCall w2 (env_StatusUpdate2 env)]
               \<and> list_all isRemoteCall es
               \<and> ust_ObservedGeneration (obj_Status w2) = meta_Generation (obj_Meta user)
               \<and> ust_ObservedGeneration
                    (obj_Status (pass_stored (pass (UserReconciler_Reconcile env user))))
                   = meta_Generation (obj_Meta user)
               \<and> (env_StatusUpdate2 env = None \<longrightarrow>
                     obj_Status (pass_stored (pass (UserReconciler_Reconcile env user)))
                       = obj_Status w2)
               \<and> ust_LastSyncTime (obj_Status w2)
                   = (case NewClient (env_k8s env) (env_sdk env) (us_Connection (obj_Spec user))
                            (meta_Namespace (obj_Meta user)) of
                        Inl err \<Rightarrow> ust_LastSyncTime (obj_Status user)
                      | Inr c \<Rightarrow>
                          if isFailure (returned_err (UserReconciler_Reconcile env user))
                          then Some (env_now env AtErrorSync)
                          else Some (env_now env AtLastSync))))"
proof (cases "env_StatusUpdate1 env")
  case (Some err)
  assume "meta_DeletionTimestamp (obj_Meta user) = None"
    "ContainsFinalizer (obj_Meta user) UserFinalizer"
  with Some show ?thesis
    unfolding UserReconciler_Reconcile_def Let_def
    by (simp add: StatusUpdate_shape setStatus_def startPass_def)
next
  case None
  assume a: "meta_DeletionTimestamp (obj_Meta user) = None"
    "ContainsFinalizer (obj_Meta user) UserFinalizer"
  define p1 where "p1 = setStatus (\<lambda>s. s\<lparr>ust_Conditions :=
                        SetCondition (env_now env AtProgressing) (ust_Conditions s)
                          ConditionProgressing ConditionTrue ''Reconciling''
                          ''Reconciling user'',
                      ust_ObservedGeneration := meta_Generation (obj_Meta user)\<rparr>)
               (startPass user)"
  define p2 where "p2 = StatusUpdate None p1"
  define out where "out = UserReconciler_Reconcile env user"
  have out: "out = UserReconciler_converge env p2"
    using None a unfolding out_def p2_def p1_def UserReconciler_Reconcile_def Let_def by simp
  have p2: "pass_events p2 = [StatusUpdateCall (pass_obj p1) None]"
    "ust_ObservedGeneration (obj_Status (pass_obj p2)) = meta_Generation (obj_Meta user)"
    "ust_ObservedGeneration (obj_Status (pass_stored p2)) = meta_Generation (obj_Meta user)"
    "ust_LastSyncTime (obj_Status (pass_obj p2)) = ust_LastSyncTime (obj_Status user)"
    "obj_Meta (pass_obj p2) = obj_Meta user" "obj_Spec (pass_obj p2) = obj_Spec user"
    unfolding p2_def p1_def
    by (simp_all add: StatusUpdate_def setStatus_def startPass_def Let_def)
  have p1: "pass_obj p1 = user\<lparr>obj_Status := (obj_Status user)\<lparr>ust_Conditions :=
                   SetCondition (env_now env AtProgressing) (ust_Conditions (obj_Status user))
                     ConditionProgressing ConditionTrue ''Reconciling'' ''Reconciling user'',
                 ust_ObservedGeneration := meta_Generation (obj_Meta user)\<rparr>\<rparr>"
    unfolding p1_def by (simp add: setStatus_def startPass_def)
  from UserReconciler_converge_shape [of env p2] obtain es w where
    c: "pass_events (pass out)
          = pass_events p2
              @ NewClientCall (errOf (NewClient (env_k8s env) (env_sdk env)
                   (us_Connection (obj_Spec (pass_obj p2)))
                   (meta_Namespace (obj_Meta (pass_obj p2)))))
              # es @ [StatusUpdateCall w (env_StatusUpdate2 env)]"
      "list_all isRemoteCall es"
      "ust_ObservedGeneration (obj_Status w) = ust_ObservedGeneration (obj_Status (pass_obj p2))"
      "ust_LastSyncTime (obj_Status w)
         = (case NewClient (env_k8s env) (env_sdk env) (us_Connection (obj_Spec (pass_obj p2)))
                  (meta_Namespace (obj_Meta (pass_obj p2))) of
              Inl err \<Rightarrow> ust_LastSyncTime (obj_Status (pass_obj p2))
            | Inr c \<Rightarrow>
                if isFailure (returned_err out)
                then Some (env_now env AtErrorSync) else Some (env_now env AtLastSync))"
      "pass_stored (pass out)
         = (if env_StatusUpdate2 env = None
            then (pass_stored p2)\<lparr>obj_Status := obj_Status w\<rparr> else pass_stored p2)"
    unfolding out by blast
  have sync: "ust_LastSyncTime (obj_Status w)
         = (case NewClient (env_k8s env) (env_sdk env) (us_Connection (obj_Spec user))
                  (meta_Namespace (obj_Meta user)) of
              Inl err \<Rightarrow> ust_LastSyncTime (obj_Status user)
            | Inr c \<Rightarrow>
                if isFailure (returned_err out)
                then Some (env_now env AtErrorSync) else Some (env_now env AtLastSync))"
    using c(4) p2 by (simp split: sum.splits)
  have st: "ust_ObservedGeneration (obj_Status (pass_stored (pass out)))
              = meta_Generation (obj_Meta user)"
    using c(3,5) p2 by simp
  have ev: "pass_events (pass out)
      = StatusUpdateCall (pass_obj p1) None
          # NewClientCall (errOf (NewClient (env_k8s env) (env_sdk env)
               (us_Connection (obj_Spec user)) (meta_Namespace (obj_Meta user))))
          # es @ [StatusUpdateCall w (env_StatusUpdate2 env)]"
    using c(1) p2 by simp
  have "\<exists>es w2. pass_events (pass out)
                 = StatusUpdateCall (pass_obj p1) None
                     # NewClientCall (errOf (NewClient (env_k8s env) (env_sdk env)
                          (us_Connection (obj_Spec user)) (meta_Namespace (obj_Meta user))))
                     # es @ [StatusUpdateCall w2 (env_StatusUpdate2 env)]
               \<and> list_all isRemoteCall es
               \<and> ust_ObservedGeneration (obj_Status w2) = meta_Generation (obj_Meta user)
               \<and> ust_ObservedGeneration (obj_Status (pass_stored (pass out)))
                   = meta_Generation (obj_Meta user)
               \<and> (env_StatusUpdate2 env = None \<longrightarrow>
                     obj_Status (pass_stored (pass out)) = obj_Status w2)
               \<and> ust_LastSyncTime (obj_Status w2)
                   = (case NewClient (env_k8s env) (env_sdk env) (us_Connection (obj_Spec user))
                            (meta_Namespace (obj_Meta user)) of
                        Inl err \<Rightarrow> ust_LastSyncTime (obj_Status user)
                      | Inr c \<Rightarrow>
                          if isFailure (returned_err out)
                          then Some (env_now env AtErrorSync)
                          else Some (env_now env AtLastSync))"
    using ev c(2) c(3) c(5) p2(2) st sync by auto
  then show ?thesis
    using None unfolding p1 out_def by simp
qed

lemma finalizerBeforeRemote_no_update:
  "list_all (\<lambda>e. \<not> isUpdateCall e) es \<Longrightarrow> finalizerBeforeRemote f True es"
proof (induction es)
  case Nil
  then show ?case by simp
next
  case (Cons e es)
  then show ?case by (cases e) simp_all
qed

lemma remote_not_update: "list_all isRemoteCall es \<Longrightarrow> list_all (\<lambda>e. \<not> isUpdateCall e) es"
proof (induction es)
  case Nil
  then show ?case by simp
next
  case (Cons e es)
  then show ?case by (cases e) simp_all
qed

lemma ContainsFinalizer_AddFinalizer: "ContainsFinalizer (AddFinalizer m f) f"
  by (simp add: ContainsFinalizer_def AddFinalizer_def)

lemma ContainsFinalizer_RemoveFinalizer: "\<not> ContainsFinalizer (RemoveFinalizer m f) f"
  by (simp add: ContainsFinalizer_def RemoveFinalizer_def)

lemma UserReconciler_add_finalizer:
  "meta_DeletionTimestamp (obj_Meta user) = None \<Longrightarrow>
   \<not> ContainsFinalizer (obj_Meta user) UserFinalizer \<Longrightarrow>
   pass_events (pass (UserReconciler_Reconcile env user))
     = [UpdateCall (user\<lparr>obj_Meta := AddFinalizer (obj_Meta user) UserFinalizer\<rparr>)
          (env_Update env)]
   \<and> obj_Status (pass_stored (pass (UserReconciler_Reconcile env user))) = obj_Status user"
  unfolding UserReconciler_Reconcile_def Let_def
  by (simp add: Update_shape setMeta_def startPass_def)

lemma UserReconciler_finalizer_order:
  "meta_DeletionTimestamp (obj_Meta user) = None \<Longrightarrow>
   finalizerBeforeRemote UserFinalizer (ContainsFinalizer (obj_Meta user) UserFinalizer)
     (pass_events (pass (UserReconciler_Reconcile env user)))"
proof (cases "ContainsFinalizer (obj_Meta user) UserFinalizer")
  case False
  assume "meta_DeletionTimestamp (obj_Meta user) = None"
  from UserReconciler_add_finalizer [OF this False, of env] show ?thesis by simp
next
  case True
  assume d: "meta_DeletionTimestamp (obj_Meta user) = None"
  from UserReconciler_progress_shape [OF d True, of env]
  have "list_all (\<lambda>e. \<not> isUpdateCall e) (pass_events (pass (UserReconciler_Reconcile env user)))"
    by (auto split: option.splits dest: remote_not_update)
  with True show ?thesis by (simp add: finalizerBeforeRemote_no_update)
qed

lemma PolicyReconciler_progress_no_update:
  "\<exists>rest. pass_events (pass (PolicyReconciler_progress env q)) = pass_events q @ rest
     \<and> list_all (\<lambda>e. \<not> isUpdateCall e) rest"
  using PolicyReconciler_progress_shape [where env = env and q = q]
  by (auto split: option.splits dest: remote_not_update)

lemma PolicyReconciler_add_finalizer:
  "meta_DeletionTimestamp (obj_Meta policy) = None \<Longrightarrow>
   \<not> ContainsFinalizer (obj_Meta policy) PolicyFinalizer \<Longrightarrow>
   \<exists>rest. pass_events (pass (PolicyReconciler_Reconcile env policy))
       = UpdateCall (policy\<lparr>obj_Meta := AddFinalizer (obj_Meta policy) PolicyFinalizer\<rparr>)
           (env_Update env) # rest
     \<and> list_all (\<lambda>e. \<not> isUpdateCall e) rest
     \<and> (env_Update env \<noteq> None \<longrightarrow> rest = [])"
proof (cases "env_Update env")
  case (Some err)
  assume "meta_DeletionTimestamp (obj_Meta policy) = None"
    "\<not> ContainsFinalizer (obj_Meta policy) PolicyFinalizer"
  with Some show ?thesis
    unfolding PolicyReconciler_Reconcile_def Let_def
    by (simp add: Update_shape setMeta_def startPass_def)
next
  case None
  assume a: "meta_DeletionTimestamp (obj_Meta policy) = None"
    "\<not> ContainsFinalizer (obj_Meta policy) PolicyFinalizer"
  define p1 where
    "p1 = Update None (setMeta (\<lambda>m. AddFinalizer m PolicyFinalizer) (startPass policy))"
  have out: "PolicyReconciler_Reconcile env policy = PolicyReconciler_progress env p1"
    using None a unfolding p1_def PolicyReconciler_Reconcile_def Let_def by simp
  have p1: "pass_events p1
      = [UpdateCall (policy\<lparr>obj_Meta := AddFinalizer (obj_Meta policy) PolicyFinalizer\<rparr>) None]"
    unfolding p1_def by (simp add: Update_shape setMeta_def startPass_def)
  from PolicyReconciler_progress_no_update [of env p1] show ?thesis
    using None p1 unfolding out by auto
qed

lemma PolicyReconciler_finalizer_order:
  "meta_DeletionTimestamp (obj_Meta policy) = None \<Longrightarrow>
   finalizerBeforeRemote PolicyFinalizer (ContainsFinalizer (obj_Meta policy) PolicyFinalizer)
     (pass_events (pass (PolicyReconciler_Reconcile env policy)))"
proof (cases "ContainsFinalizer (obj_Meta policy) PolicyFinalizer")
  case False
  assume d: "meta_DeletionTimestamp (obj_Meta policy) = None"
  from PolicyReconciler_add_finalizer [OF d False, of env] obtain rest where
    r: "pass_events (pass (PolicyReconciler_Reconcile env policy))
       = UpdateCall (policy\<lparr>obj_Meta := AddFinalizer (obj_Meta policy) PolicyFinalizer\<rparr>)
           (env_Update env) # rest"
      "list_all (\<lambda>e. \<not> isUpdateCall e) rest" "env_Update env \<noteq> None \<longrightarrow> rest = []"
    by blast
  show ?thesis
  proof (cases "env_Update env")
    case None
    with r False show ?thesis
      by (simp add: ContainsFinalizer_AddFinalizer finalizerBeforeRemote_no_update)
  next
    case (Some err)
    with r False show ?thesis by simp
  qed
next
  case True
  assume d: "meta_DeletionTimestamp (obj_Meta policy) = None"
  have "PolicyReconciler_Reconcile env policy
          = PolicyReconciler_progress env (startPass policy)"
    using d True unfolding PolicyReconciler_Reconcile_def Let_def by simp
  with PolicyReconciler_progress_no_update [of env "startPass policy"] True
  show ?thesis by (auto simp: startPass_def finalizerBeforeRemote_no_update)
qed

text \<open>
  C1. In a pass of the User or of the Policy reconciler on a resource that is not being
  deleted, every remote call (reading or mutating) is made while the stored resource
  carries the finalizer marker. When the marker is absent at the start, the first thing
  the pass does is to write the resource with the marker added: the User reconciler then
  ends the pass, the Policy reconciler goes on only if the write was accepted.
\<close>

theorem finalizer_persisted_before_remote_calls:
  "(meta_DeletionTimestamp (obj_Meta user) = None \<longrightarrow>
      finalizerBeforeRemote UserFinalizer (ContainsFinalizer (obj_Meta user) UserFinalizer)
        (pass_events (pass (UserReconciler_Reconcile env user)))
      \<and> (\<not> ContainsFinalizer (obj_Meta user) UserFinalizer \<longrightarrow>
           pass_events (pass (UserReconciler_Reconcile env user))
             = [UpdateCall (user\<lparr>obj_Meta := AddFinalizer (obj_Meta user) UserFinalizer\<rparr>)
                  (env_Update env)]
           \<and> ContainsFinalizer (AddFinalizer (obj_Meta user) UserFinalizer) UserFinalizer))
   \<and> (meta_DeletionTimestamp (obj_Meta policy) = None \<longrightarrow>
      finalizerBeforeRemote PolicyFinalizer
        (ContainsFinalizer (obj_Meta policy) PolicyFinalizer)
        (pass_events (pass (PolicyReconciler_Reconcile env policy)))
      \<and> (\<not> ContainsFinalizer (obj_Meta policy) PolicyFinalizer \<longrightarrow>
           (\<exists>rest. pass_events (pass (PolicyReconciler_Reconcile env policy))
               = UpdateCall
                   (policy\<lparr>obj_Meta := AddFinalizer (obj_Meta policy) PolicyFinalizer\<rparr>)
                   (env_Update env) # rest
              \<and> list_all (\<lambda>e. \<not> isUpdateCall e) rest
              \<and> (env_Update env \<noteq> None \<longrightarrow> rest = []))
           \<and> ContainsFinalizer (AddFinalizer (obj_Meta policy) PolicyFinalizer)
               PolicyFinalizer))"
  using UserReconciler_finalizer_order [of user env]
    UserReconciler_add_finalizer [of user env]
    PolicyReconciler_finalizer_order [of policy env]
    PolicyReconciler_add_finalizer [of policy env]
  by (simp add: ContainsFinalizer_AddFinalizer)

theorem finalizer_persisted_before_remote_calls_witness:
  "meta_DeletionTimestamp (obj_Meta (ex_user ex_conn_alias [] None)) = None
   \<and> \<not> ContainsFinalizer (obj_Meta (ex_user ex_conn_alias [] None)) UserFinalizer
   \<and> pass_events (pass (UserReconciler_Reconcile ex_env (ex_user ex_conn_alias [] None)))
       = [UpdateCall (ex_user ex_conn_alias [UserFinalizer] None) None]
   \<and> meta_DeletionTimestamp (obj_Meta (ex_policy ex_conn_alias [PolicyFinalizer] None)) = None
   \<and> finalizerBeforeRemote PolicyFinalizer True
       (pass_events (pass (PolicyReconciler_Reconcile ex_env
          (ex_policy ex_conn_alias [PolicyFinalizer] None))))"
  using finalizer_persisted_before_remote_calls
    [of "ex_user ex_conn_alias [] None" ex_env "ex_policy ex_conn_alias [PolicyFinalizer] None"]
  by (simp add: ex_user_def ex_policy_def ex_env_def ContainsFinalizer_def AddFinalizer_def)

lemma lastStatusWritten_snoc:
  "lastStatusWritten (es @ [StatusUpdateCall w r]) = Some (obj_Status w)"
proof (induction es)
  case Nil
  then show ?case by simp
next
  case (Cons e es)
  then show ?case by (cases e) simp_all
qed

lemma UserReconciler_observedGeneration:
  "meta_DeletionTimestamp (obj_Meta user) = None \<Longrightarrow>
   ContainsFinalizer (obj_Meta user) UserFinalizer \<Longrightarrow>
   ust_ObservedGeneration (obj_Status (pass_stored (pass (UserReconciler_Reconcile env user))))
     = (if env_StatusUpdate1 env = None then meta_Generation (obj_Meta user)
        else ust_ObservedGeneration (obj_Status user))"
  using UserReconciler_progress_shape [of user env]
  by (auto split: option.splits)

lemma PolicyReconciler_progress_observedGeneration:
  "pst_ObservedGeneration (obj_Status (pass_stored (pass (PolicyReconciler_progress env q))))
     = (if env_StatusUpdate1 env = None then meta_Generation (obj_Meta (pass_obj q))
        else pst_ObservedGeneration (obj_Status (pass_stored q)))"
  using PolicyReconciler_progress_shape [where env = env and q = q]
  by (auto split: option.splits)

lemma PolicyReconciler_entry:
  "meta_DeletionTimestamp (obj_Meta policy) = None \<Longrightarrow>
   ContainsFinalizer (obj_Meta policy) PolicyFinalizer \<or> env_Update env = None \<Longrightarrow>
   \<exists>q. PolicyReconciler_Reconcile env policy = PolicyReconciler_progress env q
     \<and> obj_Spec (pass_obj q) = obj_Spec policy
     \<and> meta_Namespace (obj_Meta (pass_obj q)) = meta_Namespace (obj_Meta policy)
     \<and> meta_Generation (obj_Meta (pass_obj q)) = meta_Generation (obj_Meta policy)
     \<and> obj_Status (pass_obj q) = obj_Status policy
     \<and> obj_Status (pass_stored q) = obj_Status policy
     \<and> obj_Spec (pass_stored q) = obj_Spec policy
     \<and> meta_Namespace (obj_Meta (pass_stored q)) = meta_Namespace (obj_Meta policy)
     \<and> list_all (\<lambda>e. \<not> isRemoteCall e) (pass_events q)"
proof (cases "ContainsFinalizer (obj_Meta policy) PolicyFinalizer")
  case True
  assume "meta_DeletionTimestamp (obj_Meta policy) = None"
  with True show ?thesis
    unfolding PolicyReconciler_Reconcile_def Let_def
    by (auto simp: startPass_def intro!: exI [of _ "startPass policy"])
next
  case False
  assume "meta_DeletionTimestamp (obj_Meta policy) = None"
    "ContainsFinalizer (obj_Meta policy) PolicyFinalizer \<or> env_Update env = None"
  with False show ?thesis
    unfolding PolicyReconciler_Reconcile_def Let_def
    by (auto simp: startPass_def setMeta_def Update_def AddFinalizer_def Let_def
        intro!: exI [of _ "Update None (setMeta (\<lambda>m. AddFinalizer m PolicyFinalizer)
                             (startPass policy))"])
qed

lemma PolicyReconciler_observedGeneration:
  "meta_DeletionTimestamp (obj_Meta policy) = None \<Longrightarrow>
   ContainsFinalizer (obj_Meta policy) PolicyFinalizer \<or> env_Update env = None \<Longrightarrow>
   pst_ObservedGeneration
      (obj_Status (pass_stored (pass (PolicyReconciler_Reconcile env policy))))
     = (if env_StatusUpdate1 env = None then meta_Generation (obj_Meta policy)
        else pst_ObservedGeneration (obj_Status policy))"
proof -
  assume a: "meta_DeletionTimestamp (obj_Meta policy) = None"
    "ContainsFinalizer (obj_Meta policy) PolicyFinalizer \<or> env_Update env = None"
  from PolicyReconciler_entry [OF a] obtain q where
    q: "PolicyReconciler_Reconcile env policy = PolicyReconciler_progress env q"
      "meta_Generation (obj_Meta (pass_obj q)) = meta_Generation (obj_Meta policy)"
      "obj_Status (pass_stored q) = obj_Status policy"
    by auto
  show ?thesis
    using PolicyReconciler_progress_observedGeneration [of env q] q by simp
qed

lemma GetCondition_SetCondition_status:
  "map_option cond_Status (GetCondition (SetCondition now cs ty st r m) ty) = Some st"
  by (induction cs) auto

lemma AddFinalizer_fields:
  "meta_Generation (AddFinalizer m f) = meta_Generation m"
  "meta_Namespace (AddFinalizer m f) = meta_Namespace m"
  "meta_DeletionTimestamp (AddFinalizer m f) = meta_DeletionTimestamp m"
  by (simp_all add: AddFinalizer_def)

lemma UserReconciler_progress_trace:
  "meta_DeletionTimestamp (obj_Meta user) = None \<Longrightarrow>
   ContainsFinalizer (obj_Meta user) UserFinalizer \<Longrightarrow>
   \<exists>es w2.
      pass_events (pass (UserReconciler_Reconcile env user))
        = StatusUpdateCall
            (user\<lparr>obj_Status := (obj_Status user)\<lparr>ust_Conditions :=
                SetCondition (env_now env AtProgressing) (ust_Conditions (obj_Status user))
                  ConditionProgressing ConditionTrue ''Reconciling'' ''Reconciling user'',
              ust_ObservedGeneration := meta_Generation (obj_Meta user)\<rparr>\<rparr>)
            (env_StatusUpdate1 env)
          # (if env_StatusUpdate1 env = None
             then NewClientCall (errOf (NewClient (env_k8s env) (env_sdk env)
                      (us_Connection (obj_Spec user)) (meta_Namespace (obj_Meta user))))
                    # es @ [StatusUpdateCall w2 (env_StatusUpdate2 env)]
             else [])
      \<and> list_all isRemoteCall es
      \<and> ust_ObservedGeneration (obj_Status w2) = meta_Generation (obj_Meta user)"
proof (cases "env_StatusUpdate1 env")
  case None
  assume "meta_DeletionTimestamp (obj_Meta user) = None"
    "ContainsFinalizer (obj_Meta user) UserFinalizer"
  from UserReconciler_progress_shape [OF this, of env] None show ?thesis
    by auto
next
  case (Some err)
  assume "meta_DeletionTimestamp (obj_Meta user) = None"
    "ContainsFinalizer (obj_Meta user) UserFinalizer"
  from UserReconciler_progress_shape [OF this, of env] Some show ?thesis
    by (intro exI [of _ "[]"]
        exI [of _ "user\<lparr>obj_Status := (obj_Status user)\<lparr>ust_ObservedGeneration :=
                      meta_Generation (obj_Meta user)\<rparr>\<rparr>"]) simp
qed

lemma PolicyReconciler_progress_trace:
  "\<exists>es w2.
      pass_events (pass (PolicyReconciler_progress env q))
        = pass_events q
          @ StatusUpdateCall
              ((pass_obj q)\<lparr>obj_Status := (obj_Status (pass_obj q))\<lparr>pst_Conditions :=
                  SetCondition (env_now env AtProgressing)
                    (pst_Conditions (obj_Status (pass_obj q)))
                    ConditionProgressing ConditionTrue ''Reconciling'' ''Reconciling policy'',
                pst_ObservedGeneration := meta_Generation (obj_Meta (pass_obj q))\<rparr>\<rparr>)
              (env_StatusUpdate1 env)
          # (if env_StatusUpdate1 env = None
             then NewClientCall (errOf (NewClient (env_k8s env) (env_sdk env)
                      (ps_Connection (obj_Spec (pass_stored q)))
                      (meta_Namespace (obj_Meta (pass_stored q)))))
                    # es @ [StatusUpdateCall w2 (env_StatusUpdate2 env)]
             else [])
      \<and> list_all isRemoteCall es
      \<and> pst_ObservedGeneration (obj_Status w2) = meta_Generation (obj_Meta (pass_obj q))"
proof (cases "env_StatusUpdate1 env")
  case None
  from PolicyReconciler_progress_shape [where env = env and q = q] None show ?thesis
    by auto
next
  case (Some err)
  from PolicyReconciler_progress_shape [where env = env and q = q] Some show ?thesis
    by (intro exI [of _ "[]"]
        exI [of _ "(pass_obj q)\<lparr>obj_Status := (obj_Status (pass_obj q))\<lparr>pst_ObservedGeneration :=
                      meta_Generation (obj_Meta (pass_obj q))\<rparr>\<rparr>"]) simp
qed

lemma PolicyReconciler_trace_with_finalizer:
  "meta_DeletionTimestamp (obj_Meta policy) = None \<Longrightarrow>
   ContainsFinalizer (obj_Meta policy) PolicyFinalizer \<Longrightarrow>
   \<exists>es w2.
      pass_events (pass (PolicyReconciler_Reconcile env policy))
        = StatusUpdateCall
            (policy\<lparr>obj_Status := (obj_Status policy)\<lparr>pst_Conditions :=
                SetCondition (env_now env AtProgressing) (pst_Conditions (obj_Status policy))
                  ConditionProgressing ConditionTrue ''Reconciling'' ''Reconciling policy'',
              pst_ObservedGeneration := meta_Generation (obj_Meta policy)\<rparr>\<rparr>)
            (env_StatusUpdate1 env)
          # (if env_StatusUpdate1 env = None
             then NewClientCall (errOf (NewClient (env_k8s env) (env_sdk env)
                      (ps_Connection (obj_Spec policy)) (meta_Namespace (obj_Meta policy))))
                    # es @ [StatusUpdateCall w2 (env_StatusUpdate2 env)]
             else [])
      \<and> list_all isRemoteCall es
      \<and> pst_ObservedGeneration (obj_Status w2) = meta_Generation (obj_Meta policy)"
proof -
  assume a: "meta_DeletionTimestamp (obj_Meta policy) = None"
    "ContainsFinalizer (obj_Meta policy) PolicyFinalizer"
  have out: "PolicyReconciler_Reconcile env policy
               = PolicyReconciler_progress env (startPass policy)"
    using a unfolding PolicyReconciler_Reconcile_def Let_def by simp
  from PolicyReconciler_progress_trace [of env "startPass policy"] show ?thesis
    unfolding out by (simp add: startPass_def cong del: if_weak_cong)
qed

lemma PolicyReconciler_trace_adding_finalizer:
  "meta_DeletionTimestamp (obj_Meta policy) = None \<Longrightarrow>
   \<not> ContainsFinalizer (obj_Meta policy) PolicyFinalizer \<Longrightarrow> env_Update env = None \<Longrightarrow>
   \<exists>es w2.
      pass_events (pass (PolicyReconciler_Reconcile env policy))
        = UpdateCall (policy\<lparr>obj_Meta := AddFinalizer (obj_Meta policy) PolicyFinalizer\<rparr>) None
          # StatusUpdateCall
              (policy\<lparr>obj_Meta := AddFinalizer (obj_Meta policy) PolicyFinalizer,
                 obj_Status := (obj_Status policy)\<lparr>pst_Conditions :=
                   SetCondition (env_now env AtProgressing) (pst_Conditions (obj_Status policy))
                     ConditionProgressing ConditionTrue ''Reconciling'' ''Reconciling policy'',
                 pst_ObservedGeneration := meta_Generation (obj_Meta policy)\<rparr>\<rparr>)
              (env_StatusUpdate1 env)
          # (if env_StatusUpdate1 env = None
             then NewClientCall (errOf (NewClient (env_k8s env) (env_sdk env)
                      (ps_Connection (obj_Spec policy)) (meta_Namespace (obj_Meta policy))))
                    # es @ [StatusUpdateCall w2 (env_StatusUpdate2 env)]
             else [])
      \<and> list_all isRemoteCall es
      \<and> pst_ObservedGeneration (obj_Status w2) = meta_Generation (obj_Meta policy)"
proof -
  assume a: "meta_DeletionTimestamp (obj_Meta policy) = None"
    "\<not> ContainsFinalizer (obj_Meta policy) PolicyFinalizer" and n: "env_Update env = None"
  define q where
    "q = Update None (setMeta (\<lambda>m. AddFinalizer m PolicyFinalizer) (startPass policy))"
  have out: "PolicyReconciler_Reconcile env policy = PolicyReconciler_progress env q"
    using a n unfolding q_def PolicyReconciler_Reconcile_def Let_def by simp
  have q: "pass_events q
      = [UpdateCall (policy\<lparr>obj_Meta := AddFinalizer (obj_Meta policy) PolicyFinalizer\<rparr>) None]"
    "pass_obj q = policy\<lparr>obj_Meta := AddFinalizer (obj_Meta policy) PolicyFinalizer\<rparr>"
    "pass_stored q = policy\<lparr>obj_Meta := AddFinalizer (obj_Meta policy) PolicyFinalizer\<rparr>"
    unfolding q_def by (simp_all add: Update_def setMeta_def startPass_def Let_def)
  from PolicyReconciler_progress_trace [of env q] show ?thesis
    unfolding out q by (simp add: AddFinalizer_fields cong del: if_weak_cong)
qed

text \<open>
  C6 (as the code has it). A pass on a resource that is not being deleted and carries the
  finalizer begins by writing the status with the Progressing condition set to true and
  \<open>observedGeneration\<close> set to the spec generation. Only when that write is accepted
  does the pass go on, and then in this order: \<open>NewClient\<close> resolves the connection,
  the remote calls follow, if any, and a last status write, again with
  \<open>observedGeneration\<close> at the spec generation, ends the pass; when the first write is
  rejected nothing follows it. So at the end of the pass the stored
  \<open>observedGeneration\<close> is the current generation whenever that first status write
  was accepted, whether the pass then succeeds or fails, and is the old value only when
  that write was rejected. The Policy reconciler does the same in the pass that has just
  written the finalizer, after that write; the User reconciler's finalizer pass leaves the
  status alone.
\<close>

theorem observedGeneration_written_before_convergence:
  "(meta_DeletionTimestamp (obj_Meta user) = None
      \<and> ContainsFinalizer (obj_Meta user) UserFinalizer \<longrightarrow>
      (\<exists>es w2.
         pass_events (pass (UserReconciler_Reconcile env user))
           = StatusUpdateCall
               (user\<lparr>obj_Status := (obj_Status user)\<lparr>ust_Conditions :=
                   SetCondition (env_now env AtProgressing) (ust_Conditions (obj_Status user))
                     ConditionProgressing ConditionTrue ''Reconciling'' ''Reconciling user'',
                 ust_ObservedGeneration := meta_Generation (obj_Meta user)\<rparr>\<rparr>)
               (env_StatusUpdate1 env)
             # (if env_StatusUpdate1 env = None
                then NewClientCall (errOf (NewClient (env_k8s env) (env_sdk env)
                         (us_Connection (obj_Spec user)) (meta_Namespace (obj_Meta user))))
                       # es @ [StatusUpdateCall w2 (env_StatusUpdate2 env)]
                else [])
         \<and> list_all isRemoteCall es
         \<and> ust_ObservedGeneration (obj_Status w2) = meta_Generation (obj_Meta user))
      \<and> map_option cond_Status
           (GetCondition
              (SetCondition (env_now env AtProgressing) (ust_Conditions (obj_Status user))
                 ConditionProgressing ConditionTrue ''Reconciling'' ''Reconciling user'')
              ConditionProgressing) = Some ConditionTrue
      \<and> ust_ObservedGeneration
           (obj_Status (pass_stored (pass (UserReconciler_Reconcile env user))))
          = (if env_StatusUpdate1 env = None then meta_Generation (obj_Meta user)
             else ust_ObservedGeneration (obj_Status user)))
   \<and> (meta_DeletionTimestamp (obj_Meta user) = None
      \<and> \<not> ContainsFinalizer (obj_Meta user) UserFinalizer \<longrightarrow>
      obj_Status (pass_stored (pass (UserReconciler_Reconcile env user))) = obj_Status user)
   \<and> (meta_DeletionTimestamp (obj_Meta policy) = None
      \<and> ContainsFinalizer (obj_Meta policy) PolicyFinalizer \<longrightarrow>
      (\<exists>es w2.
         pass_events (pass (PolicyReconciler_Reconcile env policy))
           = StatusUpdateCall
               (policy\<lparr>obj_Status := (obj_Status policy)\<lparr>pst_Conditions :=
                   SetCondition (env_now env AtProgressing)
                     (pst_Conditions (obj_Status policy))
                     ConditionProgressing ConditionTrue ''Reconciling'' ''Reconciling policy'',
                 pst_ObservedGeneration := meta_Generation (obj_Meta policy)\<rparr>\<rparr>)
               (env_StatusUpdate1 env)
             # (if env_StatusUpdate1 env = None
                then NewClientCall (errOf (NewClient (env_k8s env) (env_sdk env)
                         (ps_Connection (obj_Spec policy))
                         (meta_Namespace (obj_Meta policy))))
                       # es @ [StatusUpdateCall w2 (env_StatusUpdate2 env)]
                else [])
         \<and> list_all isRemoteCall es
         \<and> pst_ObservedGeneration (obj_Status w2) = meta_Generation (obj_Meta policy)))
   \<and> (meta_DeletionTimestamp (obj_Meta policy) = None
      \<and> \<not> ContainsFinalizer (obj_Meta policy) PolicyFinalizer \<and> env_Update env = None \<longrightarrow>
      (\<exists>es w2.
         pass_events (pass (PolicyReconciler_Reconcile env policy))
           = UpdateCall (policy\<lparr>obj_Meta := AddFinalizer (obj_Meta policy) PolicyFinalizer\<rparr>)
               None
             # StatusUpdateCall
                 (policy\<lparr>obj_Meta := AddFinalizer (obj_Meta policy) PolicyFinalizer,
                    obj_Status := (obj_Status policy)\<lparr>pst_Conditions :=
                      SetCondition (env_now env AtProgressing)
                        (pst_Conditions (obj_Status policy))
                        ConditionProgressing ConditionTrue ''Reconciling''
                        ''Reconciling policy'',
                    pst_ObservedGeneration := meta_Generation (obj_Meta policy)\<rparr>\<rparr>)
                 (env_StatusUpdate1 env)
             # (if env_StatusUpdate1 env = None
                then NewClientCall (errOf (NewClient (env_k8s env) (env_sdk env)
                         (ps_Connection (obj_Spec policy))
                         (meta_Namespace (obj_Meta policy))))
                       # es @ [StatusUpdateCall w2 (env_StatusUpdate2 env)]
                else [])
         \<and> list_all isRemoteCall es
         \<and> pst_ObservedGeneration (obj_Status w2) = meta_Generation (obj_Meta policy)))
   \<and> (meta_DeletionTimestamp (obj_Meta policy) = None
        \<and> (ContainsFinalizer (obj_Meta policy) PolicyFinalizer \<or> env_Update env = None) \<longrightarrow>
      map_option cond_Status
           (GetCondition
              (SetCondition (env_now env AtProgressing) (pst_Conditions (obj_Status policy))
                 ConditionProgressing ConditionTrue ''Reconciling'' ''Reconciling policy'')
              ConditionProgressing) = Some ConditionTrue
      \<and> pst_ObservedGeneration
           (obj_Status (pass_stored (pass (PolicyReconciler_Reconcile env policy))))
          = (if env_StatusUpdate1 env = None then meta_Generation (obj_Meta policy)
             else pst_ObservedGeneration (obj_Status policy)))"
proof (intro conjI impI)
  show "\<exists>es w2.
         pass_events (pass (UserReconciler_Reconcile env user))
           = StatusUpdateCall
               (user\<lparr>obj_Status := (obj_Status user)\<lparr>ust_Conditions :=
                   SetCondition (env_now env AtProgressing) (ust_Conditions (obj_Status user))
                     ConditionProgressing ConditionTrue ''Reconciling'' ''Reconciling user'',
                 ust_ObservedGeneration := meta_Generation (obj_Meta user)\<rparr>\<rparr>)
               (env_StatusUpdate1 env)
             # (if env_StatusUpdate1 env = None
                then NewClientCall (errOf (NewClient (env_k8s env) (env_sdk env)
                         (us_Connection (obj_Spec user)) (meta_Namespace (obj_Meta user))))
                       # es @ [StatusUpdateCall w2 (env_StatusUpdate2 env)]
                else [])
         \<and> list_all isRemoteCall es
         \<and> ust_ObservedGeneration (obj_Status w2) = meta_Generation (obj_Meta user)"
    if "meta_DeletionTimestamp (obj_Meta user) = None
      \<and> ContainsFinalizer (obj_Meta user) UserFinalizer"
    using that UserReconciler_progress_trace [of user env] by simp
  show "ust_ObservedGeneration
           (obj_Status (pass_stored (pass (UserReconciler_Reconcile env user))))
          = (if env_StatusUpdate1 env = None then meta_Generation (obj_Meta user)
             else ust_ObservedGeneration (obj_Status user))"
    if "meta_DeletionTimestamp (obj_Meta user) = None
      \<and> ContainsFinalizer (obj_Meta user) UserFinalizer"
    using that UserReconciler_observedGeneration [of user env] by simp
  show "obj_Status (pass_stored (pass (UserReconciler_Reconcile env user))) = obj_Status user"
    if "meta_DeletionTimestamp (obj_Meta user) = None
      \<and> \<not> ContainsFinalizer (obj_Meta user) UserFinalizer"
    using that UserReconciler_add_finalizer [of user env] by simp
  show "\<exists>es w2.
         pass_events (pass (PolicyReconciler_Reconcile env policy))
           = StatusUpdateCall
               (policy\<lparr>obj_Status := (obj_Status policy)\<lparr>pst_Conditions :=
                   SetCondition (env_now env AtProgressing)
                     (pst_Conditions (obj_Status policy))
                     ConditionProgressing ConditionTrue ''Reconciling'' ''Reconciling policy'',
                 pst_ObservedGeneration := meta_Generation (obj_Meta policy)\<rparr>\<rparr>)
               (env_StatusUpdate1 env)
             # (if env_StatusUpdate1 env = None
                then NewClientCall (errOf (NewClient (env_k8s env) (env_sdk env)
                         (ps_Connection (obj_Spec policy))
                         (meta_Namespace (obj_Meta policy))))
                       # es @ [StatusUpdateCall w2 (env_StatusUpdate2 env)]
                else [])
         \<and> list_all isRemoteCall es
         \<and> pst_ObservedGeneration (obj_Status w2) = meta_Generation (obj_Meta policy)"
    if "meta_DeletionTimestamp (obj_Meta policy) = None
      \<and> ContainsFinalizer (obj_Meta policy) PolicyFinalizer"
    using that PolicyReconciler_trace_with_finalizer [of policy env] by simp
  show "\<exists>es w2.
         pass_events (pass (PolicyReconciler_Reconcile env policy))
           = UpdateCall (policy\<lparr>obj_Meta := AddFinalizer (obj_Meta policy) PolicyFinalizer\<rparr>)
               None
             # StatusUpdateCall
                 (policy\<lparr>obj_Meta := AddFinalizer (obj_Meta policy) PolicyFinalizer,
                    obj_Status := (obj_Status policy)\<lparr>pst_Conditions :=
                      SetCondition (env_now env AtProgressing)
                        (pst_Conditions (obj_Status policy))
                        ConditionProgressing ConditionTrue ''Reconciling''
                        ''Reconciling policy'',
                    pst_ObservedGeneration := meta_Generation (obj_Meta policy)\<rparr>\<rparr>)
                 (env_StatusUpdate1 env)
             # (if env_StatusUpdate1 env = None
                then NewClientCall (errOf (NewClient (env_k8s env) (env_sdk env)
                         (ps_Connection (obj_Spec policy))
                         (meta_Namespace (obj_Meta policy))))
                       # es @ [StatusUpdateCall w2 (env_StatusUpdate2 env)]
                else [])
         \<and> list_all isRemoteCall es
         \<and> pst_ObservedGeneration (obj_Status w2) = meta_Generation (obj_Meta policy)"
    if "meta_DeletionTimestamp (obj_Meta policy) = None
      \<and> \<not> ContainsFinalizer (obj_Meta policy) PolicyFinalizer \<and> env_Update env = None"
    using that PolicyReconciler_trace_adding_finalizer [of policy env] by simp
  show "pst_ObservedGeneration
           (obj_Status (pass_stored (pass (PolicyReconciler_Reconcile env policy))))
          = (if env_StatusUpdate1 env = None then meta_Generation (obj_Meta policy)
             else pst_ObservedGeneration (obj_Status policy))"
    if "meta_DeletionTimestamp (obj_Meta policy) = None
        \<and> (ContainsFinalizer (obj_Meta policy) PolicyFinalizer \<or> env_Update env = None)"
    using that PolicyReconciler_observedGeneration [of policy env] by simp
qed (simp_all add: GetCondition_SetCondition_status)

lemma ex_NewClient_alias:
  "NewClient ex_cluster ex_sdk ex_conn_alias ''default''
     = Inr \<lparr>client_config =
              \<lparr>cfg_Endpoint = ''minio:9000'', cfg_AccessKeyID = ''k'',
               cfg_SecretAccessKey = ''s'', cfg_UseSSL = True, cfg_Insecure = False,
               cfg_PathStyle = False, cfg_Region = []\<rparr>,
            client_AppInfoSet = False, client_AdminSkipVerify = False\<rparr>"
  by (simp add: NewClient_def buildClientConfig_def configFromAlias_def
      directCredentials_def namespaceOr_def ex_conn_alias_def
      ex_cluster_def ex_sdk_def ex_sdk_New_def ex_getAlias_def ex_getSecret_def ex_alias_def
      ex_secretRef_def secretCredentials_def initialConfig_def Let_def)

theorem observedGeneration_written_before_convergence_witness:
  "meta_DeletionTimestamp (obj_Meta (ex_user ex_conn_alias [UserFinalizer] None)) = None
   \<and> ContainsFinalizer (obj_Meta (ex_user ex_conn_alias [UserFinalizer] None)) UserFinalizer
   \<and> env_StatusUpdate1 ex_env = None
   \<and> (\<exists>es w2.
         pass_events (pass (UserReconciler_Reconcile ex_env
             (ex_user ex_conn_alias [UserFinalizer] None)))
           = StatusUpdateCall
               ((ex_user ex_conn_alias [UserFinalizer] None)\<lparr>obj_Status :=
                  (obj_Status (ex_user ex_conn_alias [UserFinalizer] None))\<lparr>ust_Conditions :=
                     [\<lparr>cond_Type = ''Progressing'', cond_Status = ''True'',
                       cond_LastTransitionTime = 100, cond_Reason = ''Reconciling'',
                       cond_Message = ''Reconciling user''\<rparr>],
                   ust_ObservedGeneration := 2\<rparr>\<rparr>) None
             # NewClientCall None # es @ [StatusUpdateCall w2 None]
         \<and> list_all isRemoteCall es
         \<and> ust_ObservedGeneration (obj_Status w2) = 2)
   \<and> ust_ObservedGeneration (obj_Status (pass_stored (pass
        (UserReconciler_Reconcile ex_env (ex_user ex_conn_alias [UserFinalizer] None))))) = 2
   \<and> meta_DeletionTimestamp (obj_Meta (ex_policy ex_conn_alias [] None)) = None
   \<and> \<not> ContainsFinalizer (obj_Meta (ex_policy ex_conn_alias [] None)) PolicyFinalizer
   \<and> env_Update ex_env = None
   \<and> pst_ObservedGeneration (obj_Status (pass_stored (pass
        (PolicyReconciler_Reconcile ex_env (ex_policy ex_conn_alias [] None))))) = 2"
proof -
  note t = observedGeneration_written_before_convergence
    [of "ex_user ex_conn_alias [UserFinalizer] None" ex_env "ex_policy ex_conn_alias [] None"]
  have h: "meta_DeletionTimestamp (obj_Meta (ex_user ex_conn_alias [UserFinalizer] None)) = None"
    "ContainsFinalizer (obj_Meta (ex_user ex_conn_alias [UserFinalizer] None)) UserFinalizer"
    "env_StatusUpdate1 ex_env = None"
    "meta_DeletionTimestamp (obj_Meta (ex_policy ex_conn_alias [] None)) = None"
    "\<not> ContainsFinalizer (obj_Meta (ex_policy ex_conn_alias [] None)) PolicyFinalizer"
    "env_Update ex_env = None"
    by (simp_all add: ex_user_def ex_policy_def ex_env_def ContainsFinalizer_def)
  have n: "errOf (NewClient (env_k8s ex_env) (env_sdk ex_env)
              (us_Connection (obj_Spec (ex_user ex_conn_alias [UserFinalizer] None)))
              (meta_Namespace (obj_Meta (ex_user ex_conn_alias [UserFinalizer] None)))) = None"
    by (simp add: ex_env_def ex_user_def ex_NewClient_alias errOf_def)
  have v: "meta_Generation (obj_Meta (ex_user ex_conn_alias [UserFinalizer] None)) = 2"
    "meta_Generation (obj_Meta (ex_policy ex_conn_alias [] None)) = 2"
    "env_StatusUpdate2 ex_env = None"
    "SetCondition (env_now ex_env AtProgressing)
        (ust_Conditions (obj_Status (ex_user ex_conn_alias [UserFinalizer] None)))
        ConditionProgressing ConditionTrue ''Reconciling'' ''Reconciling user''
      = [\<lparr>cond_Type = ''Progressing'', cond_Status = ''True'',
          cond_LastTransitionTime = 100, cond_Reason = ''Reconciling'',
          cond_Message = ''Reconciling user''\<rparr>]"
    by (simp_all add: ex_user_def ex_policy_def ex_env_def ConditionProgressing_def
        ConditionTrue_def)
  from t h have 1: "\<exists>es w2.
         pass_events (pass (UserReconciler_Reconcile ex_env
             (ex_user ex_conn_alias [UserFinalizer] None)))
           = StatusUpdateCall
               ((ex_user ex_conn_alias [UserFinalizer] None)\<lparr>obj_Status :=
                  (obj_Status (ex_user ex_conn_alias [UserFinalizer] None))\<lparr>ust_Conditions :=
                     [\<lparr>cond_Type = ''Progressing'', cond_Status = ''True'',
                       cond_LastTransitionTime = 100, cond_Reason = ''Reconciling'',
                       cond_Message = ''Reconciling user''\<rparr>],
                   ust_ObservedGeneration := 2\<rparr>\<rparr>) None
             # NewClientCall None # es @ [StatusUpdateCall w2 None]
         \<and> list_all isRemoteCall es
         \<and> ust_ObservedGeneration (obj_Status w2) = 2"
    unfolding n v by simp
  from t h have 2: "ust_ObservedGeneration (obj_Status (pass_stored (pass
        (UserReconciler_Reconcile ex_env (ex_user ex_conn_alias [UserFinalizer] None))))) = 2"
    unfolding v by simp
  from t h have 3: "pst_ObservedGeneration (obj_Status (pass_stored (pass
        (PolicyReconciler_Reconcile ex_env (ex_policy ex_conn_alias [] None))))) = 2"
    unfolding v by simp
  from h 1 2 3 show ?thesis by simp
qed

lemma ex_client_error_pass_run:
  "RequeueAfter ex_client_error_pass = Minute
   \<and> returned_err ex_client_error_pass = None
   \<and> obj_Status (pass_stored (pass ex_client_error_pass))
       = \<lparr>ust_Conditions =
            [\<lparr>cond_Type = ''Progressing'', cond_Status = ''True'',
              cond_LastTransitionTime = 100, cond_Reason = ''Reconciling'',
              cond_Message = ''Reconciling user''\<rparr>,
             \<lparr>cond_Type = ''Error'', cond_Status = ''True'',
              cond_LastTransitionTime = 100, cond_Reason = ''ClientError'',
              cond_Message = ''Failed to create MinIO client: ''
                @ ''failed to build client config: ''
                @ ''either AliasRef, URL, or EndpointRef must be specified''\<rparr>],
          ust_Ready = False, ust_Username = [], ust_Status = [],
          ust_Groups = [], ust_Policies = [], ust_CreationDate = None,
          ust_LastSyncTime = None, ust_ObservedGeneration = 2\<rparr>
   \<and> lastStatusWritten (pass_events (pass ex_client_error_pass))
       = Some (obj_Status (pass_stored (pass ex_client_error_pass)))"
  by (simp add: ex_client_error_pass_def UserReconciler_Reconcile_def
      UserReconciler_converge_def NewClient_def
      buildClientConfig_def ex_env_def ex_user_def ex_conn_none_def ContainsFinalizer_def
      UserFinalizer_def StatusUpdate_def setStatus_def startPass_def clientCalled_def
      errOf_def Let_def
      ConditionProgressing_def ConditionError_def ConditionTrue_def)

text \<open>
  The claim C6 as stated fails: the pass below fails to resolve its connection (no source
  is set), ends with the Error condition and a requeue after a minute, and has moved the
  stored \<open>observedGeneration\<close> from 1 to the current generation 2.
\<close>

theorem observedGeneration_failed_pass_counterexample:
  "NewClient ex_cluster ex_sdk ex_conn_none ''default'' = Inl (BuildConfigFailed NoSourceSpecified)
   \<and> RequeueAfter ex_client_error_pass = Minute
   \<and> ust_Ready (obj_Status (pass_stored (pass ex_client_error_pass))) = False
   \<and> map_option cond_Status
        (GetCondition (ust_Conditions (obj_Status (pass_stored (pass ex_client_error_pass))))
           ConditionError) = Some ConditionTrue
   \<and> ust_ObservedGeneration (obj_Status (ex_user ex_conn_none [UserFinalizer] None)) = 1
   \<and> meta_Generation (obj_Meta (ex_user ex_conn_none [UserFinalizer] None)) = 2
   \<and> ust_ObservedGeneration (obj_Status (pass_stored (pass ex_client_error_pass))) = 2"
  using ex_client_error_pass_run
  by (simp add: NewClient_def buildClientConfig_def ex_conn_none_def ex_user_def
      ConditionError_def ConditionTrue_def)

lemma UserReconciler_client_error_outcome:
  "meta_DeletionTimestamp (obj_Meta user) = None \<Longrightarrow>
   ContainsFinalizer (obj_Meta user) UserFinalizer \<Longrightarrow> env_StatusUpdate1 env = None \<Longrightarrow>
   NewClient (env_k8s env) (env_sdk env) (us_Connection (obj_Spec user))
      (meta_Namespace (obj_Meta user)) = Inl err \<Longrightarrow>
   RequeueAfter (UserReconciler_Reconcile env user) = Minute
   \<and> returned_err (UserReconciler_Reconcile env user) = None"
  unfolding UserReconciler_Reconcile_def UserReconciler_converge_def Let_def
  by (simp add: StatusUpdate_def setStatus_def startPass_def clientCalled_def Let_def)

lemma UserReconciler_lastSyncTime:
  "meta_DeletionTimestamp (obj_Meta user) = None \<Longrightarrow>
   ContainsFinalizer (obj_Meta user) UserFinalizer \<Longrightarrow> env_StatusUpdate1 env = None \<Longrightarrow>
   \<exists>w. lastStatusWritten (pass_events (pass (UserReconciler_Reconcile env user))) = Some w
      \<and> (env_StatusUpdate2 env = None \<longrightarrow>
            obj_Status (pass_stored (pass (UserReconciler_Reconcile env user))) = w)
      \<and> ust_LastSyncTime w
          = (case NewClient (env_k8s env) (env_sdk env) (us_Connection (obj_Spec user))
                   (meta_Namespace (obj_Meta user)) of
               Inl err \<Rightarrow> ust_LastSyncTime (obj_Status user)
             | Inr c \<Rightarrow>
                 if isFailure (returned_err (UserReconciler_Reconcile env user))
                 then Some (env_now env AtErrorSync)
                 else Some (env_now env AtLastSync))"
proof -
  assume a: "meta_DeletionTimestamp (obj_Meta user) = None"
    "ContainsFinalizer (obj_Meta user) UserFinalizer" and n: "env_StatusUpdate1 env = None"
  from UserReconciler_progress_shape [OF a, of env] n obtain w1 es w2 where
    s: "pass_events (pass (UserReconciler_Reconcile env user))
          = (StatusUpdateCall w1 None
              # NewClientCall (errOf (NewClient (env_k8s env) (env_sdk env)
                   (us_Connection (obj_Spec user)) (meta_Namespace (obj_Meta user))))
              # es) @ [StatusUpdateCall w2 (env_StatusUpdate2 env)]"
      "env_StatusUpdate2 env = None \<longrightarrow>
          obj_Status (pass_stored (pass (UserReconciler_Reconcile env user))) = obj_Status w2"
      "ust_LastSyncTime (obj_Status w2)
          = (case NewClient (env_k8s env) (env_sdk env) (us_Connection (obj_Spec user))
                   (meta_Namespace (obj_Meta user)) of
               Inl err \<Rightarrow> ust_LastSyncTime (obj_Status user)
             | Inr c \<Rightarrow>
                 if isFailure (returned_err (UserReconciler_Reconcile env user))
                 then Some (env_now env AtErrorSync)
                 else Some (env_now env AtLastSync))"
    by auto
  have "lastStatusWritten (pass_events (pass (UserReconciler_Reconcile env user)))
          = Some (obj_Status w2)"
    unfolding s(1) by (rule lastStatusWritten_snoc)
  with s(2,3) show ?thesis
    by (intro exI [of _ "obj_Status w2"]) simp
qed

text \<open>
  What a User pass that got past the first status write hands to its last status write
  (and stores, when that write is accepted) as \<open>lastSyncTime\<close>: the time read in the
  error branch when convergence failed, the time read at the end when the pass succeeded,
  and the old, unchanged value when the client could not be constructed; that last pass
  ends with a requeue after a minute and no error.
\<close>

lemma UserReconciler_lastSyncTime_by_outcome:
  "meta_DeletionTimestamp (obj_Meta user) = None
     \<and> ContainsFinalizer (obj_Meta user) UserFinalizer \<and> env_StatusUpdate1 env = None \<longrightarrow>
   (\<exists>w. lastStatusWritten (pass_events (pass (UserReconciler_Reconcile env user))) = Some w
      \<and> (env_StatusUpdate2 env = None \<longrightarrow>
            obj_Status (pass_stored (pass (UserReconciler_Reconcile env user))) = w)
      \<and> ust_LastSyncTime w
          = (case NewClient (env_k8s env) (env_sdk env) (us_Connection (obj_Spec user))
                   (meta_Namespace (obj_Meta user)) of
               Inl err \<Rightarrow> ust_LastSyncTime (obj_Status user)
             | Inr c \<Rightarrow>
                 if isFailure (returned_err (UserReconciler_Reconcile env user))
                 then Some (env_now env AtErrorSync)
                 else Some (env_now env AtLastSync)))
   \<and> (isl (NewClient (env_k8s env) (env_sdk env) (us_Connection (obj_Spec user))
               (meta_Namespace (obj_Meta user))) \<longrightarrow>
        RequeueAfter (UserReconciler_Reconcile env user) = Minute
        \<and> returned_err (UserReconciler_Reconcile env user) = None)"
  using UserReconciler_lastSyncTime [of user env]
    UserReconciler_client_error_outcome [of user env]
  by (auto simp: isl_def)

text \<open>
  C7. The claim has every terminal outcome of a pass write \<open>lastSyncTime\<close>. The User
  reconciler does so when convergence fails (first run: the server refuses
  \<open>SetUserStatus\<close>; the status written carries the time 100) and when the pass succeeds
  (second run), but not when the client cannot be constructed (third run: no connection
  source; the pass ends in the Error condition with reason \<open>ClientError\<close> and a requeue
  after a minute, and the status it writes and stores has no \<open>lastSyncTime\<close>).
\<close>

theorem lastSyncTime_not_written_on_client_error:
  "returned_err (UserReconciler_Reconcile ex_status_failure_env
        (ex_user ex_conn_alias [UserFinalizer] None))
     = Some (Failure ''failed to set user status: connection refused'')
   \<and> map_option ust_LastSyncTime (lastStatusWritten (pass_events (pass
        (UserReconciler_Reconcile ex_status_failure_env
           (ex_user ex_conn_alias [UserFinalizer] None))))) = Some (Some 100)
   \<and> returned_err (UserReconciler_Reconcile ex_env
        (ex_user ex_conn_alias [UserFinalizer] None)) = None
   \<and> map_option ust_LastSyncTime (lastStatusWritten (pass_events (pass
        (UserReconciler_Reconcile ex_env
           (ex_user ex_conn_alias [UserFinalizer] None))))) = Some (Some 100)
   \<and> RequeueAfter ex_client_error_pass = Minute
   \<and> returned_err ex_client_error_pass = None
   \<and> map_option cond_Reason
        (GetCondition (ust_Conditions (obj_Status (pass_stored (pass ex_client_error_pass))))
           ConditionError) = Some ''ClientError''
   \<and> map_option ust_LastSyncTime (lastStatusWritten (pass_events (pass ex_client_error_pass)))
       = Some None
   \<and> ust_LastSyncTime (obj_Status (pass_stored (pass ex_client_error_pass))) = None"
proof -
  have runs: "returned_err (UserReconciler_Reconcile ex_status_failure_env
        (ex_user ex_conn_alias [UserFinalizer] None))
     = Some (Failure ''failed to set user status: connection refused'')
   \<and> map_option ust_LastSyncTime (lastStatusWritten (pass_events (pass
        (UserReconciler_Reconcile ex_status_failure_env
           (ex_user ex_conn_alias [UserFinalizer] None))))) = Some (Some 100)
   \<and> returned_err (UserReconciler_Reconcile ex_env
        (ex_user ex_conn_alias [UserFinalizer] None)) = None
   \<and> map_option ust_LastSyncTime (lastStatusWritten (pass_events (pass
        (UserReconciler_Reconcile ex_env
           (ex_user ex_conn_alias [UserFinalizer] None))))) = Some (Some 100)"
    using ex_NewClient_alias
    by (simp add: UserReconciler_Reconcile_def UserReconciler_converge_def reconcileUser_def
        reconcileUser_status_def getPassword_def ex_status_failure_env_def
        ex_env_def ex_server_def ex_user_def ContainsFinalizer_def
        UserFinalizer_def StatusUpdate_def setStatus_def startPass_def remote_def Let_def
        clientCalled_def errOf_def UserStatusDisabled_def AccountEnabled_def)
  show ?thesis
    using runs ex_client_error_pass_run by (simp add: ConditionError_def)
qed

lemma PolicyReconciler_progress_conflict:
  "env_StatusUpdate1 env = Some e \<Longrightarrow> IsConflict e \<Longrightarrow>
   RequeueAfter (PolicyReconciler_progress env q) = Second
   \<and> returned_err (PolicyReconciler_progress env q) = None
   \<and> pass_stored (pass (PolicyReconciler_progress env q)) = pass_stored q
   \<and> list_all (\<lambda>e. \<not> isRemoteCall e)
        (drop (length (pass_events q)) (pass_events (pass (PolicyReconciler_progress env q))))"
  unfolding PolicyReconciler_progress_def Let_def
  by (simp add: StatusUpdate_def setStatus_def)

lemma PolicyReconciler_progress_no_conflict_returned:
  "returned_err (PolicyReconciler_progress env q) = Some (ApiFailure e) \<Longrightarrow> \<not> IsConflict e"
  unfolding PolicyReconciler_progress_def Let_def
  by (auto split: option.splits if_splits dest: PolicyReconciler_converge_no_conflict_returned)

lemma PolicyReconciler_progress_final_conflict:
  "env_StatusUpdate1 env = None \<Longrightarrow>
   NewClient (env_k8s env) (env_sdk env) (ps_Connection (obj_Spec (pass_stored q)))
      (meta_Namespace (obj_Meta (pass_stored q))) = Inr c \<Longrightarrow>
   obj_Spec (pass_stored q) = obj_Spec (pass_obj q) \<Longrightarrow>
   returned_err (reconcilePolicy env q) = None \<Longrightarrow>
   env_StatusUpdate2 env = Some e \<Longrightarrow> IsConflict e \<Longrightarrow>
   RequeueAfter (PolicyReconciler_progress env q) = Second
   \<and> returned_err (PolicyReconciler_progress env q) = None"
proof -
  assume n: "env_StatusUpdate1 env = None"
    and c: "NewClient (env_k8s env) (env_sdk env) (ps_Connection (obj_Spec (pass_stored q)))
      (meta_Namespace (obj_Meta (pass_stored q))) = Inr c"
    and s: "obj_Spec (pass_stored q) = obj_Spec (pass_obj q)"
    and r: "returned_err (reconcilePolicy env q) = None"
    and e: "env_StatusUpdate2 env = Some e" "IsConflict e"
  define p2 where "p2 = StatusUpdate None (setStatus (\<lambda>s. s\<lparr>pst_Conditions :=
                     SetCondition (env_now env AtProgressing) (pst_Conditions s)
                       ConditionProgressing ConditionTrue ''Reconciling''
                       ''Reconciling policy'',
                   pst_ObservedGeneration := meta_Generation (obj_Meta (pass_obj q))\<rparr>) q)"
  have out: "PolicyReconciler_progress env q = PolicyReconciler_converge env p2"
    using n unfolding PolicyReconciler_progress_def p2_def Let_def by simp
  have p2: "obj_Spec (pass_obj p2) = obj_Spec (pass_stored q)"
    "obj_Meta (pass_obj p2) = obj_Meta (pass_stored q)"
    "pst_PolicyHash (obj_Status (pass_obj p2)) = pst_PolicyHash (obj_Status (pass_obj q))"
    unfolding p2_def by (simp_all add: StatusUpdate_def setStatus_def Let_def)
  have r2: "returned_err (reconcilePolicy env p2) = None"
    using reconcilePolicy_err_cong [of p2 q env] p2 s r by simp
  show ?thesis
    unfolding out
    by (rule PolicyReconciler_converge_final_conflict [of env p2 c e])
      (use c r2 e in \<open>simp_all add: p2\<close>)
qed

text \<open>
  C9 (as the code has it). In a pass of the Policy reconciler on a resource that is not
  being deleted (and whose finalizer is present or has just been written), a conflict on
  a status write is never returned as an error. A conflict on the first status write
  ends the pass with a requeue after exactly one second (\<open>time.Second\<close>), no error, no
  remote call and the stored status as it was. When the first status write is accepted,
  the client is constructed and \<open>reconcilePolicy\<close> returns no error for the policy (its
  error depends on the spec, the recorded policy hash and the server only), a conflict on
  the last status write ends the pass with a requeue after one second and no error.
\<close>

theorem PolicyReconciler_status_conflict_requeues_after_one_second:
  "meta_DeletionTimestamp (obj_Meta policy) = None
     \<and> (ContainsFinalizer (obj_Meta policy) PolicyFinalizer \<or> env_Update env = None) \<longrightarrow>
   (\<forall>e. returned_err (PolicyReconciler_Reconcile env policy) = Some (ApiFailure e) \<longrightarrow>
         \<not> IsConflict e)
   \<and> (\<forall>e. env_StatusUpdate1 env = Some e \<and> IsConflict e \<longrightarrow>
         RequeueAfter (PolicyReconciler_Reconcile env policy) = Second
         \<and> returned_err (PolicyReconciler_Reconcile env policy) = None
         \<and> obj_Status (pass_stored (pass (PolicyReconciler_Reconcile env policy)))
             = obj_Status policy
         \<and> list_all (\<lambda>e. \<not> isRemoteCall e)
             (pass_events (pass (PolicyReconciler_Reconcile env policy))))
   \<and> (\<forall>e. env_StatusUpdate1 env = None
         \<and> \<not> isl (NewClient (env_k8s env) (env_sdk env) (ps_Connection (obj_Spec policy))
                     (meta_Namespace (obj_Meta policy)))
         \<and> returned_err (reconcilePolicy env (startPass policy)) = None
         \<and> env_StatusUpdate2 env = Some e \<and> IsConflict e \<longrightarrow>
         RequeueAfter (PolicyReconciler_Reconcile env policy) = Second
         \<and> returned_err (PolicyReconciler_Reconcile env policy) = None)
   \<and> Second = 1000000000"
proof (intro impI)
  assume a: "meta_DeletionTimestamp (obj_Meta policy) = None
     \<and> (ContainsFinalizer (obj_Meta policy) PolicyFinalizer \<or> env_Update env = None)"
  from a have a1: "meta_DeletionTimestamp (obj_Meta policy) = None"
    and a2: "ContainsFinalizer (obj_Meta policy) PolicyFinalizer \<or> env_Update env = None"
    by simp_all
  from PolicyReconciler_entry [OF a1 a2] obtain q where
    q: "PolicyReconciler_Reconcile env policy = PolicyReconciler_progress env q"
      "obj_Status (pass_stored q) = obj_Status policy"
      "obj_Spec (pass_stored q) = obj_Spec policy"
      "meta_Namespace (obj_Meta (pass_stored q)) = meta_Namespace (obj_Meta policy)"
      "list_all (\<lambda>e. \<not> isRemoteCall e) (pass_events q)"
      "obj_Spec (pass_obj q) = obj_Spec policy"
      "obj_Status (pass_obj q) = obj_Status policy"
    by auto
  have 1: "\<forall>e. returned_err (PolicyReconciler_Reconcile env policy) = Some (ApiFailure e) \<longrightarrow>
         \<not> IsConflict e"
    unfolding q(1) using PolicyReconciler_progress_no_conflict_returned [of env q] by blast
  have 2: "\<forall>e. env_StatusUpdate1 env = Some e \<and> IsConflict e \<longrightarrow>
         RequeueAfter (PolicyReconciler_Reconcile env policy) = Second
         \<and> returned_err (PolicyReconciler_Reconcile env policy) = None
         \<and> obj_Status (pass_stored (pass (PolicyReconciler_Reconcile env policy)))
             = obj_Status policy
         \<and> list_all (\<lambda>e. \<not> isRemoteCall e)
             (pass_events (pass (PolicyReconciler_Reconcile env policy)))"
  proof (intro allI impI)
    fix e assume e: "env_StatusUpdate1 env = Some e \<and> IsConflict e"
    from PolicyReconciler_progress_shape [where env = env and q = q] e obtain w1 where
      ev: "pass_events (pass (PolicyReconciler_progress env q))
             = pass_events q @ [StatusUpdateCall w1 (Some e)]"
      by auto
    from PolicyReconciler_progress_conflict [of env e q] e q(2,5) ev
    show "RequeueAfter (PolicyReconciler_Reconcile env policy) = Second
         \<and> returned_err (PolicyReconciler_Reconcile env policy) = None
         \<and> obj_Status (pass_stored (pass (PolicyReconciler_Reconcile env policy)))
             = obj_Status policy
         \<and> list_all (\<lambda>e. \<not> isRemoteCall e)
             (pass_events (pass (PolicyReconciler_Reconcile env policy)))"
      unfolding q(1) by simp
  qed
  have 3: "\<forall>e. env_StatusUpdate1 env = None
         \<and> \<not> isl (NewClient (env_k8s env) (env_sdk env) (ps_Connection (obj_Spec policy))
                     (meta_Namespace (obj_Meta policy)))
         \<and> returned_err (reconcilePolicy env (startPass policy)) = None
         \<and> env_StatusUpdate2 env = Some e \<and> IsConflict e \<longrightarrow>
         RequeueAfter (PolicyReconciler_Reconcile env policy) = Second
         \<and> returned_err (PolicyReconciler_Reconcile env policy) = None"
  proof (intro allI impI)
    fix e assume h: "env_StatusUpdate1 env = None
         \<and> \<not> isl (NewClient (env_k8s env) (env_sdk env) (ps_Connection (obj_Spec policy))
                     (meta_Namespace (obj_Meta policy)))
         \<and> returned_err (reconcilePolicy env (startPass policy)) = None
         \<and> env_StatusUpdate2 env = Some e \<and> IsConflict e"
    then obtain c where c: "NewClient (env_k8s env) (env_sdk env)
        (ps_Connection (obj_Spec policy)) (meta_Namespace (obj_Meta policy)) = Inr c"
      by (cases "NewClient (env_k8s env) (env_sdk env)
        (ps_Connection (obj_Spec policy)) (meta_Namespace (obj_Meta policy))") auto
    have "returned_err (reconcilePolicy env q)
            = returned_err (reconcilePolicy env (startPass policy))"
      by (rule reconcilePolicy_err_cong) (simp_all add: q(6,7) startPass_def)
    with h have r: "returned_err (reconcilePolicy env q) = None" by simp
    show "RequeueAfter (PolicyReconciler_Reconcile env policy) = Second
         \<and> returned_err (PolicyReconciler_Reconcile env policy) = None"
      unfolding q(1)
      by (rule PolicyReconciler_progress_final_conflict [of env q c e])
        (use h c r in \<open>simp_all add: q(3,4,6)\<close>)
  qed
  show "(\<forall>e. returned_err (PolicyReconciler_Reconcile env policy) = Some (ApiFailure e) \<longrightarrow>
         \<not> IsConflict e)
   \<and> (\<forall>e. env_StatusUpdate1 env = Some e \<and> IsConflict e \<longrightarrow>
         RequeueAfter (PolicyReconciler_Reconcile env policy) = Second
         \<and> returned_err (PolicyReconciler_Reconcile env policy) = None
         \<and> obj_Status (pass_stored (pass (PolicyReconciler_Reconcile env policy)))
             = obj_Status policy
         \<and> list_all (\<lambda>e. \<not> isRemoteCall e)
             (pass_events (pass (PolicyReconciler_Reconcile env policy))))
   \<and> (\<forall>e. env_StatusUpdate1 env = None
         \<and> \<not> isl (NewClient (env_k8s env) (env_sdk env) (ps_Connection (obj_Spec policy))
                     (meta_Namespace (obj_Meta policy)))
         \<and> returned_err (reconcilePolicy env (startPass policy)) = None
         \<and> env_StatusUpdate2 env = Some e \<and> IsConflict e \<longrightarrow>
         RequeueAfter (PolicyReconciler_Reconcile env policy) = Second
         \<and> returned_err (PolicyReconciler_Reconcile env policy) = None)
   \<and> Second = 1000000000"
    by (intro conjI 1 2 3) (simp add: Second_def)
qed

theorem PolicyReconciler_status_conflict_requeues_after_one_second_witness:
  "meta_DeletionTimestamp (obj_Meta (ex_policy ex_conn_alias [PolicyFinalizer] None)) = None
   \<and> ContainsFinalizer (obj_Meta (ex_policy ex_conn_alias [PolicyFinalizer] None))
        PolicyFinalizer
   \<and> env_StatusUpdate1 ex_conflict_env = Some (Conflict ''object was modified'')
   \<and> IsConflict (Conflict ''object was modified'')
   \<and> RequeueAfter (PolicyReconciler_Reconcile ex_conflict_env
        (ex_policy ex_conn_alias [PolicyFinalizer] None)) = Second
   \<and> returned_err (PolicyReconciler_Reconcile ex_conflict_env
        (ex_policy ex_conn_alias [PolicyFinalizer] None)) = None
   \<and> env_StatusUpdate1 ex_final_conflict_env = None
   \<and> \<not> isl (NewClient (env_k8s ex_final_conflict_env) (env_sdk ex_final_conflict_env)
              (ps_Connection (obj_Spec (ex_policy ex_conn_alias [PolicyFinalizer] None)))
              (meta_Namespace (obj_Meta (ex_policy ex_conn_alias [PolicyFinalizer] None))))
   \<and> returned_err (reconcilePolicy ex_final_conflict_env
        (startPass (ex_policy ex_conn_alias [PolicyFinalizer] None))) = None
   \<and> env_StatusUpdate2 ex_final_conflict_env = Some (Conflict ''object was modified'')
   \<and> RequeueAfter (PolicyReconciler_Reconcile ex_final_conflict_env
        (ex_policy ex_conn_alias [PolicyFinalizer] None)) = Second
   \<and> returned_err (PolicyReconciler_Reconcile ex_final_conflict_env
        (ex_policy ex_conn_alias [PolicyFinalizer] None)) = None"
proof -
  have h: "meta_DeletionTimestamp (obj_Meta (ex_policy ex_conn_alias [PolicyFinalizer] None))
             = None"
    "ContainsFinalizer (obj_Meta (ex_policy ex_conn_alias [PolicyFinalizer] None))
        PolicyFinalizer"
    "env_StatusUpdate1 ex_conflict_env = Some (Conflict ''object was modified'')"
    "IsConflict (Conflict ''object was modified'')"
    "env_StatusUpdate1 ex_final_conflict_env = None"
    "env_StatusUpdate2 ex_final_conflict_env = Some (Conflict ''object was modified'')"
    by (simp_all add: ex_policy_def ex_conflict_env_def ex_final_conflict_env_def ex_env_def
        ContainsFinalizer_def)
  have c: "\<not> isl (NewClient (env_k8s ex_final_conflict_env) (env_sdk ex_final_conflict_env)
              (ps_Connection (obj_Spec (ex_policy ex_conn_alias [PolicyFinalizer] None)))
              (meta_Namespace (obj_Meta (ex_policy ex_conn_alias [PolicyFinalizer] None))))"
    by (simp add: ex_final_conflict_env_def ex_env_def ex_policy_def ex_NewClient_alias)
  have r: "returned_err (reconcilePolicy ex_final_conflict_env
        (startPass (ex_policy ex_conn_alias [PolicyFinalizer] None))) = None"
    by (simp add: reconcilePolicy_def ex_final_conflict_env_def ex_env_def ex_server_def
        ex_policy_def startPass_def Let_def)
  note t = PolicyReconciler_status_conflict_requeues_after_one_second
    [THEN mp, OF conjI [OF h(1) disjI1 [OF h(2)]]]
  note a = t [of ex_conflict_env, THEN conjunct2, THEN conjunct1, THEN spec, THEN mp,
      OF conjI [OF h(3) h(4)]]
  note b = t [of ex_final_conflict_env, THEN conjunct2, THEN conjunct2, THEN conjunct1,
      THEN spec, THEN mp, OF conjI [OF h(5) conjI [OF c conjI [OF r conjI [OF h(6) h(4)]]]]]
  note 1 = a [THEN conjunct1] a [THEN conjunct2, THEN conjunct1]
  note 2 = b [THEN conjunct1] b [THEN conjunct2]
  show ?thesis
    by (intro conjI) (rule h c r 1 2)+
qed

text \<open>
  The claim C9 as stated fails twice. On a conflict of the first status write the Policy
  reconciler requeues after one full second, which is not below a second; and the User
  reconciler returns the conflict as the error of the pass.
\<close>

theorem status_conflict_counterexample:
  "RequeueAfter (PolicyReconciler_Reconcile ex_conflict_env
       (ex_policy ex_conn_alias [PolicyFinalizer] None)) = 1000000000
   \<and> \<not> RequeueAfter (PolicyReconciler_Reconcile ex_conflict_env
       (ex_policy ex_conn_alias [PolicyFinalizer] None)) < Second
   \<and> returned_err (UserReconciler_Reconcile ex_conflict_env
       (ex_user ex_conn_alias [UserFinalizer] None))
       = Some (ApiFailure (Conflict ''object was modified''))"
  by (simp add: PolicyReconciler_Reconcile_def PolicyReconciler_progress_def
      UserReconciler_Reconcile_def ex_conflict_env_def ex_env_def ex_policy_def ex_user_def
      ContainsFinalizer_def PolicyFinalizer_def UserFinalizer_def Second_def Let_def)

lemma removeFinalizerAndUpdate_shape:
  "RequeueAfter (removeFinalizerAndUpdate env f p) = 0
   \<and> returned_err (removeFinalizerAndUpdate env f p) = map_option ApiFailure (env_Update env)
   \<and> pass_events (pass (removeFinalizerAndUpdate env f p))
       = pass_events p
           @ [UpdateCall ((pass_obj p)\<lparr>obj_Meta := RemoveFinalizer (obj_Meta (pass_obj p)) f\<rparr>)
                (env_Update env)]
   \<and> pass_stored (pass (removeFinalizerAndUpdate env f p))
       = (if env_Update env = None
          then (pass_stored p)\<lparr>obj_Meta := RemoveFinalizer (obj_Meta (pass_obj p)) f,
                                obj_Spec := obj_Spec (pass_obj p)\<rparr>
          else pass_stored p)"
  by (simp add: removeFinalizerAndUpdate_def Update_shape setMeta_def)

lemma UserReconciler_teardown_lookup_failed:
  "meta_DeletionTimestamp (obj_Meta user) \<noteq> None \<Longrightarrow>
   ContainsFinalizer (obj_Meta user) UserFinalizer \<Longrightarrow>
   NewClient (env_k8s env) (env_sdk env) (us_Connection (obj_Spec user))
      (meta_Namespace (obj_Meta user)) = Inr c \<Longrightarrow>
   srv_GetUserInfo (env_server env) (us_Username (obj_Spec user)) = Some err \<Longrightarrow>
   pass_events (pass (UserReconciler_Reconcile env user))
     = [NewClientCall None, RemoteCall (GetUserInfo (us_Username (obj_Spec user))),
        UpdateCall (user\<lparr>obj_Meta := RemoveFinalizer (obj_Meta user) UserFinalizer\<rparr>)
          (env_Update env)]
   \<and> RequeueAfter (UserReconciler_Reconcile env user) = 0
   \<and> returned_err (UserReconciler_Reconcile env user) = map_option ApiFailure (env_Update env)
   \<and> (env_Update env = None \<longrightarrow>
        \<not> ContainsFinalizer
            (obj_Meta (pass_stored (pass (UserReconciler_Reconcile env user)))) UserFinalizer)"
  unfolding UserReconciler_Reconcile_def UserReconciler_handleDeletion_def Let_def
  by (simp add: removeFinalizerAndUpdate_shape ContainsFinalizer_RemoveFinalizer
      startPass_def remote_def clientCalled_def errOf_def)

lemma BucketReconciler_teardown_check_failed:
  "ContainsFinalizer (obj_Meta bucket) BucketFinalizer \<Longrightarrow>
   NewClient (env_k8s env) (env_sdk env) (bs_Connection (obj_Spec bucket))
      (meta_Namespace (obj_Meta bucket)) = Inr c \<Longrightarrow>
   srv_BucketExists (env_server env) (bs_BucketName (obj_Spec bucket)) = Inl err \<Longrightarrow>
   pass_events (pass (BucketReconciler_handleDeletion env (startPass bucket)))
     = [NewClientCall None, RemoteCall (BucketExists (bs_BucketName (obj_Spec bucket)))]
   \<and> RequeueAfter (BucketReconciler_handleDeletion env (startPass bucket)) = Minute
   \<and> returned_err (BucketReconciler_handleDeletion env (startPass bucket)) = None
   \<and> pass_stored (pass (BucketReconciler_handleDeletion env (startPass bucket))) = bucket"
  unfolding BucketReconciler_handleDeletion_def Let_def
  by (simp add: startPass_def remote_def clientCalled_def errOf_def)

text \<open>
  C2. The claim has the finalizer marker removed after a successful remote delete or once
  the remote object is confirmed absent, and left in place, with another attempt scheduled,
  when the cleanup fails. \<open>handleDeletion\<close> of the User reconciler takes every error of
  \<open>GetUserInfo\<close> for absence: when the lookup fails, for whatever reason, the pass
  issues no \<open>RemoveUser\<close>, removes the marker, writes the resource and schedules
  nothing; once the write is accepted the stored resource is without the marker, and the
  remote user was never deleted. \<open>handleDeletion\<close> of the Bucket reconciler, on a
  failed existence check, makes no further call, leaves the stored resource with its
  marker and asks for a requeue after a minute.
\<close>

theorem teardown_drops_finalizer_when_lookup_fails:
  "(meta_DeletionTimestamp (obj_Meta user) \<noteq> None
      \<and> ContainsFinalizer (obj_Meta user) UserFinalizer
      \<and> \<not> isl (NewClient (env_k8s env) (env_sdk env) (us_Connection (obj_Spec user))
                 (meta_Namespace (obj_Meta user)))
      \<and> srv_GetUserInfo (env_server env) (us_Username (obj_Spec user)) = Some err \<longrightarrow>
      pass_events (pass (UserReconciler_Reconcile env user))
        = [NewClientCall None, RemoteCall (GetUserInfo (us_Username (obj_Spec user))),
           UpdateCall (user\<lparr>obj_Meta := RemoveFinalizer (obj_Meta user) UserFinalizer\<rparr>)
             (env_Update env)]
      \<and> RequeueAfter (UserReconciler_Reconcile env user) = 0
      \<and> returned_err (UserReconciler_Reconcile env user)
          = map_option ApiFailure (env_Update env)
      \<and> (env_Update env = None \<longrightarrow>
           \<not> ContainsFinalizer
               (obj_Meta (pass_stored (pass (UserReconciler_Reconcile env user))))
               UserFinalizer))
   \<and> (ContainsFinalizer (obj_Meta bucket) BucketFinalizer
      \<and> \<not> isl (NewClient (env_k8s env) (env_sdk env) (bs_Connection (obj_Spec bucket))
                 (meta_Namespace (obj_Meta bucket)))
      \<and> srv_BucketExists (env_server env) (bs_BucketName (obj_Spec bucket)) = Inl err \<longrightarrow>
      pass_events (pass (BucketReconciler_handleDeletion env (startPass bucket)))
        = [NewClientCall None, RemoteCall (BucketExists (bs_BucketName (obj_Spec bucket)))]
      \<and> RequeueAfter (BucketReconciler_handleDeletion env (startPass bucket)) = Minute
      \<and> returned_err (BucketReconciler_handleDeletion env (startPass bucket)) = None
      \<and> pass_stored (pass (BucketReconciler_handleDeletion env (startPass bucket)))
          = bucket)"
proof (intro conjI impI)
  assume a: "meta_DeletionTimestamp (obj_Meta user) \<noteq> None
      \<and> ContainsFinalizer (obj_Meta user) UserFinalizer
      \<and> \<not> isl (NewClient (env_k8s env) (env_sdk env) (us_Connection (obj_Spec user))
                 (meta_Namespace (obj_Meta user)))
      \<and> srv_GetUserInfo (env_server env) (us_Username (obj_Spec user)) = Some err"
  then obtain c where c: "NewClient (env_k8s env) (env_sdk env)
      (us_Connection (obj_Spec user)) (meta_Namespace (obj_Meta user)) = Inr c"
    by (cases "NewClient (env_k8s env) (env_sdk env)
      (us_Connection (obj_Spec user)) (meta_Namespace (obj_Meta user))") auto
  note u = UserReconciler_teardown_lookup_failed
    [OF a [THEN conjunct1] a [THEN conjunct2, THEN conjunct1] c
      a [THEN conjunct2, THEN conjunct2, THEN conjunct2]]
  show "pass_events (pass (UserReconciler_Reconcile env user))
        = [NewClientCall None, RemoteCall (GetUserInfo (us_Username (obj_Spec user))),
           UpdateCall (user\<lparr>obj_Meta := RemoveFinalizer (obj_Meta user) UserFinalizer\<rparr>)
             (env_Update env)]"
    by (rule u [THEN conjunct1])
  show "RequeueAfter (UserReconciler_Reconcile env user) = 0"
    by (rule u [THEN conjunct2, THEN conjunct1])
  show "returned_err (UserReconciler_Reconcile env user)
          = map_option ApiFailure (env_Update env)"
    by (rule u [THEN conjunct2, THEN conjunct2, THEN conjunct1])
  show "\<not> ContainsFinalizer
               (obj_Meta (pass_stored (pass (UserReconciler_Reconcile env user))))
               UserFinalizer"
    if "env_Update env = None"
    using that u [THEN conjunct2, THEN conjunct2, THEN conjunct2] by simp
next
  assume a: "ContainsFinalizer (obj_Meta bucket) BucketFinalizer
      \<and> \<not> isl (NewClient (env_k8s env) (env_sdk env) (bs_Connection (obj_Spec bucket))
                 (meta_Namespace (obj_Meta bucket)))
      \<and> srv_BucketExists (env_server env) (bs_BucketName (obj_Spec bucket)) = Inl err"
  then obtain c where c: "NewClient (env_k8s env) (env_sdk env)
      (bs_Connection (obj_Spec bucket)) (meta_Namespace (obj_Meta bucket)) = Inr c"
    by (cases "NewClient (env_k8s env) (env_sdk env)
      (bs_Connection (obj_Spec bucket)) (meta_Namespace (obj_Meta bucket))") auto
  note b = BucketReconciler_teardown_check_failed
    [OF a [THEN conjunct1] c a [THEN conjunct2, THEN conjunct2]]
  show "pass_events (pass (BucketReconciler_handleDeletion env (startPass bucket)))
        = [NewClientCall None, RemoteCall (BucketExists (bs_BucketName (obj_Spec bucket)))]"
    by (rule b [THEN conjunct1])
  show "RequeueAfter (BucketReconciler_handleDeletion env (startPass bucket)) = Minute"
    by (rule b [THEN conjunct2, THEN conjunct1])
  show "returned_err (BucketReconciler_handleDeletion env (startPass bucket)) = None"
    by (rule b [THEN conjunct2, THEN conjunct2, THEN conjunct1])
  show "pass_stored (pass (BucketReconciler_handleDeletion env (startPass bucket))) = bucket"
    by (rule b [THEN conjunct2, THEN conjunct2, THEN conjunct2])
qed

theorem teardown_drops_finalizer_when_lookup_fails_witness:
  "meta_DeletionTimestamp (obj_Meta (ex_user ex_conn_alias [UserFinalizer] (Some 50))) \<noteq> None
   \<and> ContainsFinalizer (obj_Meta (ex_user ex_conn_alias [UserFinalizer] (Some 50)))
        UserFinalizer
   \<and> \<not> isl (NewClient (env_k8s ex_unreachable_env) (env_sdk ex_unreachable_env)
              (us_Connection (obj_Spec (ex_user ex_conn_alias [UserFinalizer] (Some 50))))
              (meta_Namespace (obj_Meta (ex_user ex_conn_alias [UserFinalizer] (Some 50)))))
   \<and> srv_GetUserInfo (env_server ex_unreachable_env) ''alice'' = Some ''connection refused''
   \<and> pass_events (pass (UserReconciler_Reconcile ex_unreachable_env
        (ex_user ex_conn_alias [UserFinalizer] (Some 50))))
       = [NewClientCall None, RemoteCall (GetUserInfo ''alice''),
          UpdateCall (ex_user ex_conn_alias [] (Some 50)) None]
   \<and> RequeueAfter (UserReconciler_Reconcile ex_unreachable_env
        (ex_user ex_conn_alias [UserFinalizer] (Some 50))) = 0
   \<and> returned_err (UserReconciler_Reconcile ex_unreachable_env
        (ex_user ex_conn_alias [UserFinalizer] (Some 50))) = None
   \<and> \<not> ContainsFinalizer (obj_Meta (pass_stored (pass (UserReconciler_Reconcile
        ex_unreachable_env (ex_user ex_conn_alias [UserFinalizer] (Some 50)))))) UserFinalizer
   \<and> ContainsFinalizer (obj_Meta (ex_bucket ex_conn_alias [BucketFinalizer] (Some 50)))
        BucketFinalizer
   \<and> srv_BucketExists (env_server ex_unreachable_env) ''data'' = Inl ''connection refused''
   \<and> pass_events (pass (BucketReconciler_handleDeletion ex_unreachable_env
        (startPass (ex_bucket ex_conn_alias [BucketFinalizer] (Some 50)))))
       = [NewClientCall None, RemoteCall (BucketExists ''data'')]
   \<and> RequeueAfter (BucketReconciler_handleDeletion ex_unreachable_env
        (startPass (ex_bucket ex_conn_alias [BucketFinalizer] (Some 50)))) = Minute
   \<and> pass_stored (pass (BucketReconciler_handleDeletion ex_unreachable_env
        (startPass (ex_bucket ex_conn_alias [BucketFinalizer] (Some 50)))))
       = ex_bucket ex_conn_alias [BucketFinalizer] (Some 50)"
proof -
  have h: "meta_DeletionTimestamp (obj_Meta (ex_user ex_conn_alias [UserFinalizer] (Some 50)))
             \<noteq> None"
    "ContainsFinalizer (obj_Meta (ex_user ex_conn_alias [UserFinalizer] (Some 50)))
        UserFinalizer"
    "\<not> isl (NewClient (env_k8s ex_unreachable_env) (env_sdk ex_unreachable_env)
              (us_Connection (obj_Spec (ex_user ex_conn_alias [UserFinalizer] (Some 50))))
              (meta_Namespace (obj_Meta (ex_user ex_conn_alias [UserFinalizer] (Some 50)))))"
    "srv_GetUserInfo (env_server ex_unreachable_env)
        (us_Username (obj_Spec (ex_user ex_conn_alias [UserFinalizer] (Some 50))))
       = Some ''connection refused''"
    "ContainsFinalizer (obj_Meta (ex_bucket ex_conn_alias [BucketFinalizer] (Some 50)))
        BucketFinalizer"
    "\<not> isl (NewClient (env_k8s ex_unreachable_env) (env_sdk ex_unreachable_env)
              (bs_Connection (obj_Spec (ex_bucket ex_conn_alias [BucketFinalizer] (Some 50))))
              (meta_Namespace (obj_Meta (ex_bucket ex_conn_alias [BucketFinalizer] (Some 50)))))"
    "srv_BucketExists (env_server ex_unreachable_env)
        (bs_BucketName (obj_Spec (ex_bucket ex_conn_alias [BucketFinalizer] (Some 50))))
       = Inl ''connection refused''"
    by (simp_all add: ex_user_def ex_bucket_def ex_unreachable_env_def ex_env_def
        ex_down_server_def ContainsFinalizer_def ex_NewClient_alias)
  have v: "us_Username (obj_Spec (ex_user ex_conn_alias [UserFinalizer] (Some 50))) = ''alice''"
    "bs_BucketName (obj_Spec (ex_bucket ex_conn_alias [BucketFinalizer] (Some 50))) = ''data''"
    "env_Update ex_unreachable_env = None"
    "(ex_user ex_conn_alias [UserFinalizer] (Some 50))\<lparr>obj_Meta :=
        RemoveFinalizer (obj_Meta (ex_user ex_conn_alias [UserFinalizer] (Some 50)))
          UserFinalizer\<rparr> = ex_user ex_conn_alias [] (Some 50)"
    by (simp_all add: ex_user_def ex_bucket_def ex_unreachable_env_def ex_env_def
        RemoveFinalizer_def)
  note t = teardown_drops_finalizer_when_lookup_fails
    [of "ex_user ex_conn_alias [UserFinalizer] (Some 50)" ex_unreachable_env
      "''connection refused''" "ex_bucket ex_conn_alias [BucketFinalizer] (Some 50)"]
  note u = t [THEN conjunct1, THEN mp, OF conjI [OF h(1) conjI [OF h(2) conjI [OF h(3) h(4)]]],
    unfolded v]
  note b = t [THEN conjunct2, THEN mp, OF conjI [OF h(5) conjI [OF h(6) h(7)]], unfolded v]
  from u b h show ?thesis
    unfolding v by simp
qed

end
